theory Spec2Isabelle
  imports Main "HOL-Library.Sublist"
begin

section \<open>Python values, as the BAR tools see them\<close>

text \<open>
  The tools exchange JSON with the DSA REST service and turn it into text. A Python
  \<open>str\<close> is modelled by its UTF-8 bytes (\<open>string\<close>), so the pictographs of the
  messages are the byte sequences below. A JSON document is what \<open>json\<close> decodes it to:
  \<open>None\<close>, \<open>bool\<close>, \<open>int\<close>, \<open>str\<close>, \<open>list\<close> and \<open>dict\<close> (an association list in
  insertion order; \<open>map_of\<close> is the lookup). Numbers are integers, as every number of the
  service's envelope is.
\<close>

datatype json =
    JNull
  | JBool bool
  | JInt int
  | JStr string
  | JList "json list"
  | JObj "(string \<times> json) list"

text \<open>
  The exceptions that can reach an \<open>except Exception\<close> of the module: the one the request
  collaborator raises, and the two the interpreter raises on a value of the wrong type.
  \<open>json.loads\<close> raises \<open>JSONDecodeError\<close>. Each carries the text of \<open>str(e)\<close>.
\<close>

datatype error =
    RequestError string
  | AttributeError string
  | TypeError string
  | JSONDecodeError string

fun str_of_error :: "error \<Rightarrow> string" where
  "str_of_error (RequestError m) = m"
| "str_of_error (AttributeError m) = m"
| "str_of_error (TypeError m) = m"
| "str_of_error (JSONDecodeError m) = m"

definition bind :: "error + 'a \<Rightarrow> ('a \<Rightarrow> error + 'b) \<Rightarrow> error + 'b" where
  "bind m f = (case m of Inl e \<Rightarrow> Inl e | Inr x \<Rightarrow> f x)"

abbreviation apostrophe :: string where
  "apostrophe \<equiv> [CHR 0x27]"

abbreviation newline :: string where
  "newline \<equiv> [CHR 0x0A]"

fun type_name :: "json \<Rightarrow> string" where
  "type_name JNull = ''NoneType''"
| "type_name (JBool _) = ''bool''"
| "type_name (JInt _) = ''int''"
| "type_name (JStr _) = ''str''"
| "type_name (JList _) = ''list''"
| "type_name (JObj _) = ''dict''"

text \<open>\<open>obj.get(key, default)\<close>: only a \<open>dict\<close> has the method.\<close>

fun py_get :: "json \<Rightarrow> string \<Rightarrow> json \<Rightarrow> error + json" where
  "py_get (JObj kvs) k d = Inr (case map_of kvs k of Some v \<Rightarrow> v | None \<Rightarrow> d)"
| "py_get v k d =
     Inl (AttributeError (apostrophe @ type_name v @ apostrophe @ '' object has no attribute ''
        @ apostrophe @ ''get'' @ apostrophe))"

text \<open>Truth value of an object in \<open>if x\<close> and \<open>not x\<close>.\<close>

fun truthy :: "json \<Rightarrow> bool" where
  "truthy JNull = False"
| "truthy (JBool b) = b"
| "truthy (JInt i) = (i \<noteq> 0)"
| "truthy (JStr s) = (s \<noteq> [])"
| "truthy (JList xs) = (xs \<noteq> [])"
| "truthy (JObj kvs) = (kvs \<noteq> [])"

text \<open>
  A \<open>str\<close> is a sequence of code points: in UTF-8 a code point is a lead byte and the
  continuation bytes (\<open>0x80\<close> to \<open>0xBF\<close>) that follow it.
\<close>

definition is_continuation :: "char \<Rightarrow> bool" where
  "is_continuation c = ((0x80 :: nat) \<le> of_char c \<and> (of_char c :: nat) < 0xC0)"

function utf8_chars :: "string \<Rightarrow> string list" where
  "utf8_chars [] = []"
| "utf8_chars (c # cs) =
     (c # takeWhile is_continuation cs) # utf8_chars (dropWhile is_continuation cs)"
  by pat_completeness auto
termination
  by (relation "measure length") (auto simp: length_dropWhile_le less_Suc_eq_le)

text \<open>\<open>for x in v\<close>: a list gives its items, a dict its keys, a str its characters.\<close>

fun py_iter :: "json \<Rightarrow> error + json list" where
  "py_iter (JList xs) = Inr xs"
| "py_iter (JObj kvs) = Inr (map (\<lambda>kv. JStr (fst kv)) kvs)"
| "py_iter (JStr s) = Inr (map JStr (utf8_chars s))"
| "py_iter v =
     Inl (TypeError (apostrophe @ type_name v @ apostrophe @ '' object is not iterable''))"

fun py_len :: "json \<Rightarrow> error + nat" where
  "py_len (JList xs) = Inr (length xs)"
| "py_len (JObj kvs) = Inr (length kvs)"
| "py_len (JStr s) = Inr (length (utf8_chars s))"
| "py_len v =
     Inl (TypeError (''object of type '' @ apostrophe @ type_name v @ apostrophe
        @ '' has no len()''))"

subsection \<open>\<open>str()\<close> and \<open>repr()\<close>\<close>

definition digit_char :: "nat \<Rightarrow> char" where
  "digit_char d = char_of (of_char CHR ''0'' + d)"

fun dec_nat :: "nat \<Rightarrow> string" where
  "dec_nat n = (if n < 10 then [digit_char n] else dec_nat (n div 10) @ [digit_char (n mod 10)])"

declare dec_nat.simps [simp del]

definition dec_int :: "int \<Rightarrow> string" where
  "dec_int i = (if i < 0 then ''-'' @ dec_nat (nat (- i)) else dec_nat (nat i))"

definition hex_digit :: "nat \<Rightarrow> char" where
  "hex_digit d = (if d < 10 then digit_char d else char_of (of_char CHR ''a'' + (d - 10)))"

text \<open>\<open>n\<close> in hexadecimal, on \<open>w\<close> digits.\<close>

fun hex_fixed :: "nat \<Rightarrow> nat \<Rightarrow> string" where
  "hex_fixed 0 n = []"
| "hex_fixed (Suc w) n = hex_fixed w (n div 16) @ [hex_digit (n mod 16)]"

text \<open>The code point that the bytes of one UTF-8 character stand for.\<close>

fun code_point :: "string \<Rightarrow> nat" where
  "code_point [b0] = of_char b0"
| "code_point [b0, b1] = (of_char b0 - 0xC0) * 64 + (of_char b1 - 0x80)"
| "code_point [b0, b1, b2] =
     (of_char b0 - 0xE0) * 4096 + (of_char b1 - 0x80) * 64 + (of_char b2 - 0x80)"
| "code_point [b0, b1, b2, b3] =
     (of_char b0 - 0xF0) * 262144 + (of_char b1 - 0x80) * 4096 + (of_char b2 - 0x80) * 64
       + (of_char b3 - 0x80)"
| "code_point bs = 0"

text \<open>
  The code points from \<open>0x80\<close> on for which \<open>str.isprintable()\<close> is false, as ranges
  with both ends included: the categories Cc, Cf, Cs, Co, Cn, Zl, Zp and Zs of the Unicode
  database that CPython 3.11 carries (Unicode 14.0).
\<close>

definition unprintable_ranges :: "(nat \<times> nat) list" where
  "unprintable_ranges =
     [(128, 160), (173, 173), (888, 889), (896, 899), (907, 907), (909, 909), (930, 930),
      (1328, 1328), (1367, 1368), (1419, 1420), (1424, 1424), (1480, 1487), (1515, 1518),
      (1525, 1541), (1564, 1564), (1757, 1757), (1806, 1807), (1867, 1868), (1970, 1983),
      (2043, 2044), (2094, 2095), (2111, 2111), (2140, 2141), (2143, 2143), (2155, 2159),
      (2191, 2199), (2274, 2274), (2436, 2436), (2445, 2446), (2449, 2450), (2473, 2473),
      (2481, 2481), (2483, 2485), (2490, 2491), (2501, 2502), (2505, 2506), (2511, 2518),
      (2520, 2523), (2526, 2526), (2532, 2533), (2559, 2560), (2564, 2564), (2571, 2574),
      (2577, 2578), (2601, 2601), (2609, 2609), (2612, 2612), (2615, 2615), (2618, 2619),
      (2621, 2621), (2627, 2630), (2633, 2634), (2638, 2640), (2642, 2648), (2653, 2653),
      (2655, 2661), (2679, 2688), (2692, 2692), (2702, 2702), (2706, 2706), (2729, 2729),
      (2737, 2737), (2740, 2740), (2746, 2747), (2758, 2758), (2762, 2762), (2766, 2767),
      (2769, 2783), (2788, 2789), (2802, 2808), (2816, 2816), (2820, 2820), (2829, 2830),
      (2833, 2834), (2857, 2857), (2865, 2865), (2868, 2868), (2874, 2875), (2885, 2886),
      (2889, 2890), (2894, 2900), (2904, 2907), (2910, 2910), (2916, 2917), (2936, 2945),
      (2948, 2948), (2955, 2957), (2961, 2961), (2966, 2968), (2971, 2971), (2973, 2973),
      (2976, 2978), (2981, 2983), (2987, 2989), (3002, 3005), (3011, 3013), (3017, 3017),
      (3022, 3023), (3025, 3030), (3032, 3045), (3067, 3071), (3085, 3085), (3089, 3089),
      (3113, 3113), (3130, 3131), (3141, 3141), (3145, 3145), (3150, 3156), (3159, 3159),
      (3163, 3164), (3166, 3167), (3172, 3173), (3184, 3190), (3213, 3213), (3217, 3217),
      (3241, 3241), (3252, 3252), (3258, 3259), (3269, 3269), (3273, 3273), (3278, 3284),
      (3287, 3292), (3295, 3295), (3300, 3301), (3312, 3312), (3315, 3327), (3341, 3341),
      (3345, 3345), (3397, 3397), (3401, 3401), (3408, 3411), (3428, 3429), (3456, 3456),
      (3460, 3460), (3479, 3481), (3506, 3506), (3516, 3516), (3518, 3519), (3527, 3529),
      (3531, 3534), (3541, 3541), (3543, 3543), (3552, 3557), (3568, 3569), (3573, 3584),
      (3643, 3646), (3676, 3712), (3715, 3715), (3717, 3717), (3723, 3723), (3748, 3748),
      (3750, 3750), (3774, 3775), (3781, 3781), (3783, 3783), (3790, 3791), (3802, 3803),
      (3808, 3839), (3912, 3912), (3949, 3952), (3992, 3992), (4029, 4029), (4045, 4045),
      (4059, 4095), (4294, 4294), (4296, 4300), (4302, 4303), (4681, 4681), (4686, 4687),
      (4695, 4695), (4697, 4697), (4702, 4703), (4745, 4745), (4750, 4751), (4785, 4785),
      (4790, 4791), (4799, 4799), (4801, 4801), (4806, 4807), (4823, 4823), (4881, 4881),
      (4886, 4887), (4955, 4956), (4989, 4991), (5018, 5023), (5110, 5111), (5118, 5119),
      (5760, 5760), (5789, 5791), (5881, 5887), (5910, 5918), (5943, 5951), (5972, 5983),
      (5997, 5997), (6001, 6001), (6004, 6015), (6110, 6111), (6122, 6127), (6138, 6143),
      (6158, 6158), (6170, 6175), (6265, 6271), (6315, 6319), (6390, 6399), (6431, 6431),
      (6444, 6447), (6460, 6463), (6465, 6467), (6510, 6511), (6517, 6527), (6572, 6575),
      (6602, 6607), (6619, 6621), (6684, 6685), (6751, 6751), (6781, 6782), (6794, 6799),
      (6810, 6815), (6830, 6831), (6863, 6911), (6989, 6991), (7039, 7039), (7156, 7163),
      (7224, 7226), (7242, 7244), (7305, 7311), (7355, 7356), (7368, 7375), (7419, 7423),
      (7958, 7959), (7966, 7967), (8006, 8007), (8014, 8015), (8024, 8024), (8026, 8026),
      (8028, 8028), (8030, 8030), (8062, 8063), (8117, 8117), (8133, 8133), (8148, 8149),
      (8156, 8156), (8176, 8177), (8181, 8181), (8191, 8207), (8232, 8239), (8287, 8303),
      (8306, 8307), (8335, 8335), (8349, 8351), (8385, 8399), (8433, 8447), (8588, 8591),
      (9255, 9279), (9291, 9311), (11124, 11125), (11158, 11158), (11508, 11512),
      (11558, 11558), (11560, 11564), (11566, 11567), (11624, 11630), (11633, 11646),
      (11671, 11679), (11687, 11687), (11695, 11695), (11703, 11703), (11711, 11711),
      (11719, 11719), (11727, 11727), (11735, 11735), (11743, 11743), (11870, 11903),
      (11930, 11930), (12020, 12031), (12246, 12271), (12284, 12288), (12352, 12352),
      (12439, 12440), (12544, 12548), (12592, 12592), (12687, 12687), (12772, 12783),
      (12831, 12831), (42125, 42127), (42183, 42191), (42540, 42559), (42744, 42751),
      (42955, 42959), (42962, 42962), (42964, 42964), (42970, 42993), (43053, 43055),
      (43066, 43071), (43128, 43135), (43206, 43213), (43226, 43231), (43348, 43358),
      (43389, 43391), (43470, 43470), (43482, 43485), (43519, 43519), (43575, 43583),
      (43598, 43599), (43610, 43611), (43715, 43738), (43767, 43776), (43783, 43784),
      (43791, 43792), (43799, 43807), (43815, 43815), (43823, 43823), (43884, 43887),
      (44014, 44015), (44026, 44031), (55204, 55215), (55239, 55242), (55292, 63743),
      (64110, 64111), (64218, 64255), (64263, 64274), (64280, 64284), (64311, 64311),
      (64317, 64317), (64319, 64319), (64322, 64322), (64325, 64325), (64451, 64466),
      (64912, 64913), (64968, 64974), (64976, 65007), (65050, 65055), (65107, 65107),
      (65127, 65127), (65132, 65135), (65141, 65141), (65277, 65280), (65471, 65473),
      (65480, 65481), (65488, 65489), (65496, 65497), (65501, 65503), (65511, 65511),
      (65519, 65531), (65534, 65535), (65548, 65548), (65575, 65575), (65595, 65595),
      (65598, 65598), (65614, 65615), (65630, 65663), (65787, 65791), (65795, 65798),
      (65844, 65846), (65935, 65935), (65949, 65951), (65953, 65999), (66046, 66175),
      (66205, 66207), (66257, 66271), (66300, 66303), (66340, 66348), (66379, 66383),
      (66427, 66431), (66462, 66462), (66500, 66503), (66518, 66559), (66718, 66719),
      (66730, 66735), (66772, 66775), (66812, 66815), (66856, 66863), (66916, 66926),
      (66939, 66939), (66955, 66955), (66963, 66963), (66966, 66966), (66978, 66978),
      (66994, 66994), (67002, 67002), (67005, 67071), (67383, 67391), (67414, 67423),
      (67432, 67455), (67462, 67462), (67505, 67505), (67515, 67583), (67590, 67591),
      (67593, 67593), (67638, 67638), (67641, 67643), (67645, 67646), (67670, 67670),
      (67743, 67750), (67760, 67807), (67827, 67827), (67830, 67834), (67868, 67870),
      (67898, 67902), (67904, 67967), (68024, 68027), (68048, 68049), (68100, 68100),
      (68103, 68107), (68116, 68116), (68120, 68120), (68150, 68151), (68155, 68158),
      (68169, 68175), (68185, 68191), (68256, 68287), (68327, 68330), (68343, 68351),
      (68406, 68408), (68438, 68439), (68467, 68471), (68498, 68504), (68509, 68520),
      (68528, 68607), (68681, 68735), (68787, 68799), (68851, 68857), (68904, 68911),
      (68922, 69215), (69247, 69247), (69290, 69290), (69294, 69295), (69298, 69375),
      (69416, 69423), (69466, 69487), (69514, 69551), (69580, 69599), (69623, 69631),
      (69710, 69713), (69750, 69758), (69821, 69821), (69827, 69839), (69865, 69871),
      (69882, 69887), (69941, 69941), (69960, 69967), (70007, 70015), (70112, 70112),
      (70133, 70143), (70162, 70162), (70207, 70271), (70279, 70279), (70281, 70281),
      (70286, 70286), (70302, 70302), (70314, 70319), (70379, 70383), (70394, 70399),
      (70404, 70404), (70413, 70414), (70417, 70418), (70441, 70441), (70449, 70449),
      (70452, 70452), (70458, 70458), (70469, 70470), (70473, 70474), (70478, 70479),
      (70481, 70486), (70488, 70492), (70500, 70501), (70509, 70511), (70517, 70655),
      (70748, 70748), (70754, 70783), (70856, 70863), (70874, 71039), (71094, 71095),
      (71134, 71167), (71237, 71247), (71258, 71263), (71277, 71295), (71354, 71359),
      (71370, 71423), (71451, 71452), (71468, 71471), (71495, 71679), (71740, 71839),
      (71923, 71934), (71943, 71944), (71946, 71947), (71956, 71956), (71959, 71959),
      (71990, 71990), (71993, 71994), (72007, 72015), (72026, 72095), (72104, 72105),
      (72152, 72153), (72165, 72191), (72264, 72271), (72355, 72367), (72441, 72703),
      (72713, 72713), (72759, 72759), (72774, 72783), (72813, 72815), (72848, 72849),
      (72872, 72872), (72887, 72959), (72967, 72967), (72970, 72970), (73015, 73017),
      (73019, 73019), (73022, 73022), (73032, 73039), (73050, 73055), (73062, 73062),
      (73065, 73065), (73103, 73103), (73106, 73106), (73113, 73119), (73130, 73439),
      (73465, 73647), (73649, 73663), (73714, 73726), (74650, 74751), (74863, 74863),
      (74869, 74879), (75076, 77711), (77811, 77823), (78895, 82943), (83527, 92159),
      (92729, 92735), (92767, 92767), (92778, 92781), (92863, 92863), (92874, 92879),
      (92910, 92911), (92918, 92927), (92998, 93007), (93018, 93018), (93026, 93026),
      (93048, 93052), (93072, 93759), (93851, 93951), (94027, 94030), (94088, 94094),
      (94112, 94175), (94181, 94191), (94194, 94207), (100344, 100351), (101590, 101631),
      (101641, 110575), (110580, 110580), (110588, 110588), (110591, 110591),
      (110883, 110927), (110931, 110947), (110952, 110959), (111356, 113663),
      (113771, 113775), (113789, 113791), (113801, 113807), (113818, 113819),
      (113824, 118527), (118574, 118575), (118599, 118607), (118724, 118783),
      (119030, 119039), (119079, 119080), (119155, 119162), (119275, 119295),
      (119366, 119519), (119540, 119551), (119639, 119647), (119673, 119807),
      (119893, 119893), (119965, 119965), (119968, 119969), (119971, 119972),
      (119975, 119976), (119981, 119981), (119994, 119994), (119996, 119996),
      (120004, 120004), (120070, 120070), (120075, 120076), (120085, 120085),
      (120093, 120093), (120122, 120122), (120127, 120127), (120133, 120133),
      (120135, 120137), (120145, 120145), (120486, 120487), (120780, 120781),
      (121484, 121498), (121504, 121504), (121520, 122623), (122655, 122879),
      (122887, 122887), (122905, 122906), (122914, 122914), (122917, 122917),
      (122923, 123135), (123181, 123183), (123198, 123199), (123210, 123213),
      (123216, 123535), (123567, 123583), (123642, 123646), (123648, 124895),
      (124903, 124903), (124908, 124908), (124911, 124911), (124927, 124927),
      (125125, 125126), (125143, 125183), (125260, 125263), (125274, 125277),
      (125280, 126064), (126133, 126208), (126270, 126463), (126468, 126468),
      (126496, 126496), (126499, 126499), (126501, 126502), (126504, 126504),
      (126515, 126515), (126520, 126520), (126522, 126522), (126524, 126529),
      (126531, 126534), (126536, 126536), (126538, 126538), (126540, 126540),
      (126544, 126544), (126547, 126547), (126549, 126550), (126552, 126552),
      (126554, 126554), (126556, 126556), (126558, 126558), (126560, 126560),
      (126563, 126563), (126565, 126566), (126571, 126571), (126579, 126579),
      (126584, 126584), (126589, 126589), (126591, 126591), (126602, 126602),
      (126620, 126624), (126628, 126628), (126634, 126634), (126652, 126703),
      (126706, 126975), (127020, 127023), (127124, 127135), (127151, 127152),
      (127168, 127168), (127184, 127184), (127222, 127231), (127406, 127461),
      (127491, 127503), (127548, 127551), (127561, 127567), (127570, 127583),
      (127590, 127743), (128728, 128732), (128749, 128751), (128765, 128767),
      (128884, 128895), (128985, 128991), (129004, 129007), (129009, 129023),
      (129036, 129039), (129096, 129103), (129114, 129119), (129160, 129167),
      (129198, 129199), (129202, 129279), (129620, 129631), (129646, 129647),
      (129653, 129655), (129661, 129663), (129671, 129679), (129709, 129711),
      (129723, 129727), (129734, 129743), (129754, 129759), (129768, 129775),
      (129783, 129791), (129939, 129939), (129995, 130031), (130042, 131071),
      (173792, 173823), (177977, 177983), (178206, 178207), (183970, 183983),
      (191457, 194559), (195102, 196607), (201547, 917759), (918000, 1114111)]"

definition printable :: "nat \<Rightarrow> bool" where
  "printable cp = (\<not> list_ex (\<lambda>r. fst r \<le> cp \<and> cp \<le> snd r) unprintable_ranges)"

text \<open>
  \<open>repr\<close> of a \<open>str\<close>: double quotes when the text has a single quote and no double
  quote, single quotes otherwise; the backslash, the chosen quote, the control characters
  and the code points that are not printable are escaped, each character in turn.
  An \<open>int\<close> prints in full: the interpreter's limit on the number of digits it converts
  is not part of the model.
\<close>

definition repr_char :: "char \<Rightarrow> string \<Rightarrow> string" where
  "repr_char q c =
     (let cp = code_point c in
      if c = [CHR 0x5C] then [CHR 0x5C, CHR 0x5C]
      else if c = [q] then [CHR 0x5C, q]
      else if cp = 0x09 then [CHR 0x5C, CHR ''t'']
      else if cp = 0x0A then [CHR 0x5C, CHR ''n'']
      else if cp = 0x0D then [CHR 0x5C, CHR ''r'']
      else if cp < 0x20 \<or> cp = 0x7F then [CHR 0x5C, CHR ''x''] @ hex_fixed 2 cp
      else if cp < 0x7F then c
      else if printable cp then c
      else if cp < 0x100 then [CHR 0x5C, CHR ''x''] @ hex_fixed 2 cp
      else if cp < 0x10000 then [CHR 0x5C, CHR ''u''] @ hex_fixed 4 cp
      else [CHR 0x5C, CHR ''U''] @ hex_fixed 8 cp)"

definition repr_str :: "string \<Rightarrow> string" where
  "repr_str s =
     (let q = (if CHR 0x27 \<in> set s \<and> CHR 0x22 \<notin> set s then CHR 0x22 else CHR 0x27)
      in [q] @ concat (map (repr_char q) (utf8_chars s)) @ [q])"

fun py_join :: "string \<Rightarrow> string list \<Rightarrow> string" where
  "py_join sep [] = []"
| "py_join sep [x] = x"
| "py_join sep (x # y # ys) = x @ sep @ py_join sep (y # ys)"

fun py_repr :: "json \<Rightarrow> string" where
  "py_repr JNull = ''None''"
| "py_repr (JBool b) = (if b then ''True'' else ''False'')"
| "py_repr (JInt i) = dec_int i"
| "py_repr (JStr s) = repr_str s"
| "py_repr (JList xs) = ''['' @ py_join '', '' (map py_repr xs) @ '']''"
| "py_repr (JObj kvs) =
     ''{'' @ py_join '', '' (map (\<lambda>kv. repr_str (fst kv) @ '': '' @ py_repr (snd kv)) kvs) @ ''}''"

text \<open>\<open>str(v)\<close>, which is also what an f-string field \<open>{v}\<close> inserts.\<close>

fun py_str :: "json \<Rightarrow> string" where
  "py_str (JStr s) = s"
| "py_str v = py_repr v"


text \<open>A loop whose body may raise: the first exception ends it.\<close>

fun map_err :: "('a \<Rightarrow> error + 'b) \<Rightarrow> 'a list \<Rightarrow> error + 'b list" where
  "map_err f [] = Inr []"
| "map_err f (x # xs) = bind (f x) (\<lambda>y. bind (map_err f xs) (\<lambda>ys. Inr (y # ys)))"

subsection \<open>The pictographs of the messages\<close>

abbreviation card_index_dividers :: string where
  "card_index_dividers \<equiv> [CHR 0xF0, CHR 0x9F, CHR 0x97, CHR 0x82, CHR 0xEF, CHR 0xB8, CHR 0x8F]"

abbreviation bar_chart :: string where
  "bar_chart \<equiv> [CHR 0xF0, CHR 0x9F, CHR 0x93, CHR 0x8A]"

abbreviation file_folder :: string where
  "file_folder \<equiv> [CHR 0xF0, CHR 0x9F, CHR 0x93, CHR 0x81]"

abbreviation page_facing_up :: string where
  "page_facing_up \<equiv> [CHR 0xF0, CHR 0x9F, CHR 0x93, CHR 0x84]"

abbreviation clipboard :: string where
  "clipboard \<equiv> [CHR 0xF0, CHR 0x9F, CHR 0x93, CHR 0x8B]"

abbreviation check_mark_button :: string where
  "check_mark_button \<equiv> [CHR 0xE2, CHR 0x9C, CHR 0x85]"

abbreviation magnifying_glass :: string where
  "magnifying_glass \<equiv> [CHR 0xF0, CHR 0x9F, CHR 0x94, CHR 0x8D]"

abbreviation heavy_check_mark :: string where
  "heavy_check_mark \<equiv> [CHR 0xE2, CHR 0x9C, CHR 0x94, CHR 0xEF, CHR 0xB8, CHR 0x8F]"

abbreviation cross_mark :: string where
  "cross_mark \<equiv> [CHR 0xE2, CHR 0x9D, CHR 0x8C]"

abbreviation arrows_button :: string where
  "arrows_button \<equiv> [CHR 0xF0, CHR 0x9F, CHR 0x94, CHR 0x84]"

abbreviation bullet :: string where
  "bullet \<equiv> [CHR 0xE2, CHR 0x80, CHR 0xA2]"

abbreviation bookmark :: string where
  "bookmark \<equiv> [CHR 0xF0, CHR 0x9F, CHR 0x94, CHR 0x96]"

abbreviation rule50 :: string where
  "rule50 \<equiv> replicate 50 CHR ''=''"

section \<open>The request collaborator\<close>

text \<open>
  \<open>dsa_client._make_request(method, endpoint, data, params, headers)\<close> is the one way
  out of the module; \<open>dsa_client.py\<close> is not part of the sources, so the service is a
  parameter \<open>srv\<close>: given the requests made so far and the next one, it either raises
  (\<open>Inl\<close>, with the text of the exception) or answers with a JSON document. Every call
  is recorded, in order, in the log that the operations thread through.
\<close>

record request =
  "method" :: string
  endpoint :: string
  data :: "json option"
  params :: "(string \<times> string) list option"
  headers :: "(string \<times> string) list option"

type_synonym server = "request list \<Rightarrow> request \<Rightarrow> string + json"

definition make_request :: "server \<Rightarrow> request list \<Rightarrow> request \<Rightarrow> (error + json) \<times> request list" where
  "make_request srv log req =
     ((case srv log req of Inl msg \<Rightarrow> Inl (RequestError msg) | Inr response \<Rightarrow> Inr response),
      log @ [req])"

section \<open>Disk file systems\<close>

definition disk_file_system_endpoint :: string where
  "disk_file_system_endpoint = ''dsa/components/backup-applications/disk-file-system''"

definition list_request :: request where
  "list_request =
     \<lparr>method = ''GET'', endpoint = disk_file_system_endpoint,
      data = None, params = None, headers = None\<rparr>"

definition config_request :: "json list \<Rightarrow> request" where
  "config_request file_systems =
     \<lparr>method = ''POST'', endpoint = disk_file_system_endpoint,
      data = Some (JObj [(''fileSystems'', JList file_systems)]), params = None, headers = None\<rparr>"

text \<open>
  The block "Show validation errors if any", which \<open>config_disk_file_system\<close>,
  \<open>delete_disk_file_systems\<close> and \<open>remove_disk_file_system\<close> each carry, word for word.
\<close>

definition server_error_lines :: "json \<Rightarrow> error + string list" where
  "server_error_lines err =
     bind (py_get err ''message'' (JStr ''Unknown error'')) (\<lambda>message.
     bind (py_get err ''code'' (JStr ''N/A'')) (\<lambda>code.
     bind (py_get err ''valStatus'' (JStr ''N/A'')) (\<lambda>val_status.
     Inr [cross_mark @ '' Server Error: '' @ py_str message,
          ''   Code: '' @ py_str code,
          ''   Status: '' @ py_str val_status])))"

definition client_error_lines :: "json \<Rightarrow> error + string list" where
  "client_error_lines err =
     bind (py_get err ''message'' (JStr ''Unknown error'')) (\<lambda>message.
     Inr [cross_mark @ '' Client Error: '' @ py_str message])"

definition validation_details :: "json \<Rightarrow> error + string list" where
  "validation_details response =
     bind (py_get response ''validationlist'' JNull) (\<lambda>validation.
     if truthy validation then
       bind (py_get validation ''serverValidationList'' JNull) (\<lambda>server_list.
       bind (if truthy server_list
             then bind (py_iter server_list) (\<lambda>errs.
                  bind (map_err server_error_lines errs) (\<lambda>ls. Inr (concat ls)))
             else Inr []) (\<lambda>server_lines.
       bind (py_get validation ''clientValidationList'' JNull) (\<lambda>client_list.
       bind (if truthy client_list
             then bind (py_iter client_list) (\<lambda>errs.
                  bind (map_err client_error_lines errs) (\<lambda>ls. Inr (concat ls)))
             else Inr []) (\<lambda>client_lines.
       Inr ([[], magnifying_glass @ '' Validation Details:''] @ server_lines @ client_lines)))))
     else Inr [])"

subsection \<open>\<open>config_disk_file_system\<close>\<close>

text \<open>
  The inner \<open>try\<close>: the collection the service holds now. Whatever goes wrong (the
  request raises, the response is no dict, \<open>len\<close> in the log line raises) and whatever
  status other than success comes back, the operation goes on with the empty list.
\<close>

definition config_existing_file_systems :: "server \<Rightarrow> request list \<Rightarrow> json \<times> request list" where
  "config_existing_file_systems srv log =
     (let (r, log1) = make_request srv log list_request in
      ((case bind r (\<lambda>existing_response.
               bind (py_get existing_response ''status'' JNull) (\<lambda>status.
               if status = JStr ''LIST_DISK_FILE_SYSTEMS_SUCCESSFUL'' then
                 bind (py_get existing_response ''fileSystems'' (JList [])) (\<lambda>file_systems.
                 bind (py_len file_systems) (\<lambda>_. Inr file_systems))
               else Inr (JList [])))
        of Inl e \<Rightarrow> JList [] | Inr file_systems \<Rightarrow> file_systems), log1))"

definition new_file_system :: "string \<Rightarrow> int \<Rightarrow> json" where
  "new_file_system file_system_path max_files =
     JObj [(''fileSystemPath'', JStr file_system_path), (''maxFiles'', JInt max_files)]"

text \<open>
  The \<open>for fs in existing_file_systems\<close> loop, with its two variables
  \<open>file_systems_to_configure\<close> and \<open>path_exists\<close> as the accumulator.
\<close>

fun config_scan :: "string \<Rightarrow> int \<Rightarrow> json list \<Rightarrow> json list \<times> bool \<Rightarrow> error + json list \<times> bool" where
  "config_scan file_system_path max_files [] acc = Inr acc"
| "config_scan file_system_path max_files (fs # rest) (file_systems_to_configure, path_exists) =
     bind (py_get fs ''fileSystemPath'' JNull) (\<lambda>p.
       if p = JStr file_system_path
       then config_scan file_system_path max_files rest
              (file_systems_to_configure @ [new_file_system file_system_path max_files], True)
       else config_scan file_system_path max_files rest
              (file_systems_to_configure @ [fs], path_exists))"

definition config_merge :: "string \<Rightarrow> int \<Rightarrow> json \<Rightarrow> error + json list \<times> bool" where
  "config_merge file_system_path max_files existing_file_systems =
     bind (py_iter existing_file_systems) (\<lambda>items.
     bind (config_scan file_system_path max_files items ([], False)) (\<lambda>(to_configure, path_exists).
     Inr (if \<not> path_exists
          then to_configure @ [new_file_system file_system_path max_files]
          else to_configure, path_exists)))"

definition config_result_lines :: "string \<Rightarrow> int \<Rightarrow> json list \<Rightarrow> bool \<Rightarrow> json \<Rightarrow> error + string list" where
  "config_result_lines file_system_path max_files file_systems_to_configure path_exists response =
     bind (py_get response ''status'' JNull) (\<lambda>status.
     bind (if status = JStr ''CONFIG_DISK_FILE_SYSTEM_SUCCESSFUL'' then
             bind (py_get response ''valid'' (JBool False)) (\<lambda>valid.
             Inr [check_mark_button @ '' Disk file system configured successfully'',
                  bar_chart @ '' Status: '' @ py_str status,
                  heavy_check_mark @ '' Valid: '' @ py_str valid])
           else
             bind (py_get response ''status'' (JStr ''Unknown'')) (\<lambda>status'.
             bind (py_get response ''valid'' (JBool False)) (\<lambda>valid.
             bind (validation_details response) (\<lambda>details.
             Inr ([cross_mark @ '' Failed to configure disk file system'',
                   bar_chart @ '' Status: '' @ py_str status',
                   heavy_check_mark @ '' Valid: '' @ py_str valid] @ details))))) (\<lambda>outcome.
     Inr ([card_index_dividers @ '' DSA Disk File System Configuration'',
           rule50,
           file_folder @ '' File System Path: '' @ file_system_path,
           page_facing_up @ '' Max Files: '' @ dec_int max_files,
           bar_chart @ '' Total File Systems: '' @ dec_nat (length file_systems_to_configure),
           arrows_button @ '' Operation: '' @ (if path_exists then ''Update'' else ''Add''),
           []]
          @ outcome
          @ [[], rule50,
             check_mark_button @ '' Disk file system configuration operation completed''])))"

definition config_error :: "string \<Rightarrow> error \<Rightarrow> string" where
  "config_error file_system_path e =
     cross_mark @ '' Error configuring disk file system '' @ apostrophe @ file_system_path
       @ apostrophe @ '': '' @ str_of_error e"

definition config_disk_file_system :: "server \<Rightarrow> request list \<Rightarrow> string \<Rightarrow> int \<Rightarrow> string \<times> request list" where
  "config_disk_file_system srv log file_system_path max_files =
     (let (existing_file_systems, log1) = config_existing_file_systems srv log in
      case config_merge file_system_path max_files existing_file_systems of
        Inl e \<Rightarrow> (config_error file_system_path e, log1)
      | Inr (file_systems_to_configure, path_exists) \<Rightarrow>
          (let (r, log2) = make_request srv log1 (config_request file_systems_to_configure) in
           case bind r (config_result_lines file_system_path max_files
                          file_systems_to_configure path_exists) of
             Inl e \<Rightarrow> (config_error file_system_path e, log2)
           | Inr results \<Rightarrow> (py_join newline results, log2)))"

subsection \<open>\<open>delete_disk_file_systems\<close>\<close>

abbreviation light_bulb :: string where
  "light_bulb \<equiv> [CHR 0xF0, CHR 0x9F, CHR 0x92, CHR 0xA1]"

definition delete_all_request :: request where
  "delete_all_request =
     \<lparr>method = ''DELETE'', endpoint = disk_file_system_endpoint,
      data = None, params = None, headers = None\<rparr>"

text \<open>\<open>needle in v\<close> for a \<open>str\<close> needle: a substring of a str, an item of a list, a key of a dict.\<close>

fun py_contains :: "string \<Rightarrow> json \<Rightarrow> error + bool" where
  "py_contains needle (JStr s) = Inr (sublist needle s)"
| "py_contains needle (JList xs) = Inr (JStr needle \<in> set xs)"
| "py_contains needle (JObj kvs) = Inr (map_of kvs needle \<noteq> None)"
| "py_contains needle v =
     Inl (TypeError (''argument of type '' @ apostrophe @ type_name v @ apostrophe
        @ '' is not iterable''))"

text \<open>
  \<open>any('in use by' in error.get('message', '') for error in errors)\<close>: it stops at the
  first error whose message has the words.
\<close>

fun any_in_use :: "json list \<Rightarrow> error + bool" where
  "any_in_use [] = Inr False"
| "any_in_use (err # rest) =
     bind (py_get err ''message'' (JStr [])) (\<lambda>message.
     bind (py_contains ''in use by'' message) (\<lambda>found.
     if found then Inr True else any_in_use rest))"

definition helpful_notes :: "json \<Rightarrow> error + string list" where
  "helpful_notes validation =
     bind (py_get validation ''serverValidationList'' (JList [])) (\<lambda>server_list.
     bind (py_iter server_list) (\<lambda>errs.
     bind (any_in_use errs) (\<lambda>in_use.
     Inr (if in_use
          then [[],
                light_bulb @ '' Helpful Notes:'',
                ''   '' @ bullet @ '' Remove all backup jobs using these file systems first'',
                ''   '' @ bullet
                  @ '' Delete any file target groups that reference these file systems'',
                ''   '' @ bullet
                  @ '' Use list_disk_file_systems() to see current configurations'']
          else []))))"

text \<open>
  The validation block of the deletion: the lines of \<open>validation_details\<close>, then, inside
  the same \<open>if response.get('validationlist')\<close>, the notes.
\<close>

definition delete_validation_details :: "json \<Rightarrow> error + string list" where
  "delete_validation_details response =
     bind (validation_details response) (\<lambda>details.
     bind (py_get response ''validationlist'' JNull) (\<lambda>validation.
     if truthy validation
     then bind (helpful_notes validation) (\<lambda>notes. Inr (details @ notes))
     else Inr details))"

definition delete_result_lines :: "json \<Rightarrow> error + string list" where
  "delete_result_lines response =
     bind (py_get response ''status'' JNull) (\<lambda>status.
     bind (if status = JStr ''DELETE_COMPONENT_SUCCESSFUL'' then
             bind (py_get response ''valid'' (JBool False)) (\<lambda>valid.
             Inr [check_mark_button @ '' All disk file systems deleted successfully'',
                  bar_chart @ '' Status: '' @ py_str status,
                  heavy_check_mark @ '' Valid: '' @ py_str valid])
           else
             bind (py_get response ''status'' (JStr ''Unknown'')) (\<lambda>status'.
             bind (py_get response ''valid'' (JBool False)) (\<lambda>valid.
             bind (delete_validation_details response) (\<lambda>details.
             Inr ([cross_mark @ '' Failed to delete disk file systems'',
                   bar_chart @ '' Status: '' @ py_str status',
                   heavy_check_mark @ '' Valid: '' @ py_str valid] @ details))))) (\<lambda>outcome.
     Inr ([card_index_dividers @ '' DSA Disk File System Deletion'',
           rule50]
          @ outcome
          @ [[], rule50,
             check_mark_button @ '' Disk file system deletion operation completed''])))"

definition delete_disk_file_systems :: "server \<Rightarrow> request list \<Rightarrow> string \<times> request list" where
  "delete_disk_file_systems srv log =
     (let (r, log1) = make_request srv log delete_all_request in
      case bind r delete_result_lines of
        Inl e \<Rightarrow> (cross_mark @ '' Error deleting disk file systems: '' @ str_of_error e, log1)
      | Inr results \<Rightarrow> (py_join newline results, log1))"

subsection \<open>\<open>remove_disk_file_system\<close>\<close>

text \<open>
  The inner \<open>try\<close> of the removal returns from the function when the list cannot be had:
  \<open>Inl\<close> is the text it returns with, \<open>Inr\<close> the collection it goes on with.
\<close>

definition remove_existing_file_systems :: "server \<Rightarrow> request list \<Rightarrow> string \<Rightarrow> (string + json) \<times> request list" where
  "remove_existing_file_systems srv log file_system_path =
     (let (r, log1) = make_request srv log list_request in
      ((case bind r (\<lambda>existing_response.
               bind (py_get existing_response ''status'' JNull) (\<lambda>status.
               if status = JStr ''LIST_DISK_FILE_SYSTEMS_SUCCESSFUL'' then
                 bind (py_get existing_response ''fileSystems'' (JList [])) (\<lambda>file_systems.
                 bind (py_len file_systems) (\<lambda>_. Inr (Some file_systems)))
               else Inr None))
        of Inl e \<Rightarrow> Inl (cross_mark @ '' Error retrieving existing file systems: '' @ str_of_error e)
         | Inr None \<Rightarrow> Inl (cross_mark @ '' Could not retrieve existing file systems to remove ''
                              @ apostrophe @ file_system_path @ apostrophe)
         | Inr (Some file_systems) \<Rightarrow> Inr file_systems), log1))"

text \<open>The loop: \<open>path_exists\<close> and \<open>file_systems_to_keep\<close> are the accumulator.\<close>

fun remove_scan :: "string \<Rightarrow> json list \<Rightarrow> bool \<times> json list \<Rightarrow> error + bool \<times> json list" where
  "remove_scan file_system_path [] acc = Inr acc"
| "remove_scan file_system_path (fs # rest) (path_exists, file_systems_to_keep) =
     bind (py_get fs ''fileSystemPath'' JNull) (\<lambda>p.
       if p = JStr file_system_path
       then remove_scan file_system_path rest (True, file_systems_to_keep)
       else remove_scan file_system_path rest (path_exists, file_systems_to_keep @ [fs]))"

definition remove_not_found_lines :: "string \<Rightarrow> json list \<Rightarrow> error + string list" where
  "remove_not_found_lines file_system_path existing_file_systems =
     bind (map_err (\<lambda>fs. py_get fs ''fileSystemPath'' (JStr ''N/A'')) existing_file_systems)
       (\<lambda>available_paths.
     Inr ([card_index_dividers @ '' DSA Disk File System Removal'',
           rule50,
           cross_mark @ '' File system '' @ apostrophe @ file_system_path @ apostrophe
             @ '' not found'',
           [],
           clipboard @ '' Available file systems:'']
          @ (if available_paths \<noteq> []
             then map (\<lambda>path. ''   '' @ bullet @ '' '' @ py_str path) available_paths
             else [''   (No file systems configured)''])
          @ [[], rule50]))"

definition remaining_line :: "json \<Rightarrow> error + string" where
  "remaining_line fs =
     bind (py_get fs ''fileSystemPath'' (JStr ''N/A'')) (\<lambda>path.
     bind (py_get fs ''maxFiles'' (JStr ''N/A'')) (\<lambda>max_files.
     Inr (''   '' @ bullet @ '' '' @ py_str path @ '' (Max Files: '' @ py_str max_files @ '')'')))"

definition remove_result_lines :: "string \<Rightarrow> json list \<Rightarrow> json \<Rightarrow> error + string list" where
  "remove_result_lines file_system_path file_systems_to_keep response =
     bind (py_get response ''status'' JNull) (\<lambda>status.
     bind (if status = JStr ''CONFIG_DISK_FILE_SYSTEM_SUCCESSFUL'' then
             bind (py_get response ''valid'' (JBool False)) (\<lambda>valid.
             bind (if file_systems_to_keep \<noteq> []
                   then bind (map_err remaining_line file_systems_to_keep) (\<lambda>ls.
                        Inr ([[], clipboard @ '' Remaining file systems:''] @ ls))
                   else Inr [[], clipboard @ '' No file systems remaining (all removed)''])
               (\<lambda>remaining.
             Inr ([check_mark_button @ '' Disk file system removed successfully'',
                   bar_chart @ '' Status: '' @ py_str status,
                   heavy_check_mark @ '' Valid: '' @ py_str valid] @ remaining)))
           else
             bind (py_get response ''status'' (JStr ''Unknown'')) (\<lambda>status'.
             bind (py_get response ''valid'' (JBool False)) (\<lambda>valid.
             bind (validation_details response) (\<lambda>details.
             Inr ([cross_mark @ '' Failed to remove disk file system'',
                   bar_chart @ '' Status: '' @ py_str status',
                   heavy_check_mark @ '' Valid: '' @ py_str valid] @ details))))) (\<lambda>outcome.
     Inr ([card_index_dividers @ '' DSA Disk File System Removal'',
           rule50,
           file_folder @ '' Removed File System: '' @ file_system_path,
           bar_chart @ '' Remaining File Systems: '' @ dec_nat (length file_systems_to_keep),
           []]
          @ outcome
          @ [[], rule50,
             check_mark_button @ '' Disk file system removal operation completed''])))"

definition remove_error :: "string \<Rightarrow> error \<Rightarrow> string" where
  "remove_error file_system_path e =
     cross_mark @ '' Error removing disk file system '' @ apostrophe @ file_system_path
       @ apostrophe @ '': '' @ str_of_error e"

definition remove_disk_file_system :: "server \<Rightarrow> request list \<Rightarrow> string \<Rightarrow> string \<times> request list" where
  "remove_disk_file_system srv log file_system_path =
     (let (fetched, log1) = remove_existing_file_systems srv log file_system_path in
      case fetched of
        Inl msg \<Rightarrow> (msg, log1)
      | Inr existing_file_systems \<Rightarrow>
         (case bind (py_iter existing_file_systems) (\<lambda>items.
                bind (remove_scan file_system_path items (False, [])) (\<lambda>scanned.
                Inr (items, scanned))) of
            Inl e \<Rightarrow> (remove_error file_system_path e, log1)
          | Inr (items, path_exists, file_systems_to_keep) \<Rightarrow>
              if \<not> path_exists then
                (case remove_not_found_lines file_system_path items of
                   Inl e \<Rightarrow> (remove_error file_system_path e, log1)
                 | Inr results \<Rightarrow> (py_join newline results, log1))
              else
                (let (r, log2) = make_request srv log1 (config_request file_systems_to_keep) in
                 case bind r (remove_result_lines file_system_path file_systems_to_keep) of
                   Inl e \<Rightarrow> (remove_error file_system_path e, log2)
                 | Inr results \<Rightarrow> (py_join newline results, log2))))"

section \<open>AWS S3 backup configurations\<close>

definition aws_s3_endpoint :: string where
  "aws_s3_endpoint = ''dsa/components/backup-applications/aws-s3''"

text \<open>\<open>if isinstance(v, dict): v = [v]\<close>\<close>

fun dict_as_list :: "json \<Rightarrow> json" where
  "dict_as_list (JObj kvs) = JList [JObj kvs]"
| "dict_as_list v = v"

text \<open>\<open>enumerate(xs, 1)\<close>\<close>

definition enumerate1 :: "'a list \<Rightarrow> (nat \<times> 'a) list" where
  "enumerate1 xs = zip [1 ..< Suc (length xs)] xs"

definition prefix_lines :: "nat \<times> json \<Rightarrow> error + string list" where
  "prefix_lines kp =
     bind (py_get (snd kp) ''prefixName'' (JStr ''N/A'')) (\<lambda>prefix_name.
     bind (py_get (snd kp) ''storageDevices'' (JStr ''N/A'')) (\<lambda>storage_devices.
     Inr [''      '' @ bookmark @ '' Prefix #'' @ dec_nat (fst kp) @ '': '' @ py_str prefix_name,
          ''         Storage Devices: '' @ py_str storage_devices]))"

definition bucket_lines :: "nat \<times> json \<Rightarrow> error + string list" where
  "bucket_lines jb =
     bind (py_get (snd jb) ''bucketName'' (JStr ''N/A'')) (\<lambda>bucket_name.
     bind (py_get (snd jb) ''prefixList'' (JList [])) (\<lambda>prefix_list.
     bind (if truthy (dict_as_list prefix_list)
           then bind (py_iter (dict_as_list prefix_list)) (\<lambda>prefixes.
                bind (map_err prefix_lines (enumerate1 prefixes)) (\<lambda>ls. Inr (concat ls)))
           else Inr [''      '' @ bookmark @ '' No prefixes configured'']) (\<lambda>ls.
     Inr ((''   '' @ file_folder @ '' Bucket #'' @ dec_nat (fst jb) @ '': '' @ py_str bucket_name)
          # ls))))"

text \<open>The lines of one region and the number of buckets it adds to \<open>bucket_count\<close>.\<close>

definition region_lines :: "nat \<times> json \<Rightarrow> error + string list \<times> nat" where
  "region_lines ir =
     bind (py_get (snd ir) ''region'' (JStr ''N/A'')) (\<lambda>region_name.
     bind (py_get (snd ir) ''buckets'' (JList [])) (\<lambda>buckets.
     bind (if truthy (dict_as_list buckets)
           then bind (py_iter (dict_as_list buckets)) (\<lambda>bs.
                bind (map_err bucket_lines (enumerate1 bs)) (\<lambda>ls. Inr (concat ls, length bs)))
           else Inr ([''   '' @ file_folder @ '' No buckets configured in this region''], 0))
       (\<lambda>(ls, n).
     Inr ([card_index_dividers @ '' Region #'' @ dec_nat (fst ir) @ '': '' @ py_str region_name]
          @ ls @ [[]], n))))"

definition list_aws_s3_lines :: "json \<Rightarrow> error + string list" where
  "list_aws_s3_lines response =
     bind (py_get response ''status'' JNull) (\<lambda>status.
     if status = JStr ''LIST_AWS_APP_SUCCESSFUL'' then
       bind (py_get response ''aws'' (JList [])) (\<lambda>aws_list.
       bind (case aws_list of
               JList (first # rest) \<Rightarrow>
                 bind (py_get first ''configAwsRest'' (JObj [])) (\<lambda>config_aws_rest.
                 py_get config_aws_rest ''bucketsByRegion'' (JList []))
             | _ \<Rightarrow> Inr (JList [])) (\<lambda>buckets_by_region.
       bind (if truthy (dict_as_list buckets_by_region)
             then bind (py_iter (dict_as_list buckets_by_region)) (\<lambda>regions.
                  bind (map_err region_lines (enumerate1 regions)) (\<lambda>rs.
                  Inr ([card_index_dividers @ '' DSA AWS S3 Backup Solution Systems Available'',
                        bar_chart @ '' Total Buckets Configured: ''
                          @ dec_nat (sum_list (map snd rs)),
                        rule50]
                       @ concat (map fst rs))))
             else Inr [card_index_dividers @ '' DSA AWS S3 Backup Solution Systems Available'',
                       rule50,
                       clipboard @ '' No AWS backup Solutions Configured'']) (\<lambda>body.
       bind (py_get response ''foundComponent'' (JBool False)) (\<lambda>found.
       bind (py_get response ''valid'' (JBool False)) (\<lambda>valid.
       Inr (body @ [rule50,
                    check_mark_button @ '' Status: '' @ py_str status,
                    magnifying_glass @ '' Found Component: '' @ py_str found,
                    heavy_check_mark @ '' Valid: '' @ py_str valid]))))))
     else
       bind (py_get response ''status'' (JStr ''Unknown'')) (\<lambda>status'.
       bind (py_get response ''validationlist'' JNull) (\<lambda>validation.
       bind (if truthy validation then
               bind (py_get validation ''serverValidationList'' JNull) (\<lambda>server_list.
               if truthy server_list then
                 bind (py_iter server_list) (\<lambda>errs.
                 map_err (\<lambda>err. bind (py_get err ''message'' (JStr ''Unknown error'')) (\<lambda>message.
                            Inr (cross_mark @ '' Error: '' @ py_str message))) errs)
               else Inr [])
             else Inr []) (\<lambda>error_lines.
       Inr ([card_index_dividers @ '' DSA AWS S3 Backup Solution Systems Available'',
             rule50,
             cross_mark @ '' Failed to list AWS S3 Backup Solutions Configured'',
             bar_chart @ '' Status: '' @ py_str status'] @ error_lines)))))"

definition list_aws_s3_backup_configurations :: "server \<Rightarrow> request list \<Rightarrow> string \<times> request list" where
  "list_aws_s3_backup_configurations srv log =
     (let (r, log1) = make_request srv log
        \<lparr>method = ''GET'', endpoint = aws_s3_endpoint,
         data = None, params = None, headers = None\<rparr> in
      case bind r list_aws_s3_lines of
        Inl e \<Rightarrow> (cross_mark @ '' Error listing AWS S3 Backup Solutions Configured: ''
                    @ str_of_error e, log1)
      | Inr results \<Rightarrow> (py_join newline results, log1))"

text \<open>An \<open>Optional[str]\<close> argument, and \<open>not x\<close> on it.\<close>

fun given :: "string option \<Rightarrow> bool" where
  "given None = False"
| "given (Some s) = (s \<noteq> [])"

fun opt_str :: "string option \<Rightarrow> json" where
  "opt_str None = JNull"
| "opt_str (Some s) = JStr s"

definition aws_config_request :: "string \<Rightarrow> string \<Rightarrow> json \<Rightarrow> string \<Rightarrow> string \<Rightarrow> request" where
  "aws_config_request accessId accessKey bucketsByRegion bucketName acctName =
     \<lparr>method = ''POST'', endpoint = aws_s3_endpoint,
      data = Some (JObj [(''configAwsRest'',
               JObj [(''accessId'', JStr accessId),
                     (''accessKey'', JStr accessKey),
                     (''bucketsByRegion'', bucketsByRegion),
                     (''bucketName'', JStr bucketName),
                     (''acctName'', JStr acctName),
                     (''viewpoint'', JBool True),
                     (''viewpointBucketRegion'', JBool True)])]),
      params = None, headers = None\<rparr>"

definition unknown_operation :: "string \<Rightarrow> string" where
  "unknown_operation operation =
     cross_mark @ '' Error: Unknown operation '' @ apostrophe @ operation @ apostrophe
       @ ''. Available operations: '' @ py_join '', '' [''list'', ''config'', ''delete_all'', ''remove'']"

definition manage_AWS_S3_backup_configurations ::
  "server \<Rightarrow> request list \<Rightarrow> string \<Rightarrow> string option \<Rightarrow> string option \<Rightarrow> json
     \<Rightarrow> string option \<Rightarrow> string option \<Rightarrow> string \<times> request list" where
  "manage_AWS_S3_backup_configurations srv log operation accessId accessKey bucketsByRegion
       bucketName acctName =
     (if operation = ''list'' then list_aws_s3_backup_configurations srv log
      else if operation = ''config'' then
        (if \<not> given accessId
           then (cross_mark @ '' Error: accessId is required for config operation'', log)
         else if \<not> given accessKey
           then (cross_mark @ '' Error: accessKey is required for config operation'', log)
         else if \<not> truthy bucketsByRegion
           then (cross_mark @ '' Error: bucketsByRegion is required for config operation'', log)
         else if \<not> given acctName
           then (cross_mark @ '' Error: acctName is required for config operation'', log)
         else if \<not> given bucketName
           then (cross_mark @ '' Error: bucketName is required for config operation'', log)
         else
           (let (r, log1) = make_request srv log
                  (aws_config_request (the accessId) (the accessKey) bucketsByRegion
                     (the bucketName) (the acctName)) in
            case r of
              Inr response \<Rightarrow>
                (check_mark_button @ '' AWS backup solution configuration operation completed''
                   @ newline @ ''Response: '' @ py_str response, log1)
            | Inl e \<Rightarrow>
                (cross_mark @ '' Error configuring AWS backup solution: '' @ str_of_error e,
                 log1)))
      else if operation = ''delete_all'' then
        (cross_mark @ '' Error: '' @ apostrophe @ ''delete_all'' @ apostrophe
           @ '' operation is not implemented yet for AWS S3 Configuration'', log)
      else if operation = ''remove'' then
        (cross_mark @ '' Error: '' @ apostrophe @ ''remove'' @ apostrophe
           @ '' operation is not implemented yet for AWS S3 Configuration'', log)
      else (unknown_operation operation, log))"

text \<open>
  The MCP handler. \<open>create_response\<close> comes from \<open>teradata_mcp_server.tools.utils\<close>,
  which is not part of the sources: it is a parameter. \<open>conn\<close> is not used.
\<close>

definition handle_bar_manageAWSS3Operations ::
  "(string \<Rightarrow> json \<Rightarrow> 'r) \<Rightarrow> server \<Rightarrow> request list \<Rightarrow> string \<Rightarrow> string option
     \<Rightarrow> string option \<Rightarrow> json \<Rightarrow> string option \<Rightarrow> string option \<Rightarrow> 'r \<times> request list" where
  "handle_bar_manageAWSS3Operations create_response srv log operation accessId accessKey
       bucketsByRegion bucketName acctName =
     (let (result, log1) =
            manage_AWS_S3_backup_configurations srv log operation accessId accessKey
              bucketsByRegion (Some ''tdedsabucket01'') acctName;
          metadata = JObj [(''tool_name'', JStr ''bar_manageAWSS3Operations''),
                           (''operation'', JStr operation),
                           (''accessId'', opt_str accessId),
                           (''accessKey'', opt_str accessKey),
                           (''bucketsByRegion'', bucketsByRegion),
                           (''bucketName'', opt_str bucketName),
                           (''acctName'', opt_str acctName),
                           (''success'', JBool True)]
      in (create_response result metadata, log1))"

section \<open>Media servers\<close>

text \<open>
  \<open>str.strip()\<close> removes the characters for which \<open>str.isspace()\<close> holds from both
  ends; here they are in UTF-8.
\<close>

definition whitespace_chars :: "string list" where
  "whitespace_chars =
     [[CHR 0x09], [CHR 0x0A], [CHR 0x0B], [CHR 0x0C], [CHR 0x0D],
      [CHR 0x1C], [CHR 0x1D], [CHR 0x1E], [CHR 0x1F], [CHR 0x20],
      [CHR 0xC2, CHR 0x85], [CHR 0xC2, CHR 0xA0], [CHR 0xE1, CHR 0x9A, CHR 0x80],
      [CHR 0xE2, CHR 0x80, CHR 0x80], [CHR 0xE2, CHR 0x80, CHR 0x81],
      [CHR 0xE2, CHR 0x80, CHR 0x82], [CHR 0xE2, CHR 0x80, CHR 0x83],
      [CHR 0xE2, CHR 0x80, CHR 0x84], [CHR 0xE2, CHR 0x80, CHR 0x85],
      [CHR 0xE2, CHR 0x80, CHR 0x86], [CHR 0xE2, CHR 0x80, CHR 0x87],
      [CHR 0xE2, CHR 0x80, CHR 0x88], [CHR 0xE2, CHR 0x80, CHR 0x89],
      [CHR 0xE2, CHR 0x80, CHR 0x8A], [CHR 0xE2, CHR 0x80, CHR 0xA8],
      [CHR 0xE2, CHR 0x80, CHR 0xA9], [CHR 0xE2, CHR 0x80, CHR 0xAF],
      [CHR 0xE2, CHR 0x81, CHR 0x9F], [CHR 0xE3, CHR 0x80, CHR 0x80]]"

definition is_space :: "string \<Rightarrow> bool" where
  "is_space c = (c \<in> set whitespace_chars)"

definition py_strip :: "string \<Rightarrow> string" where
  "py_strip s = concat (rev (dropWhile is_space (rev (dropWhile is_space (utf8_chars s)))))"

text \<open>The operator \<open>+\<close> on two values (\<open>bool\<close> is an \<open>int\<close>).\<close>

fun py_add :: "json \<Rightarrow> json \<Rightarrow> error + json" where
  "py_add (JList a) (JList b) = Inr (JList (a @ b))"
| "py_add (JList a) v =
     Inl (TypeError (''can only concatenate list (not '' @ [CHR 0x22] @ type_name v
        @ [CHR 0x22] @ '') to list''))"
| "py_add (JStr a) (JStr b) = Inr (JStr (a @ b))"
| "py_add (JStr a) v =
     Inl (TypeError (''can only concatenate str (not '' @ [CHR 0x22] @ type_name v
        @ [CHR 0x22] @ '') to str''))"
| "py_add (JInt a) (JInt b) = Inr (JInt (a + b))"
| "py_add (JInt a) (JBool b) = Inr (JInt (a + (if b then 1 else 0)))"
| "py_add (JBool a) (JInt b) = Inr (JInt ((if a then 1 else 0) + b))"
| "py_add (JBool a) (JBool b) = Inr (JInt ((if a then 1 else 0) + (if b then 1 else 0)))"
| "py_add u v =
     Inl (TypeError (''unsupported operand type(s) for +: '' @ apostrophe @ type_name u
        @ apostrophe @ '' and '' @ apostrophe @ type_name v @ apostrophe))"

definition mediaservers_endpoint :: string where
  "mediaservers_endpoint = ''dsa/components/mediaservers''"

text \<open>
  What every media-server function does with the response, the words after "Failed to"
  apart. \<open>json.dumps(response, indent=2)\<close> belongs to the standard library: \<open>dumps\<close>
  is a parameter.
\<close>

definition error_message_line :: "json \<Rightarrow> error + string" where
  "error_message_line err =
     bind (py_get err ''code'' (JStr ''N/A'')) (\<lambda>code.
     bind (py_get err ''message'' (JStr ''Unknown error'')) (\<lambda>message.
     Inr (''Code '' @ py_str code @ '': '' @ py_str message)))"

definition response_text :: "(json \<Rightarrow> string) \<Rightarrow> string \<Rightarrow> json \<Rightarrow> error + string" where
  "response_text dumps what response =
     bind (py_get response ''valid'' (JBool False)) (\<lambda>valid.
     if \<not> truthy valid then
       bind (py_get response ''validationlist'' (JObj [])) (\<lambda>validation_list.
       bind (if truthy validation_list then
               bind (py_get validation_list ''clientValidationList'' (JList [])) (\<lambda>client_errors.
               bind (py_get validation_list ''serverValidationList'' (JList [])) (\<lambda>server_errors.
               bind (py_add client_errors server_errors) (\<lambda>all_errors.
               bind (py_iter all_errors) (\<lambda>errs.
               map_err error_message_line errs))))
             else Inr []) (\<lambda>error_messages.
       if error_messages \<noteq> [] then
         Inr (cross_mark @ '' Failed to '' @ what @ '':'' @ newline
              @ py_join newline error_messages)
       else
         bind (py_get response ''status'' (JStr ''Unknown error'')) (\<lambda>status.
         Inr (cross_mark @ '' Failed to '' @ what @ '': '' @ py_str status))))
     else Inr (dumps response))"

definition media_call ::
  "(json \<Rightarrow> string) \<Rightarrow> server \<Rightarrow> request list \<Rightarrow> request \<Rightarrow> string \<Rightarrow> string
     \<Rightarrow> string \<times> request list" where
  "media_call dumps srv log req what doing =
     (let (r, log1) = make_request srv log req in
      case bind r (response_text dumps what) of
        Inl e \<Rightarrow> (cross_mark @ '' Error '' @ doing @ '': '' @ str_of_error e, log1)
      | Inr text \<Rightarrow> (text, log1))"

definition get_request :: "string \<Rightarrow> request" where
  "get_request ep = \<lparr>method = ''GET'', endpoint = ep, data = None, params = None, headers = None\<rparr>"

definition list_media_servers :: "(json \<Rightarrow> string) \<Rightarrow> server \<Rightarrow> request list \<Rightarrow> string \<times> request list" where
  "list_media_servers dumps srv log =
     media_call dumps srv log (get_request mediaservers_endpoint)
       ''list media servers'' ''listing media servers''"

definition get_media_server :: "(json \<Rightarrow> string) \<Rightarrow> server \<Rightarrow> request list \<Rightarrow> string \<Rightarrow> string \<times> request list" where
  "get_media_server dumps srv log server_name =
     media_call dumps srv log (get_request (mediaservers_endpoint @ ''/'' @ server_name))
       (''get media server '' @ apostrophe @ server_name @ apostrophe)
       (''getting media server '' @ apostrophe @ server_name @ apostrophe)"

definition has_ip_keys :: "json \<Rightarrow> bool" where
  "has_ip_keys ip_info =
     (case ip_info of
        JObj kvs \<Rightarrow> map_of kvs ''ipAddress'' \<noteq> None \<and> map_of kvs ''netmask'' \<noteq> None
      | _ \<Rightarrow> False)"

definition add_request :: "string \<Rightarrow> int \<Rightarrow> json \<Rightarrow> request" where
  "add_request server_name port ip_list =
     \<lparr>method = ''POST'', endpoint = mediaservers_endpoint,
      data = Some (JObj [(''serverName'', JStr (py_strip server_name)),
                         (''port'', JInt port),
                         (''ipInfo'', ip_list)]),
      params = None,
      headers = Some [(''Content-Type'', ''application/json''), (''Accept'', ''*/*'')]\<rparr>"

definition add_media_server ::
  "(json \<Rightarrow> string) \<Rightarrow> server \<Rightarrow> request list \<Rightarrow> string \<Rightarrow> int \<Rightarrow> json \<Rightarrow> int
     \<Rightarrow> string \<times> request list" where
  "add_media_server dumps srv log server_name port ip_list pool_shared_pipes =
     (if server_name = [] \<or> py_strip server_name = []
        then (cross_mark @ '' Server name is required and cannot be empty'', log)
      else if \<not> (1 \<le> port \<and> port \<le> 65535)
        then (cross_mark @ '' Port must be between 1 and 65535'', log)
      else (case ip_list of
          JList (ip # ips) \<Rightarrow>
            if \<not> list_all has_ip_keys (ip # ips)
            then (cross_mark @ '' Each IP address must be a dictionary with '' @ apostrophe
                    @ ''ipAddress'' @ apostrophe @ '' and '' @ apostrophe @ ''netmask''
                    @ apostrophe @ '' keys'', log)
            else media_call dumps srv log (add_request server_name port ip_list)
                   (''add media server '' @ apostrophe @ server_name @ apostrophe)
                   (''adding media server '' @ apostrophe @ server_name @ apostrophe)
        | _ \<Rightarrow> (cross_mark @ '' At least one IP address is required'', log)))"

definition delete_request :: "string \<Rightarrow> bool \<Rightarrow> request" where
  "delete_request server_name virtual =
     \<lparr>method = ''DELETE'', endpoint = mediaservers_endpoint @ ''/'' @ server_name,
      data = None,
      params = Some (if virtual then [(''virtual'', ''true'')] else []),
      headers = None\<rparr>"

definition delete_media_server ::
  "(json \<Rightarrow> string) \<Rightarrow> server \<Rightarrow> request list \<Rightarrow> string \<Rightarrow> bool \<Rightarrow> string \<times> request list" where
  "delete_media_server dumps srv log server_name virtual =
     media_call dumps srv log (delete_request server_name virtual)
       (''delete media server '' @ apostrophe @ server_name @ apostrophe)
       (''deleting media server '' @ apostrophe @ server_name @ apostrophe)"

definition list_media_server_consumers ::
  "(json \<Rightarrow> string) \<Rightarrow> server \<Rightarrow> request list \<Rightarrow> string \<times> request list" where
  "list_media_server_consumers dumps srv log =
     media_call dumps srv log (get_request (mediaservers_endpoint @ ''/listconsumers''))
       ''list media server consumers'' ''listing media server consumers''"

definition list_media_server_consumers_by_name ::
  "(json \<Rightarrow> string) \<Rightarrow> server \<Rightarrow> request list \<Rightarrow> string \<Rightarrow> string \<times> request list" where
  "list_media_server_consumers_by_name dumps srv log server_name =
     media_call dumps srv log
       (get_request (mediaservers_endpoint @ ''/listconsumers/'' @ py_strip server_name))
       (''list consumers for media server '' @ apostrophe @ server_name @ apostrophe)
       (''listing consumers for media server '' @ apostrophe @ server_name @ apostrophe)"

definition valid_operations :: "string list" where
  "valid_operations =
     [''list'', ''get'', ''add'', ''delete'', ''list_consumers'', ''list_consumers_by_server'']"

definition expected_ip_format :: string where
  "expected_ip_format =
     ''Expected JSON format: '' @ apostrophe @ ''[{'' @ [CHR 0x22] @ ''ipAddress'' @ [CHR 0x22]
       @ '': '' @ [CHR 0x22] @ ''IP'' @ [CHR 0x22] @ '', '' @ [CHR 0x22] @ ''netmask''
       @ [CHR 0x22] @ '': '' @ [CHR 0x22] @ ''MASK'' @ [CHR 0x22] @ ''}]'' @ apostrophe"

text \<open>
  The entry point. \<open>json.loads\<close> is the parameter \<open>loads\<close>; the \<open>except\<close> clause next
  to it takes a \<open>JSONDecodeError\<close> only, the outer one any other exception.
\<close>

definition manage_dsa_media_servers ::
  "(string \<Rightarrow> error + json) \<Rightarrow> (json \<Rightarrow> string) \<Rightarrow> server \<Rightarrow> request list \<Rightarrow> string
     \<Rightarrow> string option \<Rightarrow> int option \<Rightarrow> string option \<Rightarrow> int option \<Rightarrow> bool option
     \<Rightarrow> string \<times> request list" where
  "manage_dsa_media_servers loads dumps srv log operation server_name port ip_addresses
       pool_shared_pipes virtual =
     (if operation \<notin> set valid_operations then
        (cross_mark @ '' Invalid operation '' @ apostrophe @ operation @ apostrophe
           @ ''. Valid operations: '' @ py_join '', '' valid_operations, log)
      else if operation = ''list'' then list_media_servers dumps srv log
      else if operation = ''get'' then
        (if \<not> given server_name
         then (cross_mark @ '' server_name is required for '' @ apostrophe @ ''get''
                 @ apostrophe @ '' operation'', log)
         else get_media_server dumps srv log (the server_name))
      else if operation = ''add'' then
        (if \<not> given server_name
           then (cross_mark @ '' server_name is required for '' @ apostrophe @ ''add''
                   @ apostrophe @ '' operation'', log)
         else if port = None \<or> port = Some 0
           then (cross_mark @ '' port is required for '' @ apostrophe @ ''add''
                   @ apostrophe @ '' operation'', log)
         else if \<not> given ip_addresses
           then (cross_mark @ '' ip_addresses is required for '' @ apostrophe @ ''add''
                   @ apostrophe @ '' operation'', log)
         else (case loads (the ip_addresses) of
             Inr ip_list \<Rightarrow>
               add_media_server dumps srv log (the server_name) (the port) ip_list
                 (if pool_shared_pipes = None \<or> pool_shared_pipes = Some 0 then 50
                  else the pool_shared_pipes)
           | Inl (JSONDecodeError msg) \<Rightarrow>
               (cross_mark @ '' Invalid IP addresses format: '' @ msg @ newline
                  @ expected_ip_format, log)
           | Inl e \<Rightarrow>
               (cross_mark @ '' Error executing media server operation '' @ apostrophe
                  @ operation @ apostrophe @ '': '' @ str_of_error e, log)))
      else if operation = ''delete'' then
        (if \<not> given server_name
         then (cross_mark @ '' server_name is required for '' @ apostrophe @ ''delete''
                 @ apostrophe @ '' operation'', log)
         else delete_media_server dumps srv log (the server_name)
                (case virtual of None \<Rightarrow> False | Some v \<Rightarrow> v))
      else if operation = ''list_consumers'' then list_media_server_consumers dumps srv log
      else
        (if \<not> given server_name
         then (cross_mark @ '' server_name is required for '' @ apostrophe
                 @ ''list_consumers_by_server'' @ apostrophe @ '' operation'', log)
         else list_media_server_consumers_by_name dumps srv log (the server_name)))"

section \<open>Vocabulary of the properties\<close>

fun is_dict :: "json \<Rightarrow> bool" where
  "is_dict (JObj _) = True"
| "is_dict _ = False"

text \<open>The test of both loops: \<open>fs.get('fileSystemPath') == file_system_path\<close>.\<close>

definition has_path :: "string \<Rightarrow> json \<Rightarrow> bool" where
  "has_path file_system_path fs =
     (py_get fs ''fileSystemPath'' JNull = Inr (JStr file_system_path))"

text \<open>The list request was answered with the success status and the collection \<open>items\<close>.\<close>

definition list_succeeded :: "json \<Rightarrow> json list \<Rightarrow> bool" where
  "list_succeeded existing_response items =
     (py_get existing_response ''status'' JNull = Inr (JStr ''LIST_DISK_FILE_SYSTEMS_SUCCESSFUL'')
      \<and> py_get existing_response ''fileSystems'' (JList []) = Inr (JList items))"

text \<open>The fetch fails: the request raises, or the status is not the success status.\<close>

definition fetch_failed :: "server \<Rightarrow> request list \<Rightarrow> bool" where
  "fetch_failed srv log =
     (case srv log list_request of
        Inl msg \<Rightarrow> True
      | Inr existing_response \<Rightarrow>
          py_get existing_response ''status'' JNull
            \<noteq> Inr (JStr ''LIST_DISK_FILE_SYSTEMS_SUCCESSFUL''))"

text \<open>The value \<open>d.get(k, default)\<close> has when \<open>d\<close> is a dict.\<close>

fun dict_get :: "json \<Rightarrow> string \<Rightarrow> json \<Rightarrow> json" where
  "dict_get (JObj kvs) k d = (case map_of kvs k of Some v \<Rightarrow> v | None \<Rightarrow> d)"
| "dict_get v k d = d"



subsection \<open>A service to run the operations against\<close>

definition file_system :: "string \<Rightarrow> int \<Rightarrow> json" where
  "file_system path n = JObj [(''fileSystemPath'', JStr path), (''maxFiles'', JInt n)]"

definition list_response :: "json list \<Rightarrow> json" where
  "list_response items =
     JObj [(''status'', JStr ''LIST_DISK_FILE_SYSTEMS_SUCCESSFUL''),
           (''fileSystems'', JList items),
           (''foundComponent'', JBool True),
           (''valid'', JBool True)]"

text \<open>Answers every \<open>GET\<close> with the collection and every other request with \<open>answer\<close>.\<close>

definition service :: "json list \<Rightarrow> json \<Rightarrow> server" where
  "service items answer log req =
     (if method req = ''GET'' then Inr (list_response items) else Inr answer)"

definition config_ok :: json where
  "config_ok = JObj [(''status'', JStr ''CONFIG_DISK_FILE_SYSTEM_SUCCESSFUL''), (''valid'', JBool True)]"

definition service_without_list :: "json \<Rightarrow> server" where
  "service_without_list answer log req =
     (if method req = ''GET'' then Inl ''Connection refused'' else Inr answer)"

definition quota_error :: json where
  "quota_error = JObj [(''code'', JInt 7), (''message'', JStr ''quota exceeded''),
                       (''valStatus'', JStr ''ERROR'')]"

definition accepted_invalid :: json where
  "accepted_invalid =
     JObj [(''status'', JStr ''CONFIG_DISK_FILE_SYSTEM_SUCCESSFUL''),
           (''valid'', JBool False),
           (''validationlist'', JObj [(''serverValidationList'', JList [quota_error])])]"

definition mount_error :: json where
  "mount_error = JObj [(''code'', JInt 12), (''message'', JStr ''path is not mounted''),
                       (''valStatus'', JStr ''ERROR'')]"

definition client_error :: json where
  "client_error = JObj [(''code'', JInt 3), (''message'', JStr ''maxFiles out of range'')]"

definition rejected :: json where
  "rejected =
     JObj [(''status'', JStr ''CONFIG_DISK_FILE_SYSTEM_FAILED''),
           (''valid'', JBool False),
           (''validationlist'',
              JObj [(''serverValidationList'', JList [quota_error, mount_error]),
                    (''clientValidationList'', JList [client_error])])]"

definition aws_rejected :: json where
  "aws_rejected = JObj [(''status'', JStr ''CONFIG_AWS_APP_FAILED''), (''valid'', JBool False)]"

definition regions_example :: json where
  "regions_example =
     JList [JObj [(''region'', JStr ''us-west-2''),
                  (''buckets'', JList [JObj [(''bucketName'', JStr ''backups'')]])]]"

definition ip_list_example :: json where
  "ip_list_example =
     JList [JObj [(''ipAddress'', JStr ''10.0.0.5''), (''netmask'', JStr ''255.255.255.0'')]]"

text \<open>The JSON text of \<open>ip_list_example\<close>.\<close>

definition ip_text :: string where
  "ip_text =
     ''[{'' @ [CHR 0x22] @ ''ipAddress'' @ [CHR 0x22] @ '': '' @ [CHR 0x22] @ ''10.0.0.5''
       @ [CHR 0x22] @ '', '' @ [CHR 0x22] @ ''netmask'' @ [CHR 0x22] @ '': '' @ [CHR 0x22]
       @ ''255.255.255.0'' @ [CHR 0x22] @ ''}]''"

text \<open>
  Where a run needs \<open>json.loads\<close> and \<open>json.dumps\<close>: a decoder that knows the one
  text above and rejects any other, and a printer that writes the \<open>repr\<close> of the value.
  The properties hold for every \<open>loads\<close> and \<open>dumps\<close>; no run below depends on what
  the printer writes.
\<close>

definition example_loads :: "string \<Rightarrow> error + json" where
  "example_loads s =
     (if s = ip_text then Inr ip_list_example
      else Inl (JSONDecodeError ''Expecting value: line 1 column 1 (char 0)''))"

definition example_dumps :: "json \<Rightarrow> string" where
  "example_dumps response = py_repr response"

definition media_rejected :: json where
  "media_rejected = JObj [(''status'', JStr ''ADD_MEDIA_SERVER_FAILED''), (''valid'', JBool False)]"

definition delete_accepted_invalid :: json where
  "delete_accepted_invalid =
     JObj [(''status'', JStr ''DELETE_COMPONENT_SUCCESSFUL''), (''valid'', JBool False)]"

definition media_ok :: json where
  "media_ok = JObj [(''status'', JStr ''OK''), (''valid'', JBool True)]"

section \<open>Properties\<close>

lemma bind_Inl [simp]: "bind (Inl e) f = Inl e"
  by (simp add: bind_def)

lemma bind_Inr [simp]: "bind (Inr x) f = f x"
  by (simp add: bind_def)

lemma make_request_log [simp]: "snd (make_request srv log req) = log @ [req]"
  by (simp add: make_request_def)

lemma make_request_Inr [simp]:
  "srv log req = Inr response \<Longrightarrow> make_request srv log req = (Inr response, log @ [req])"
  by (simp add: make_request_def)

lemma make_request_Inl [simp]:
  "srv log req = Inl msg \<Longrightarrow> make_request srv log req = (Inl (RequestError msg), log @ [req])"
  by (simp add: make_request_def)

subsection \<open>The printed form of a string\<close>

text \<open>
  \<open>repr\<close> copies what is printable and escapes what is not: a letter with an accent
  (\<open>U+00E9\<close>) is copied, the no-break space \<open>U+00A0\<close> is written as a backslash
  followed by \<open>xa0\<close>, the zero-width space \<open>U+200B\<close> as a backslash followed by
  \<open>u200b\<close>; a response that holds such a string is printed that way.
\<close>

lemma printable_examples:
  "printable 0xE9" "\<not> printable 0xA0" "\<not> printable 0x200B" "\<not> printable 0xE0001"
  by (simp_all add: printable_def unprintable_ranges_def)

lemma hex_fixed_numeral:
  "hex_fixed 2 n = [hex_digit (n div 16 mod 16), hex_digit (n mod 16)]"
  "hex_fixed 4 n = [hex_digit (n div 16 div 16 div 16 mod 16), hex_digit (n div 16 div 16 mod 16),
      hex_digit (n div 16 mod 16), hex_digit (n mod 16)]"
proof -
  have 2: "(2 :: nat) = Suc (Suc 0)" and 4: "(4 :: nat) = Suc (Suc (Suc (Suc 0)))" by simp_all
  show "hex_fixed 2 n = [hex_digit (n div 16 mod 16), hex_digit (n mod 16)]"
    unfolding 2 by simp
  show "hex_fixed 4 n = [hex_digit (n div 16 div 16 div 16 mod 16), hex_digit (n div 16 div 16 mod 16),
      hex_digit (n div 16 mod 16), hex_digit (n mod 16)]"
    unfolding 4 by simp
qed

lemma hex_digit_examples:
  "hex_digit 0 = CHR ''0''" "hex_digit 2 = CHR ''2''" "hex_digit 10 = CHR ''a''"
  "hex_digit 11 = CHR ''b''"
  by code_simp+

lemma code_point_examples:
  "code_point [CHR 0x63] = 0x63"
  "code_point [CHR 0xC3, CHR 0xA9] = 0xE9"
  "code_point [CHR 0xC2, CHR 0xA0] = 0xA0"
  "code_point [CHR 0xE2, CHR 0x80, CHR 0x8B] = 0x200B"
  by simp_all

lemma utf8_examples:
  "utf8_chars [CHR 0x63, CHR 0xC3, CHR 0xA9] = [[CHR 0x63], [CHR 0xC3, CHR 0xA9]]"
  "utf8_chars [CHR 0xC2, CHR 0xA0] = [[CHR 0xC2, CHR 0xA0]]"
  "utf8_chars [CHR 0xE2, CHR 0x80, CHR 0x8B] = [[CHR 0xE2, CHR 0x80, CHR 0x8B]]"
  by (simp_all add: is_continuation_def)

lemma repr_str_escapes:
  "repr_str [CHR 0x63, CHR 0xC3, CHR 0xA9] =
     apostrophe @ [CHR 0x63, CHR 0xC3, CHR 0xA9] @ apostrophe"
  "repr_str [CHR 0xC2, CHR 0xA0] = apostrophe @ [CHR 0x5C] @ ''xa0'' @ apostrophe"
  "repr_str [CHR 0xE2, CHR 0x80, CHR 0x8B] = apostrophe @ [CHR 0x5C] @ ''u200b'' @ apostrophe"
  by (simp_all add: repr_str_def repr_char_def utf8_examples code_point_examples
      printable_examples hex_fixed_numeral hex_digit_examples Let_def
      del: utf8_chars.simps code_point.simps)

lemma response_with_no_break_space:
  "py_str (JObj [(''status'', JStr [CHR 0xC2, CHR 0xA0])]) =
     ''{'' @ apostrophe @ ''status'' @ apostrophe @ '': '' @ apostrophe @ [CHR 0x5C] @ ''xa0''
       @ apostrophe @ ''}''"
proof -
  have k: "repr_str ''status'' = apostrophe @ ''status'' @ apostrophe"
    by code_simp
  show ?thesis
    by (simp add: k repr_str_escapes(2))
qed

subsection \<open>The fetch\<close>

lemma config_existing_ok:
  assumes "srv log list_request = Inr existing_response"
    and "list_succeeded existing_response items"
  shows "config_existing_file_systems srv log = (JList items, log @ [list_request])"
  using assms by (simp add: config_existing_file_systems_def list_succeeded_def)

lemma config_existing_failed:
  assumes "fetch_failed srv log"
  shows "config_existing_file_systems srv log = (JList [], log @ [list_request])"
proof (cases "srv log list_request")
  case (Inl msg)
  then show ?thesis by (simp add: config_existing_file_systems_def)
next
  case (Inr existing_response)
  with assms have ne: "py_get existing_response ''status'' JNull
      \<noteq> Inr (JStr ''LIST_DISK_FILE_SYSTEMS_SUCCESSFUL'')"
    by (simp add: fetch_failed_def)
  show ?thesis
  proof (cases "py_get existing_response ''status'' JNull")
    case (Inl e)
    with Inr show ?thesis by (simp add: config_existing_file_systems_def)
  next
    case r: (Inr status)
    with ne have "status \<noteq> JStr ''LIST_DISK_FILE_SYSTEMS_SUCCESSFUL''" by simp
    with Inr r show ?thesis by (simp add: config_existing_file_systems_def)
  qed
qed

subsection \<open>The upsert of \<open>config_disk_file_system\<close>\<close>

lemma config_scan_dicts:
  "list_all is_dict items \<Longrightarrow>
   config_scan p m items (acc, ex) =
     Inr (acc @ map (\<lambda>fs. if has_path p fs then new_file_system p m else fs) items,
          ex \<or> list_ex (has_path p) items)"
proof (induction items arbitrary: acc ex)
  case Nil
  then show ?case by simp
next
  case (Cons fs rest)
  from Cons.prems obtain kvs where fs: "fs = JObj kvs" by (cases fs) simp_all
  from Cons.prems have rest: "list_all is_dict rest" by simp
  show ?case
    by (simp add: fs has_path_def Cons.IH [OF rest])
qed

lemma config_merge_dicts:
  "list_all is_dict items \<Longrightarrow>
   config_merge p m (JList items) =
     Inr (map (\<lambda>fs. if has_path p fs then new_file_system p m else fs) items
            @ (if list_ex (has_path p) items then [] else [new_file_system p m]),
          list_ex (has_path p) items)"
  by (simp add: config_merge_def config_scan_dicts)

lemma config_log_after_merge:
  assumes "config_existing_file_systems srv log = (existing, log1)"
    and "config_merge p m existing = Inr (to_configure, ex)"
  shows "snd (config_disk_file_system srv log p m) = log1 @ [config_request to_configure]"
  using assms
  by (simp add: config_disk_file_system_def make_request_def split: sum.splits prod.splits)

text \<open>
  C3. When the list request succeeds and the service holds a collection of items, the one
  write of \<open>config_disk_file_system\<close> submits that collection with every item of the
  candidate's path replaced where it stands by the candidate and every other item left as
  it is, in the same order; when no item has the path, the candidate is appended at the end.
  The write is a \<open>POST\<close> to the disk-file-system endpoint whose data holds that
  collection under \<open>fileSystems\<close>.
\<close>

theorem config_upsert_in_place:
  assumes "srv log list_request = Inr existing_response"
    and "list_succeeded existing_response items"
    and "list_all is_dict items"
  shows "snd (config_disk_file_system srv log file_system_path max_files) =
     log @ [list_request,
            \<lparr>method = ''POST'',
              endpoint = ''dsa/components/backup-applications/disk-file-system'',
              data = Some (JObj [(''fileSystems'',
                JList (map (\<lambda>fs. if has_path file_system_path fs
                                 then JObj [(''fileSystemPath'', JStr file_system_path),
                                            (''maxFiles'', JInt max_files)]
                                 else fs) items
                       @ (if list_ex (has_path file_system_path) items then []
                          else [JObj [(''fileSystemPath'', JStr file_system_path),
                                      (''maxFiles'', JInt max_files)]])))]),
              params = None, headers = None\<rparr>]"
proof -
  have "config_existing_file_systems srv log = (JList items, log @ [list_request])"
    using config_existing_ok [where srv = srv and log = log, OF assms(1,2)] .
  from config_log_after_merge [OF this config_merge_dicts [OF assms(3)]]
  show ?thesis
    by (simp add: config_request_def disk_file_system_endpoint_def new_file_system_def)
qed

theorem config_upsert_in_place_witness:
  "snd (config_disk_file_system
          (service [file_system ''a'' 1, file_system ''b'' 2] config_ok) [] ''a'' 9) =
     [list_request,
      \<lparr>method = ''POST'',
        endpoint = ''dsa/components/backup-applications/disk-file-system'',
        data = Some (JObj [(''fileSystems'',
          JList [JObj [(''fileSystemPath'', JStr ''a''), (''maxFiles'', JInt 9)],
                 JObj [(''fileSystemPath'', JStr ''b''), (''maxFiles'', JInt 2)]])]),
        params = None, headers = None\<rparr>]
   \<and> snd (config_disk_file_system
          (service [file_system ''a'' 1] config_ok) [] ''c'' 3) =
     [list_request,
      \<lparr>method = ''POST'',
        endpoint = ''dsa/components/backup-applications/disk-file-system'',
        data = Some (JObj [(''fileSystems'',
          JList [JObj [(''fileSystemPath'', JStr ''a''), (''maxFiles'', JInt 1)],
                 JObj [(''fileSystemPath'', JStr ''c''), (''maxFiles'', JInt 3)]])]),
        params = None, headers = None\<rparr>]"
  using config_upsert_in_place
      [of "service [file_system ''a'' 1, file_system ''b'' 2] config_ok" "[]"
          "list_response [file_system ''a'' 1, file_system ''b'' 2]"
          "[file_system ''a'' 1, file_system ''b'' 2]" "''a''" 9]
    config_upsert_in_place
      [of "service [file_system ''a'' 1] config_ok" "[]"
          "list_response [file_system ''a'' 1]" "[file_system ''a'' 1]" "''c''" 3]
  by (simp add: service_def list_request_def list_response_def list_succeeded_def
      file_system_def has_path_def)

subsection \<open>Values of a dict\<close>

lemma py_get_dict_get: "is_dict fs \<Longrightarrow> py_get fs k d = Inr (dict_get fs k d)"
  by (cases fs) simp_all

lemma config_existing_log [simp]:
  "snd (config_existing_file_systems srv log) = log @ [list_request]"
  by (simp add: config_existing_file_systems_def make_request_def split: sum.splits)

subsection \<open>The upsert keeps the paths distinct\<close>

lemma has_path_new [simp]: "has_path p (new_file_system p m)"
  by (simp add: has_path_def new_file_system_def)

lemma is_dict_new [simp]: "is_dict (new_file_system p m)"
  by (simp add: new_file_system_def)


lemma has_path_replaced:
  "has_path p (if has_path p fs then new_file_system p m else fs) = has_path p fs"
  by simp













subsection \<open>Lines of a joined text\<close>

lemma sublist_py_join: "x \<in> set xs \<Longrightarrow> sublist x (py_join sep xs)"
proof (induction sep xs rule: py_join.induct)
  case (1 sep)
  then show ?case by simp
next
  case (2 sep y)
  then show ?case by simp
next
  case (3 sep y z zs)
  show ?case
  proof (cases "x = y")
    case True
    then show ?thesis by simp
  next
    case False
    with 3 have "sublist x (py_join sep (z # zs))" by simp
    then obtain ps ss where "py_join sep (z # zs) = ps @ x @ ss"
      by (auto simp: sublist_def)
    then have "py_join sep (y # z # zs) = (y @ sep @ ps) @ x @ ss" by simp
    then show ?thesis unfolding sublist_def by blast
  qed
qed

lemma sublist_line: "sublist k l \<Longrightarrow> l \<in> set ls \<Longrightarrow> sublist k (py_join sep ls)"
  using sublist_py_join sublist_order.order_trans by blast

lemma map_err_dicts:
  "list_all is_dict items \<Longrightarrow>
   map_err (\<lambda>fs. py_get fs k d) items = Inr (map (\<lambda>fs. dict_get fs k d) items)"
  by (induction items) (simp_all add: py_get_dict_get)

subsection \<open>The scan of \<open>remove_disk_file_system\<close>\<close>

lemma remove_existing_ok:
  assumes "srv log list_request = Inr existing_response"
    and "list_succeeded existing_response items"
  shows "remove_existing_file_systems srv log p = (Inr (JList items), log @ [list_request])"
  using assms by (simp add: remove_existing_file_systems_def list_succeeded_def)

lemma remove_existing_failed:
  assumes "fetch_failed srv log"
  shows "remove_existing_file_systems srv log p =
     (Inl (case srv log list_request of
             Inl msg \<Rightarrow> cross_mark @ '' Error retrieving existing file systems: '' @ msg
           | Inr existing_response \<Rightarrow>
               (case py_get existing_response ''status'' JNull of
                  Inl e \<Rightarrow> cross_mark @ '' Error retrieving existing file systems: ''
                            @ str_of_error e
                | Inr status \<Rightarrow> cross_mark
                    @ '' Could not retrieve existing file systems to remove ''
                    @ apostrophe @ p @ apostrophe)),
      log @ [list_request])"
proof (cases "srv log list_request")
  case (Inl msg)
  then show ?thesis by (simp add: remove_existing_file_systems_def)
next
  case (Inr existing_response)
  with assms have ne: "py_get existing_response ''status'' JNull
      \<noteq> Inr (JStr ''LIST_DISK_FILE_SYSTEMS_SUCCESSFUL'')"
    by (simp add: fetch_failed_def)
  show ?thesis
  proof (cases "py_get existing_response ''status'' JNull")
    case (Inl e)
    with Inr show ?thesis by (simp add: remove_existing_file_systems_def)
  next
    case r: (Inr status)
    with ne have "status \<noteq> JStr ''LIST_DISK_FILE_SYSTEMS_SUCCESSFUL''" by simp
    with Inr r show ?thesis by (simp add: remove_existing_file_systems_def)
  qed
qed

lemma remove_scan_dicts:
  "list_all is_dict items \<Longrightarrow>
   remove_scan p items (ex, keep) =
     Inr (ex \<or> list_ex (has_path p) items, keep @ filter (\<lambda>fs. \<not> has_path p fs) items)"
proof (induction items arbitrary: ex keep)
  case Nil
  then show ?case by simp
next
  case (Cons fs rest)
  from Cons.prems obtain kvs where fs: "fs = JObj kvs" by (cases fs) simp_all
  from Cons.prems have rest: "list_all is_dict rest" by simp
  show ?case
    by (simp add: fs has_path_def Cons.IH [OF rest])
qed

lemma remove_not_found_dicts:
  "list_all is_dict items \<Longrightarrow>
   remove_not_found_lines p items =
     Inr ([card_index_dividers @ '' DSA Disk File System Removal'',
           rule50,
           cross_mark @ '' File system '' @ apostrophe @ p @ apostrophe @ '' not found'',
           [],
           clipboard @ '' Available file systems:'']
          @ (if items \<noteq> []
             then map (\<lambda>fs. ''   '' @ bullet @ '' ''
                          @ py_str (dict_get fs ''fileSystemPath'' (JStr ''N/A''))) items
             else [''   (No file systems configured)''])
          @ [[], rule50])"
  by (simp add: remove_not_found_lines_def map_err_dicts o_def)

lemma remove_after_fetch:
  assumes "remove_existing_file_systems srv log p = (Inr (JList items), log1)"
    and "list_all is_dict items"
  shows "remove_disk_file_system srv log p =
    (if \<not> list_ex (has_path p) items then
       (case remove_not_found_lines p items of
          Inl e \<Rightarrow> (remove_error p e, log1)
        | Inr results \<Rightarrow> (py_join newline results, log1))
     else
       (let (r, log2) = make_request srv log1
              (config_request (filter (\<lambda>fs. \<not> has_path p fs) items)) in
        case bind r (remove_result_lines p (filter (\<lambda>fs. \<not> has_path p fs) items)) of
          Inl e \<Rightarrow> (remove_error p e, log2)
        | Inr results \<Rightarrow> (py_join newline results, log2)))"
  using assms by (simp add: remove_disk_file_system_def remove_scan_dicts)

text \<open>
  C5. When the list request succeeds and no item of the collection has the path,
  \<open>remove_disk_file_system\<close> returns the "not found" report, in which every item's
  path stands on a line of its own, and the list request is the only request it makes.
\<close>

theorem remove_not_found:
  assumes "srv log list_request = Inr existing_response"
    and "list_succeeded existing_response items"
    and "list_all is_dict items"
    and "\<not> list_ex (has_path file_system_path) items"
  shows "remove_disk_file_system srv log file_system_path =
      (py_join newline
         ([card_index_dividers @ '' DSA Disk File System Removal'',
           rule50,
           cross_mark @ '' File system '' @ apostrophe @ file_system_path @ apostrophe
             @ '' not found'',
           [],
           clipboard @ '' Available file systems:'']
          @ (if items \<noteq> []
             then map (\<lambda>fs. ''   '' @ bullet @ '' ''
                          @ py_str (dict_get fs ''fileSystemPath'' (JStr ''N/A''))) items
             else [''   (No file systems configured)''])
          @ [[], rule50]),
       log @ [list_request])
    \<and> (\<forall>fs \<in> set items.
          sublist (py_str (dict_get fs ''fileSystemPath'' (JStr ''N/A'')))
            (fst (remove_disk_file_system srv log file_system_path)))"
proof -
  define ls where "ls =
     [card_index_dividers @ '' DSA Disk File System Removal'',
      rule50,
      cross_mark @ '' File system '' @ apostrophe @ file_system_path @ apostrophe
        @ '' not found'',
      [],
      clipboard @ '' Available file systems:'']
     @ (if items \<noteq> []
        then map (\<lambda>fs. ''   '' @ bullet @ '' ''
                     @ py_str (dict_get fs ''fileSystemPath'' (JStr ''N/A''))) items
        else [''   (No file systems configured)''])
     @ [[], rule50]"
  have f: "remove_existing_file_systems srv log file_system_path =
      (Inr (JList items), log @ [list_request])"
    using remove_existing_ok [where srv = srv and log = log, OF assms(1,2)] .
  have eq: "remove_disk_file_system srv log file_system_path =
      (py_join newline ls, log @ [list_request])"
    unfolding remove_after_fetch [OF f assms(3)] remove_not_found_dicts [OF assms(3)] ls_def
    using assms(4) by simp
  have "sublist (py_str (dict_get fs ''fileSystemPath'' (JStr ''N/A'')))
            (fst (remove_disk_file_system srv log file_system_path))"
    if "fs \<in> set items" for fs
  proof -
    let ?l = "''   '' @ bullet @ '' '' @ py_str (dict_get fs ''fileSystemPath'' (JStr ''N/A''))"
    have 1: "sublist (py_str (dict_get fs ''fileSystemPath'' (JStr ''N/A''))) ?l"
      by (metis sublist_append_leftI append_assoc)
    from that have "items \<noteq> []" by auto
    with that have 2: "?l \<in> set ls"
      unfolding ls_def by simp
    show ?thesis
      unfolding eq fst_conv by (rule sublist_line [OF 1 2])
  qed
  with eq show ?thesis unfolding ls_def by blast
qed

theorem remove_not_found_witness:
  "remove_disk_file_system (service [file_system ''a'' 1] config_ok) [] ''z'' =
     (py_join newline
        [card_index_dividers @ '' DSA Disk File System Removal'',
         rule50,
         cross_mark @ '' File system '' @ apostrophe @ ''z'' @ apostrophe @ '' not found'',
         [],
         clipboard @ '' Available file systems:'',
         ''   '' @ bullet @ '' a'',
         [], rule50],
      [list_request])
   \<and> sublist ''a'' (fst (remove_disk_file_system (service [file_system ''a'' 1] config_ok) []
                          ''z''))"
proof -
  have 1: "service [file_system ''a'' 1] config_ok [] list_request =
      Inr (list_response [file_system ''a'' 1])"
    by code_simp
  have 2: "list_succeeded (list_response [file_system ''a'' 1]) [file_system ''a'' 1]"
    by code_simp
  have 3: "list_all is_dict [file_system ''a'' 1]"
    by code_simp
  have 4: "\<not> list_ex (has_path ''z'') [file_system ''a'' 1]"
    by code_simp
  have 5: "dict_get (file_system ''a'' 1) ''fileSystemPath'' (JStr ''N/A'') = JStr ''a''"
    by code_simp
  note r = remove_not_found
    [where srv = "service [file_system ''a'' 1] config_ok" and log = "[]", OF 1 2 3 4]
  from r [THEN conjunct1]
  have a: "remove_disk_file_system (service [file_system ''a'' 1] config_ok) [] ''z'' =
     (py_join newline
        [card_index_dividers @ '' DSA Disk File System Removal'',
         rule50,
         cross_mark @ '' File system '' @ apostrophe @ ''z'' @ apostrophe @ '' not found'',
         [],
         clipboard @ '' Available file systems:'',
         ''   '' @ bullet @ '' a'',
         [], rule50],
      [list_request])"
    by (simp add: 5 del: py_join.simps replicate_eq_replicate)
  from r [THEN conjunct2]
  have b: "sublist ''a''
      (fst (remove_disk_file_system (service [file_system ''a'' 1] config_ok) [] ''z''))"
    by (simp add: 5)
  from a b show ?thesis by (rule conjI)
qed

lemma map_err_remaining:
  "list_all is_dict keep \<Longrightarrow>
   map_err remaining_line keep =
     Inr (map (\<lambda>fs. ''   '' @ bullet @ '' ''
                 @ py_str (dict_get fs ''fileSystemPath'' (JStr ''N/A''))
                 @ '' (Max Files: '' @ py_str (dict_get fs ''maxFiles'' (JStr ''N/A''))
                 @ '')'') keep)"
  by (induction keep) (simp_all add: remaining_line_def py_get_dict_get)

lemma remove_result_ok:
  assumes "py_get response ''status'' JNull = Inr (JStr ''CONFIG_DISK_FILE_SYSTEM_SUCCESSFUL'')"
    and "list_all is_dict keep"
  shows "remove_result_lines p keep response =
     Inr ([card_index_dividers @ '' DSA Disk File System Removal'',
           rule50,
           file_folder @ '' Removed File System: '' @ p,
           bar_chart @ '' Remaining File Systems: '' @ dec_nat (length keep),
           [],
           check_mark_button @ '' Disk file system removed successfully'',
           bar_chart @ '' Status: CONFIG_DISK_FILE_SYSTEM_SUCCESSFUL'',
           heavy_check_mark @ '' Valid: '' @ py_str (dict_get response ''valid'' (JBool False))]
          @ (if keep \<noteq> []
             then [[], clipboard @ '' Remaining file systems:'']
                  @ map (\<lambda>fs. ''   '' @ bullet @ '' ''
                     @ py_str (dict_get fs ''fileSystemPath'' (JStr ''N/A''))
                     @ '' (Max Files: '' @ py_str (dict_get fs ''maxFiles'' (JStr ''N/A''))
                     @ '')'') keep
             else [[], clipboard @ '' No file systems remaining (all removed)''])
          @ [[], rule50,
             check_mark_button @ '' Disk file system removal operation completed''])"
proof -
  from assms(1) obtain kvs where r: "response = JObj kvs" by (cases response) simp_all
  with assms(1) have s: "map_of kvs ''status'' = Some (JStr ''CONFIG_DISK_FILE_SYSTEM_SUCCESSFUL'')"
    by (simp split: option.splits)
  show ?thesis
    unfolding remove_result_lines_def r
    by (simp add: s map_err_remaining [OF assms(2)])
qed

text \<open>
  C6. When the list request succeeds and some item has the path,
  \<open>remove_disk_file_system\<close> makes one write after the list request: the fetched
  collection without the items of that path, the others as they were and in their order,
  sent by \<open>POST\<close> under \<open>fileSystems\<close>.
  When the answer to the write has the status \<open>CONFIG_DISK_FILE_SYSTEM_SUCCESSFUL\<close>, the
  text returned is the success report.
\<close>

theorem remove_found:
  assumes "srv log list_request = Inr existing_response"
    and "list_succeeded existing_response items"
    and "list_all is_dict items"
    and "list_ex (has_path file_system_path) items"
  shows "snd (remove_disk_file_system srv log file_system_path) =
      log @ [list_request,
             \<lparr>method = ''POST'',
               endpoint = ''dsa/components/backup-applications/disk-file-system'',
               data = Some (JObj [(''fileSystems'',
                 JList (filter (\<lambda>fs. \<not> has_path file_system_path fs) items))]),
               params = None, headers = None\<rparr>]
    \<and> (srv (log @ [list_request])
             (config_request (filter (\<lambda>fs. \<not> has_path file_system_path fs) items))
           = Inr response
         \<and> py_get response ''status'' JNull = Inr (JStr ''CONFIG_DISK_FILE_SYSTEM_SUCCESSFUL'')
         \<longrightarrow>
         fst (remove_disk_file_system srv log file_system_path) =
           py_join newline
             ([card_index_dividers @ '' DSA Disk File System Removal'',
               rule50,
               file_folder @ '' Removed File System: '' @ file_system_path,
               bar_chart @ '' Remaining File Systems: ''
                 @ dec_nat (length (filter (\<lambda>fs. \<not> has_path file_system_path fs) items)),
               [],
               check_mark_button @ '' Disk file system removed successfully'',
               bar_chart @ '' Status: CONFIG_DISK_FILE_SYSTEM_SUCCESSFUL'',
               heavy_check_mark @ '' Valid: ''
                 @ py_str (dict_get response ''valid'' (JBool False))]
              @ (if filter (\<lambda>fs. \<not> has_path file_system_path fs) items \<noteq> []
                 then [[], clipboard @ '' Remaining file systems:'']
                      @ map (\<lambda>fs. ''   '' @ bullet @ '' ''
                         @ py_str (dict_get fs ''fileSystemPath'' (JStr ''N/A''))
                         @ '' (Max Files: ''
                         @ py_str (dict_get fs ''maxFiles'' (JStr ''N/A'')) @ '')'')
                          (filter (\<lambda>fs. \<not> has_path file_system_path fs) items)
                 else [[], clipboard @ '' No file systems remaining (all removed)''])
              @ [[], rule50,
                 check_mark_button @ '' Disk file system removal operation completed'']))"
proof -
  define keep where "keep = filter (\<lambda>fs. \<not> has_path file_system_path fs) items"
  have k: "list_all is_dict keep"
    using assms(3) by (simp add: keep_def list_all_iff)
  have f: "remove_existing_file_systems srv log file_system_path =
      (Inr (JList items), log @ [list_request])"
    using remove_existing_ok [where srv = srv and log = log, OF assms(1,2)] .
  have eq: "remove_disk_file_system srv log file_system_path =
      (let (r, log2) = make_request srv (log @ [list_request]) (config_request keep) in
        case bind r (remove_result_lines file_system_path keep) of
          Inl e \<Rightarrow> (remove_error file_system_path e, log2)
        | Inr results \<Rightarrow> (py_join newline results, log2))"
    unfolding remove_after_fetch [OF f assms(3)] keep_def using assms(4) by simp
  have 1: "snd (remove_disk_file_system srv log file_system_path) =
      log @ [list_request, config_request keep]"
    unfolding eq by (simp add: make_request_def split: sum.splits)
  have 2: "fst (remove_disk_file_system srv log file_system_path) =
        py_join newline
             ([card_index_dividers @ '' DSA Disk File System Removal'',
               rule50,
               file_folder @ '' Removed File System: '' @ file_system_path,
               bar_chart @ '' Remaining File Systems: '' @ dec_nat (length keep),
               [],
               check_mark_button @ '' Disk file system removed successfully'',
               bar_chart @ '' Status: CONFIG_DISK_FILE_SYSTEM_SUCCESSFUL'',
               heavy_check_mark @ '' Valid: ''
                 @ py_str (dict_get response ''valid'' (JBool False))]
              @ (if keep \<noteq> []
                 then [[], clipboard @ '' Remaining file systems:'']
                      @ map (\<lambda>fs. ''   '' @ bullet @ '' ''
                         @ py_str (dict_get fs ''fileSystemPath'' (JStr ''N/A''))
                         @ '' (Max Files: ''
                         @ py_str (dict_get fs ''maxFiles'' (JStr ''N/A'')) @ '')'') keep
                 else [[], clipboard @ '' No file systems remaining (all removed)''])
              @ [[], rule50,
                 check_mark_button @ '' Disk file system removal operation completed''])"
    if a: "srv (log @ [list_request]) (config_request keep) = Inr response"
      and b: "py_get response ''status'' JNull = Inr (JStr ''CONFIG_DISK_FILE_SYSTEM_SUCCESSFUL'')"
  proof -
    have "remove_disk_file_system srv log file_system_path =
      (case remove_result_lines file_system_path keep response of
          Inl e \<Rightarrow> (remove_error file_system_path e, log @ [list_request, config_request keep])
        | Inr results \<Rightarrow> (py_join newline results, log @ [list_request, config_request keep]))"
      unfolding eq by (simp add: a)
    then show ?thesis
      unfolding remove_result_ok [OF b k] sum.case by (simp only: fst_conv)
  qed
  have 3: "config_request keep =
      \<lparr>method = ''POST'',
        endpoint = ''dsa/components/backup-applications/disk-file-system'',
        data = Some (JObj [(''fileSystems'', JList keep)]),
        params = None, headers = None\<rparr>"
    by (simp add: config_request_def disk_file_system_endpoint_def)
  from 1 [unfolded 3] 2 show ?thesis
    unfolding keep_def by (intro conjI impI) (simp_all only:)
qed

theorem remove_found_witness:
  "snd (remove_disk_file_system
          (service [file_system ''a'' 1, file_system ''b'' 2] config_ok) [] ''a'') =
     [list_request,
      \<lparr>method = ''POST'',
        endpoint = ''dsa/components/backup-applications/disk-file-system'',
        data = Some (JObj [(''fileSystems'',
          JList [JObj [(''fileSystemPath'', JStr ''b''), (''maxFiles'', JInt 2)]])]),
        params = None, headers = None\<rparr>]
   \<and> fst (remove_disk_file_system
          (service [file_system ''a'' 1, file_system ''b'' 2] config_ok) [] ''a'') =
     py_join newline
       [card_index_dividers @ '' DSA Disk File System Removal'',
        rule50,
        file_folder @ '' Removed File System: a'',
        bar_chart @ '' Remaining File Systems: 1'',
        [],
        check_mark_button @ '' Disk file system removed successfully'',
        bar_chart @ '' Status: CONFIG_DISK_FILE_SYSTEM_SUCCESSFUL'',
        heavy_check_mark @ '' Valid: True'',
        [],
        clipboard @ '' Remaining file systems:'',
        ''   '' @ bullet @ '' b (Max Files: 2)'',
        [], rule50,
        check_mark_button @ '' Disk file system removal operation completed'']"
proof -
  let ?items = "[file_system ''a'' 1, file_system ''b'' 2]"
  have 1: "service ?items config_ok [] list_request = Inr (list_response ?items)"
    by code_simp
  have 2: "list_succeeded (list_response ?items) ?items"
    by code_simp
  have 3: "list_all is_dict ?items"
    by code_simp
  have 4: "list_ex (has_path ''a'') ?items"
    by code_simp
  have 5: "filter (\<lambda>fs. \<not> has_path ''a'' fs) ?items = [file_system ''b'' 2]"
    by code_simp
  have 6: "service ?items config_ok ([] @ [list_request]) (config_request [file_system ''b'' 2])
       = Inr config_ok
     \<and> py_get config_ok ''status'' JNull = Inr (JStr ''CONFIG_DISK_FILE_SYSTEM_SUCCESSFUL'')"
    by code_simp
  have 7: "dict_get config_ok ''valid'' (JBool False) = JBool True"
    "dict_get (file_system ''b'' 2) ''fileSystemPath'' (JStr ''N/A'') = JStr ''b''"
    "dict_get (file_system ''b'' 2) ''maxFiles'' (JStr ''N/A'') = JInt 2"
    "dec_nat (Suc 0) = ''1''" "dec_int 2 = ''2''"
    by code_simp+
  note r = remove_found [where srv = "service ?items config_ok" and log = "[]"
      and response = config_ok, OF 1 2 3 4, unfolded 5]
  from r [THEN conjunct1]
  have a: "snd (remove_disk_file_system (service ?items config_ok) [] ''a'') =
      [list_request,
       \<lparr>method = ''POST'',
         endpoint = ''dsa/components/backup-applications/disk-file-system'',
         data = Some (JObj [(''fileSystems'',
           JList [JObj [(''fileSystemPath'', JStr ''b''), (''maxFiles'', JInt 2)]])]),
         params = None, headers = None\<rparr>]"
    by (simp add: file_system_def)
  from r [THEN conjunct2, THEN mp, OF 6]
  have b: "fst (remove_disk_file_system (service ?items config_ok) [] ''a'') =
     py_join newline
       [card_index_dividers @ '' DSA Disk File System Removal'',
        rule50,
        file_folder @ '' Removed File System: a'',
        bar_chart @ '' Remaining File Systems: 1'',
        [],
        check_mark_button @ '' Disk file system removed successfully'',
        bar_chart @ '' Status: CONFIG_DISK_FILE_SYSTEM_SUCCESSFUL'',
        heavy_check_mark @ '' Valid: True'',
        [],
        clipboard @ '' Remaining file systems:'',
        ''   '' @ bullet @ '' b (Max Files: 2)'',
        [], rule50,
        check_mark_button @ '' Disk file system removal operation completed'']"
    by (simp add: 7 del: py_join.simps replicate_eq_replicate)
  from a b show ?thesis by (rule conjI)
qed

text \<open>
  What each operation does once the list request has failed (it raised, or its status is
  not \<open>LIST_DISK_FILE_SYSTEMS_SUCCESSFUL\<close>).
\<close>

lemma remove_after_failed_fetch:
  assumes "fetch_failed srv log"
  shows "remove_disk_file_system srv log file_system_path =
     ((case srv log list_request of
         Inl msg \<Rightarrow> cross_mark @ '' Error retrieving existing file systems: '' @ msg
       | Inr existing_response \<Rightarrow>
           (case py_get existing_response ''status'' JNull of
              Inl e \<Rightarrow> cross_mark @ '' Error retrieving existing file systems: ''
                        @ str_of_error e
            | Inr status \<Rightarrow> cross_mark
                @ '' Could not retrieve existing file systems to remove ''
                @ apostrophe @ file_system_path @ apostrophe)),
      log @ [list_request])"
  unfolding remove_disk_file_system_def remove_existing_failed [OF assms] by simp

lemma config_after_failed_fetch:
  assumes "fetch_failed srv log"
  shows "snd (config_disk_file_system srv log file_system_path max_files) =
       log @ [list_request, config_request [new_file_system file_system_path max_files]]"
proof -
  have "config_merge file_system_path max_files (JList []) =
      Inr ([new_file_system file_system_path max_files], False)"
    by (simp add: config_merge_def)
  from config_log_after_merge [OF config_existing_failed [OF assms] this]
  show ?thesis by simp
qed

text \<open>
  C1 does not hold of \<open>config_disk_file_system\<close>. The service refuses the list request
  (\<open>Connection refused\<close>) and \<open>config_disk_file_system('/backup', 100)\<close> is called:
  the operation makes the \<open>POST\<close> all the same, and the collection it submits holds the
  candidate and nothing else, so the write replaces whatever the service held. The
  docstring of the function says that it "adds a new disk file system to the existing
  list or updates an existing one", and the comment over the request reads "existing +
  new/updated". \<open>remove_disk_file_system\<close>, at the same service, returns the fetch error
  and its only request is the \<open>GET\<close>.
\<close>

theorem config_writes_after_failed_fetch:
  "service_without_list config_ok [] list_request = Inl ''Connection refused''
   \<and> snd (config_disk_file_system (service_without_list config_ok) [] ''/backup'' 100) =
       [\<lparr>method = ''GET'',
          endpoint = ''dsa/components/backup-applications/disk-file-system'',
          data = None, params = None, headers = None\<rparr>,
        \<lparr>method = ''POST'',
          endpoint = ''dsa/components/backup-applications/disk-file-system'',
          data = Some (JObj [(''fileSystems'',
            JList [JObj [(''fileSystemPath'', JStr ''/backup''), (''maxFiles'', JInt 100)]])]),
          params = None, headers = None\<rparr>]
   \<and> remove_disk_file_system (service_without_list config_ok) [] ''/backup'' =
       (cross_mark @ '' Error retrieving existing file systems: Connection refused'',
        [\<lparr>method = ''GET'',
           endpoint = ''dsa/components/backup-applications/disk-file-system'',
           data = None, params = None, headers = None\<rparr>])"
  by code_simp

subsection \<open>The answer to the write\<close>

lemma remove_existing_log [simp]:
  "snd (remove_existing_file_systems srv log p) = log @ [list_request]"
  by (simp add: remove_existing_file_systems_def make_request_def split: sum.splits)

lemma error_list_lines:
  assumes "py_get validation k (JList []) = Inr (JList errs)"
    and "list_all is_dict errs"
    and f: "\<And>e. is_dict e \<Longrightarrow> f e = Inr (g e)"
  shows "bind (py_get validation k JNull) (\<lambda>l.
           bind (if truthy l
                 then bind (py_iter l) (\<lambda>errs. bind (map_err f errs) (\<lambda>ls. Inr (concat ls)))
                 else Inr []) K)
         = K (concat (map g errs))"
proof -
  have m: "map_err f errs = Inr (map g errs)"
    using assms(2) by (induction errs) (simp_all add: f)
  from assms(1) obtain kvs where v: "validation = JObj kvs" by (cases validation) simp_all
  show ?thesis
  proof (cases "map_of kvs k")
    case None
    with assms(1) v show ?thesis by simp
  next
    case (Some l)
    with assms(1) v have "l = JList errs" by simp
    with Some v m show ?thesis by (cases "errs = []") simp_all
  qed
qed

lemma validation_details_listed:
  assumes "py_get response ''validationlist'' JNull = Inr validation"
    and "truthy validation"
    and "py_get validation ''serverValidationList'' (JList []) = Inr (JList server_errors)"
    and "py_get validation ''clientValidationList'' (JList []) = Inr (JList client_errors)"
    and "list_all is_dict server_errors"
    and "list_all is_dict client_errors"
  shows "validation_details response =
     Inr ([[], magnifying_glass @ '' Validation Details:'']
          @ concat (map (\<lambda>e.
              [cross_mark @ '' Server Error: ''
                 @ py_str (dict_get e ''message'' (JStr ''Unknown error'')),
               ''   Code: '' @ py_str (dict_get e ''code'' (JStr ''N/A'')),
               ''   Status: '' @ py_str (dict_get e ''valStatus'' (JStr ''N/A''))])
              server_errors)
          @ concat (map (\<lambda>e.
              [cross_mark @ '' Client Error: ''
                 @ py_str (dict_get e ''message'' (JStr ''Unknown error''))])
              client_errors))"
  unfolding validation_details_def
  by (simp only: assms(1) bind_Inr assms(2) if_True
        error_list_lines [OF assms(3) assms(5), of server_error_lines]
        error_list_lines [OF assms(4) assms(6), of client_error_lines]
        server_error_lines_def client_error_lines_def py_get_dict_get)

lemma config_request_inj [simp]: "config_request a = config_request b \<longleftrightarrow> a = b"
  by (simp add: config_request_def)

lemma config_written:
  assumes "snd (config_disk_file_system srv log p m) = log @ [list_request, config_request fss]"
    and "srv (log @ [list_request]) (config_request fss) = Inr response"
  shows "\<exists>ex. fst (config_disk_file_system srv log p m) =
     (case config_result_lines p m fss ex response of
        Inl e \<Rightarrow> config_error p e
      | Inr results \<Rightarrow> py_join newline results)"
proof -
  obtain existing where e: "config_existing_file_systems srv log = (existing, log @ [list_request])"
    by (metis config_existing_log prod.collapse)
  show ?thesis
  proof (cases "config_merge p m existing")
    case (Inl err)
    with e assms(1) show ?thesis by (simp add: config_disk_file_system_def)
  next
    case (Inr merged)
    obtain fss' ex where m: "merged = (fss', ex)" by (cases merged)
    from config_log_after_merge [OF e Inr [unfolded m]] assms(1)
    have "fss' = fss" by simp
    with e Inr m assms(2) have "fst (config_disk_file_system srv log p m) =
     (case config_result_lines p m fss ex response of
        Inl e \<Rightarrow> config_error p e
      | Inr results \<Rightarrow> py_join newline results)"
      by (simp add: config_disk_file_system_def split: sum.splits)
    then show ?thesis by blast
  qed
qed

lemma remove_written:
  assumes "snd (remove_disk_file_system srv log p) = log @ [list_request, config_request keep]"
    and "srv (log @ [list_request]) (config_request keep) = Inr response"
  shows "fst (remove_disk_file_system srv log p) =
     (case remove_result_lines p keep response of
        Inl e \<Rightarrow> remove_error p e
      | Inr results \<Rightarrow> py_join newline results)"
proof -
  obtain fetched where e: "remove_existing_file_systems srv log p = (fetched, log @ [list_request])"
    by (metis remove_existing_log prod.collapse)
  show ?thesis
  proof (cases fetched)
    case (Inl msg)
    with e assms(1) show ?thesis by (simp add: remove_disk_file_system_def)
  next
    case (Inr existing)
    show ?thesis
    proof (cases "bind (py_iter existing) (\<lambda>items.
                bind (remove_scan p items (False, [])) (\<lambda>scanned. Inr (items, scanned)))")
      case (Inl err)
      with e Inr assms(1) show ?thesis by (simp add: remove_disk_file_system_def)
    next
      case r: (Inr res)
      obtain items ex keep' where res: "res = (items, ex, keep')" by (cases res)
      show ?thesis
      proof (cases ex)
        case False
        with e Inr r res assms(1) show ?thesis
          by (simp add: remove_disk_file_system_def split: sum.splits)
      next
        case True
        with e Inr r res assms(1) have "keep' = keep"
          by (simp add: remove_disk_file_system_def make_request_def split: sum.splits)
        with True e Inr r res assms(2) show ?thesis
          by (simp add: remove_disk_file_system_def split: sum.splits)
      qed
    qed
  qed
qed

lemma remove_scan_keeps_dicts:
  "remove_scan p items (ex, keep) = Inr (ex', keep') \<Longrightarrow> list_all is_dict keep \<Longrightarrow>
   list_all is_dict keep'"
proof (induction items arbitrary: ex keep)
  case Nil
  then show ?case by simp
next
  case (Cons fs rest)
  from Cons.prems(1) obtain kvs where fs: "fs = JObj kvs"
    by (cases fs) simp_all
  show ?case
  proof (cases "has_path p fs")
    case True
    with Cons.prems fs have "remove_scan p rest (True, keep) = Inr (ex', keep')"
      by (simp add: has_path_def)
    from Cons.IH [OF this Cons.prems(2)] show ?thesis .
  next
    case False
    with Cons.prems fs have "remove_scan p rest (ex, keep @ [fs]) = Inr (ex', keep')"
      by (simp add: has_path_def)
    moreover have "list_all is_dict (keep @ [fs])" using Cons.prems(2) fs by simp
    ultimately show ?thesis by (rule Cons.IH)
  qed
qed

lemma remove_written_dicts:
  assumes "snd (remove_disk_file_system srv log p) = log @ [list_request, config_request keep]"
  shows "list_all is_dict keep"
proof -
  obtain fetched where e: "remove_existing_file_systems srv log p = (fetched, log @ [list_request])"
    by (metis remove_existing_log prod.collapse)
  show ?thesis
  proof (cases fetched)
    case (Inl msg)
    with e assms show ?thesis by (simp add: remove_disk_file_system_def)
  next
    case (Inr existing)
    show ?thesis
    proof (cases "py_iter existing")
      case (Inl err)
      with e Inr assms show ?thesis by (simp add: remove_disk_file_system_def)
    next
      case i: (Inr items)
      show ?thesis
      proof (cases "remove_scan p items (False, [])")
        case (Inl err)
        with e Inr i assms show ?thesis by (simp add: remove_disk_file_system_def)
      next
        case r: (Inr res)
        obtain ex keep' where res: "res = (ex, keep')" by (cases res)
        have d: "list_all is_dict keep'"
          using remove_scan_keeps_dicts [OF r [unfolded res]] by simp
        show ?thesis
        proof (cases ex)
          case False
          with e Inr i r res assms show ?thesis
            by (simp add: remove_disk_file_system_def split: sum.splits)
        next
          case True
          with e Inr i r res assms have "keep' = keep"
            by (simp add: remove_disk_file_system_def make_request_def split: sum.splits)
          with d show ?thesis by simp
        qed
      qed
    qed
  qed
qed

lemma config_result_failed:
  assumes "py_get response ''status'' JNull = Inr status"
    and "status \<noteq> JStr ''CONFIG_DISK_FILE_SYSTEM_SUCCESSFUL''"
    and "validation_details response = Inr details"
  shows "config_result_lines p m fss ex response =
     Inr ([card_index_dividers @ '' DSA Disk File System Configuration'',
           rule50,
           file_folder @ '' File System Path: '' @ p,
           page_facing_up @ '' Max Files: '' @ dec_int m,
           bar_chart @ '' Total File Systems: '' @ dec_nat (length fss),
           arrows_button @ '' Operation: '' @ (if ex then ''Update'' else ''Add''),
           [],
           cross_mark @ '' Failed to configure disk file system'',
           bar_chart @ '' Status: '' @ py_str (dict_get response ''status'' (JStr ''Unknown'')),
           heavy_check_mark @ '' Valid: '' @ py_str (dict_get response ''valid'' (JBool False))]
          @ details
          @ [[], rule50,
             check_mark_button @ '' Disk file system configuration operation completed''])"
proof -
  from assms(1) have d: "is_dict response" by (cases response) simp_all
  from assms(1) have s: "dict_get response ''status'' JNull = status"
    by (simp add: py_get_dict_get [OF d])
  show ?thesis
    unfolding config_result_lines_def
    by (simp add: assms(2-) s py_get_dict_get [OF d])
qed

lemma config_result_ok:
  assumes "py_get response ''status'' JNull = Inr (JStr ''CONFIG_DISK_FILE_SYSTEM_SUCCESSFUL'')"
  shows "config_result_lines p m fss ex response =
     Inr [card_index_dividers @ '' DSA Disk File System Configuration'',
           rule50,
           file_folder @ '' File System Path: '' @ p,
           page_facing_up @ '' Max Files: '' @ dec_int m,
           bar_chart @ '' Total File Systems: '' @ dec_nat (length fss),
           arrows_button @ '' Operation: '' @ (if ex then ''Update'' else ''Add''),
           [],
           check_mark_button @ '' Disk file system configured successfully'',
           bar_chart @ '' Status: CONFIG_DISK_FILE_SYSTEM_SUCCESSFUL'',
           heavy_check_mark @ '' Valid: '' @ py_str (dict_get response ''valid'' (JBool False)),
           [], rule50,
           check_mark_button @ '' Disk file system configuration operation completed'']"
proof -
  from assms(1) have d: "is_dict response" by (cases response) simp_all
  from assms(1) have s: "dict_get response ''status'' JNull
      = JStr ''CONFIG_DISK_FILE_SYSTEM_SUCCESSFUL''"
    by (simp add: py_get_dict_get [OF d])
  show ?thesis
    unfolding config_result_lines_def
    by (simp add: s py_get_dict_get [OF d])
qed

lemma remove_result_failed:
  assumes "py_get response ''status'' JNull = Inr status"
    and "status \<noteq> JStr ''CONFIG_DISK_FILE_SYSTEM_SUCCESSFUL''"
    and "validation_details response = Inr details"
  shows "remove_result_lines p keep response =
     Inr ([card_index_dividers @ '' DSA Disk File System Removal'',
           rule50,
           file_folder @ '' Removed File System: '' @ p,
           bar_chart @ '' Remaining File Systems: '' @ dec_nat (length keep),
           [],
           cross_mark @ '' Failed to remove disk file system'',
           bar_chart @ '' Status: '' @ py_str (dict_get response ''status'' (JStr ''Unknown'')),
           heavy_check_mark @ '' Valid: '' @ py_str (dict_get response ''valid'' (JBool False))]
          @ details
          @ [[], rule50,
             check_mark_button @ '' Disk file system removal operation completed''])"
proof -
  from assms(1) have d: "is_dict response" by (cases response) simp_all
  from assms(1) have s: "dict_get response ''status'' JNull = status"
    by (simp add: py_get_dict_get [OF d])
  show ?thesis
    unfolding remove_result_lines_def
    by (simp add: assms(2-) s py_get_dict_get [OF d])
qed

lemma config_result_failed_shape:
  assumes "py_get response ''status'' JNull = Inr status"
    and "status \<noteq> JStr ''CONFIG_DISK_FILE_SYSTEM_SUCCESSFUL''"
    and "validation_details response = Inr details"
  shows "\<exists>pre post. config_result_lines p m fss ex response = Inr (pre @ details @ post)"
  unfolding config_result_failed [OF assms] by (intro exI) (rule refl)

lemma remove_result_failed_shape:
  assumes "py_get response ''status'' JNull = Inr status"
    and "status \<noteq> JStr ''CONFIG_DISK_FILE_SYSTEM_SUCCESSFUL''"
    and "validation_details response = Inr details"
  shows "\<exists>pre post. remove_result_lines p keep response = Inr (pre @ details @ post)"
  unfolding remove_result_failed [OF assms] by (intro exI) (rule refl)

lemma sublist_after2: "sublist m (a @ b @ m)"
  by (metis append_assoc sublist_append_leftI)

lemma member_details:
  assumes "e \<in> set ss \<union> set cs"
    and "\<And>e. sublist (k e) (hd (f e))" and "\<And>e. f e \<noteq> []"
    and "\<And>e. sublist (k e) (hd (g e))" and "\<And>e. g e \<noteq> []"
  shows "\<exists>l \<in> set (pre @ concat (map f ss) @ concat (map g cs)). sublist (k e) l"
proof -
  from assms(1) consider "e \<in> set ss" | "e \<in> set cs" by blast
  then show ?thesis
  proof cases
    case 1
    have "hd (f e) \<in> set (f e)" using assms(3) by (rule hd_in_set)
    with 1 have "hd (f e) \<in> set (concat (map f ss))" by auto
    with assms(2) show ?thesis by auto
  next
    case 2
    have "hd (g e) \<in> set (g e)" using assms(5) by (rule hd_in_set)
    with 2 have "hd (g e) \<in> set (concat (map g cs))" by auto
    with assms(4) show ?thesis by auto
  qed
qed

lemma message_in_details:
  assumes "e \<in> set server_errors \<union> set client_errors"
  shows "\<exists>l \<in> set ([[], magnifying_glass @ '' Validation Details:'']
          @ concat (map (\<lambda>e.
              [cross_mark @ '' Server Error: ''
                 @ py_str (dict_get e ''message'' (JStr ''Unknown error'')),
               ''   Code: '' @ py_str (dict_get e ''code'' (JStr ''N/A'')),
               ''   Status: '' @ py_str (dict_get e ''valStatus'' (JStr ''N/A''))])
              server_errors)
          @ concat (map (\<lambda>e.
              [cross_mark @ '' Client Error: ''
                 @ py_str (dict_get e ''message'' (JStr ''Unknown error''))])
              client_errors)).
      sublist (py_str (dict_get e ''message'' (JStr ''Unknown error''))) l"
proof (rule member_details
    [where k = "\<lambda>e. py_str (dict_get e ''message'' (JStr ''Unknown error''))", OF assms])
  fix e
  show "sublist (py_str (dict_get e ''message'' (JStr ''Unknown error'')))
     (hd [cross_mark @ '' Server Error: ''
           @ py_str (dict_get e ''message'' (JStr ''Unknown error'')),
          ''   Code: '' @ py_str (dict_get e ''code'' (JStr ''N/A'')),
          ''   Status: '' @ py_str (dict_get e ''valStatus'' (JStr ''N/A''))])"
    unfolding list.sel by (rule sublist_after2)
  show "sublist (py_str (dict_get e ''message'' (JStr ''Unknown error'')))
     (hd [cross_mark @ '' Client Error: ''
           @ py_str (dict_get e ''message'' (JStr ''Unknown error''))])"
    unfolding list.sel by (rule sublist_after2)
qed (rule list.distinct)+

lemma validation_messages:
  assumes "py_get response ''status'' JNull = Inr status"
    and "status \<noteq> JStr ''CONFIG_DISK_FILE_SYSTEM_SUCCESSFUL''"
    and "py_get response ''validationlist'' JNull = Inr validation"
    and "truthy validation"
    and "py_get validation ''serverValidationList'' (JList []) = Inr (JList server_errors)"
    and "py_get validation ''clientValidationList'' (JList []) = Inr (JList client_errors)"
    and "list_all is_dict server_errors"
    and "list_all is_dict client_errors"
    and "e \<in> set server_errors \<union> set client_errors"
  shows "(snd (config_disk_file_system srv log file_system_path max_files) =
            log @ [list_request,
             config_request file_systems]
          \<and> srv (log @ [list_request])
             (config_request file_systems) = Inr response
          \<longrightarrow> sublist (py_str (dict_get e ''message'' (JStr ''Unknown error'')))
                (fst (config_disk_file_system srv log file_system_path max_files)))
       \<and> (snd (remove_disk_file_system srv log file_system_path) =
            log @ [list_request,
             config_request file_systems]
          \<and> srv (log @ [list_request])
             (config_request file_systems) = Inr response
          \<longrightarrow> sublist (py_str (dict_get e ''message'' (JStr ''Unknown error'')))
                (fst (remove_disk_file_system srv log file_system_path)))"
proof -
  let ?m = "py_str (dict_get e ''message'' (JStr ''Unknown error''))"
  define details where "details = [[], magnifying_glass @ '' Validation Details:'']
          @ concat (map (\<lambda>e.
              [cross_mark @ '' Server Error: ''
                 @ py_str (dict_get e ''message'' (JStr ''Unknown error'')),
               ''   Code: '' @ py_str (dict_get e ''code'' (JStr ''N/A'')),
               ''   Status: '' @ py_str (dict_get e ''valStatus'' (JStr ''N/A''))])
              server_errors)
          @ concat (map (\<lambda>e.
              [cross_mark @ '' Client Error: ''
                 @ py_str (dict_get e ''message'' (JStr ''Unknown error''))])
              client_errors)"
  have v: "validation_details response = Inr details"
    unfolding details_def using assms(3-8) by (rule validation_details_listed)
  from message_in_details [OF assms(9)]
  obtain l where l: "l \<in> set details" "sublist ?m l"
    unfolding details_def by blast
  have c: "sublist ?m (fst (config_disk_file_system srv log file_system_path max_files))"
    if w: "snd (config_disk_file_system srv log file_system_path max_files) =
            log @ [list_request, config_request file_systems]"
      and r: "srv (log @ [list_request]) (config_request file_systems) = Inr response"
  proof -
    from config_written [OF w r] obtain ex where f:
      "fst (config_disk_file_system srv log file_system_path max_files) =
        (case config_result_lines file_system_path max_files file_systems ex response of
          Inl e \<Rightarrow> config_error file_system_path e
        | Inr results \<Rightarrow> py_join newline results)" by blast
    from config_result_failed_shape [OF assms(1,2) v] obtain pre post where
      "config_result_lines file_system_path max_files file_systems ex response =
         Inr (pre @ details @ post)" by blast
    with f have
      "fst (config_disk_file_system srv log file_system_path max_files) =
         py_join newline (pre @ details @ post)"
      by (simp only: sum.case)
    moreover have "l \<in> set (pre @ details @ post)" using l(1) by simp
    ultimately show ?thesis using sublist_line [OF l(2)] by simp
  qed
  have d: "sublist ?m (fst (remove_disk_file_system srv log file_system_path))"
    if w: "snd (remove_disk_file_system srv log file_system_path) =
            log @ [list_request, config_request file_systems]"
      and r: "srv (log @ [list_request]) (config_request file_systems) = Inr response"
  proof -
    from remove_result_failed_shape [OF assms(1,2) v] obtain pre post where
      "remove_result_lines file_system_path file_systems response =
         Inr (pre @ details @ post)" by blast
    with remove_written [OF w r] have
      "fst (remove_disk_file_system srv log file_system_path) =
         py_join newline (pre @ details @ post)"
      by (simp only: sum.case)
    moreover have "l \<in> set (pre @ details @ post)" using l(1) by simp
    ultimately show ?thesis using sublist_line [OF l(2)] by simp
  qed
  from c d show ?thesis by blast
qed

lemma config_success_text:
  assumes w: "snd (config_disk_file_system srv log file_system_path max_files) =
             log @ [list_request, config_request file_systems]"
    and r: "srv (log @ [list_request]) (config_request file_systems) = Inr response"
    and s: "py_get response ''status'' JNull = Inr (JStr ''CONFIG_DISK_FILE_SYSTEM_SUCCESSFUL'')"
  shows "\<exists>path_exists. fst (config_disk_file_system srv log file_system_path max_files) =
            py_join newline
              [card_index_dividers @ '' DSA Disk File System Configuration'',
               rule50,
               file_folder @ '' File System Path: '' @ file_system_path,
               page_facing_up @ '' Max Files: '' @ dec_int max_files,
               bar_chart @ '' Total File Systems: '' @ dec_nat (length file_systems),
               arrows_button @ '' Operation: '' @ (if path_exists then ''Update'' else ''Add''),
               [],
               check_mark_button @ '' Disk file system configured successfully'',
               bar_chart @ '' Status: CONFIG_DISK_FILE_SYSTEM_SUCCESSFUL'',
               heavy_check_mark @ '' Valid: ''
                 @ py_str (dict_get response ''valid'' (JBool False)),
               [], rule50,
               check_mark_button @ '' Disk file system configuration operation completed'']"
proof -
  from config_written [OF w r] obtain ex where f:
    "fst (config_disk_file_system srv log file_system_path max_files) =
       (case config_result_lines file_system_path max_files file_systems ex response of
          Inl e \<Rightarrow> config_error file_system_path e
        | Inr results \<Rightarrow> py_join newline results)" by blast
  show ?thesis
    using f unfolding config_result_ok [OF s] sum.case
    by (rule exI [where x = ex])
qed

lemma remove_success_text:
  assumes w: "snd (remove_disk_file_system srv log file_system_path) =
             log @ [list_request, config_request file_systems]"
    and r: "srv (log @ [list_request]) (config_request file_systems) = Inr response"
    and s: "py_get response ''status'' JNull = Inr (JStr ''CONFIG_DISK_FILE_SYSTEM_SUCCESSFUL'')"
  shows "fst (remove_disk_file_system srv log file_system_path) =
             py_join newline
               ([card_index_dividers @ '' DSA Disk File System Removal'',
                rule50,
                file_folder @ '' Removed File System: '' @ file_system_path,
                bar_chart @ '' Remaining File Systems: '' @ dec_nat (length file_systems),
                [],
                check_mark_button @ '' Disk file system removed successfully'',
                bar_chart @ '' Status: CONFIG_DISK_FILE_SYSTEM_SUCCESSFUL'',
                heavy_check_mark @ '' Valid: ''
                  @ py_str (dict_get response ''valid'' (JBool False))]
               @ (if file_systems \<noteq> []
                  then [[], clipboard @ '' Remaining file systems:'']
                       @ map (\<lambda>fs. ''   '' @ bullet @ '' ''
                          @ py_str (dict_get fs ''fileSystemPath'' (JStr ''N/A''))
                          @ '' (Max Files: ''
                          @ py_str (dict_get fs ''maxFiles'' (JStr ''N/A'')) @ '')'')
                          file_systems
                  else [[], clipboard @ '' No file systems remaining (all removed)''])
               @ [[], rule50,
                  check_mark_button @ '' Disk file system removal operation completed''])"
  using remove_written [OF w r]
  unfolding remove_result_ok [OF s remove_written_dicts [OF w]] sum.case .

lemma success_hides_validation:
  assumes s: "py_get response ''status'' JNull = Inr (JStr ''CONFIG_DISK_FILE_SYSTEM_SUCCESSFUL'')"
  shows "(snd (config_disk_file_system srv log file_system_path max_files) =
            log @ [list_request,
             config_request file_systems]
          \<and> srv (log @ [list_request])
             (config_request file_systems) = Inr response
          \<longrightarrow> (\<exists>path_exists. fst (config_disk_file_system srv log file_system_path max_files) =
            py_join newline
              [card_index_dividers @ '' DSA Disk File System Configuration'',
               rule50,
               file_folder @ '' File System Path: '' @ file_system_path,
               page_facing_up @ '' Max Files: '' @ dec_int max_files,
               bar_chart @ '' Total File Systems: '' @ dec_nat (length file_systems),
               arrows_button @ '' Operation: '' @ (if path_exists then ''Update'' else ''Add''),
               [],
               check_mark_button @ '' Disk file system configured successfully'',
               bar_chart @ '' Status: CONFIG_DISK_FILE_SYSTEM_SUCCESSFUL'',
               heavy_check_mark @ '' Valid: ''
                 @ py_str (dict_get response ''valid'' (JBool False)),
               [], rule50,
               check_mark_button @ '' Disk file system configuration operation completed'']))
       \<and> (snd (remove_disk_file_system srv log file_system_path) =
            log @ [list_request,
             config_request file_systems]
          \<and> srv (log @ [list_request])
             (config_request file_systems) = Inr response
          \<longrightarrow> fst (remove_disk_file_system srv log file_system_path) =
             py_join newline
               ([card_index_dividers @ '' DSA Disk File System Removal'',
                rule50,
                file_folder @ '' Removed File System: '' @ file_system_path,
                bar_chart @ '' Remaining File Systems: '' @ dec_nat (length file_systems),
                [],
                check_mark_button @ '' Disk file system removed successfully'',
                bar_chart @ '' Status: CONFIG_DISK_FILE_SYSTEM_SUCCESSFUL'',
                heavy_check_mark @ '' Valid: ''
                  @ py_str (dict_get response ''valid'' (JBool False))]
               @ (if file_systems \<noteq> []
                  then [[], clipboard @ '' Remaining file systems:'']
                       @ map (\<lambda>fs. ''   '' @ bullet @ '' ''
                          @ py_str (dict_get fs ''fileSystemPath'' (JStr ''N/A''))
                          @ '' (Max Files: ''
                          @ py_str (dict_get fs ''maxFiles'' (JStr ''N/A'')) @ '')'')
                          file_systems
                  else [[], clipboard @ '' No file systems remaining (all removed)''])
               @ [[], rule50,
                  check_mark_button @ '' Disk file system removal operation completed'']))"
proof (rule conjI)
  show "snd (config_disk_file_system srv log file_system_path max_files) =
            log @ [list_request, config_request file_systems]
          \<and> srv (log @ [list_request]) (config_request file_systems) = Inr response
          \<longrightarrow> (\<exists>path_exists. fst (config_disk_file_system srv log file_system_path max_files) =
            py_join newline
              [card_index_dividers @ '' DSA Disk File System Configuration'',
               rule50,
               file_folder @ '' File System Path: '' @ file_system_path,
               page_facing_up @ '' Max Files: '' @ dec_int max_files,
               bar_chart @ '' Total File Systems: '' @ dec_nat (length file_systems),
               arrows_button @ '' Operation: '' @ (if path_exists then ''Update'' else ''Add''),
               [],
               check_mark_button @ '' Disk file system configured successfully'',
               bar_chart @ '' Status: CONFIG_DISK_FILE_SYSTEM_SUCCESSFUL'',
               heavy_check_mark @ '' Valid: ''
                 @ py_str (dict_get response ''valid'' (JBool False)),
               [], rule50,
               check_mark_button @ '' Disk file system configuration operation completed''])"
  proof (rule impI)
    assume a: "snd (config_disk_file_system srv log file_system_path max_files) =
            log @ [list_request, config_request file_systems]
          \<and> srv (log @ [list_request]) (config_request file_systems) = Inr response"
    show "\<exists>path_exists. fst (config_disk_file_system srv log file_system_path max_files) =
            py_join newline
              [card_index_dividers @ '' DSA Disk File System Configuration'',
               rule50,
               file_folder @ '' File System Path: '' @ file_system_path,
               page_facing_up @ '' Max Files: '' @ dec_int max_files,
               bar_chart @ '' Total File Systems: '' @ dec_nat (length file_systems),
               arrows_button @ '' Operation: '' @ (if path_exists then ''Update'' else ''Add''),
               [],
               check_mark_button @ '' Disk file system configured successfully'',
               bar_chart @ '' Status: CONFIG_DISK_FILE_SYSTEM_SUCCESSFUL'',
               heavy_check_mark @ '' Valid: ''
                 @ py_str (dict_get response ''valid'' (JBool False)),
               [], rule50,
               check_mark_button @ '' Disk file system configuration operation completed'']"
      by (rule config_success_text [OF a [THEN conjunct1] a [THEN conjunct2] s])
  qed
  show "snd (remove_disk_file_system srv log file_system_path) =
            log @ [list_request, config_request file_systems]
          \<and> srv (log @ [list_request]) (config_request file_systems) = Inr response
          \<longrightarrow> fst (remove_disk_file_system srv log file_system_path) =
             py_join newline
               ([card_index_dividers @ '' DSA Disk File System Removal'',
                rule50,
                file_folder @ '' Removed File System: '' @ file_system_path,
                bar_chart @ '' Remaining File Systems: '' @ dec_nat (length file_systems),
                [],
                check_mark_button @ '' Disk file system removed successfully'',
                bar_chart @ '' Status: CONFIG_DISK_FILE_SYSTEM_SUCCESSFUL'',
                heavy_check_mark @ '' Valid: ''
                  @ py_str (dict_get response ''valid'' (JBool False))]
               @ (if file_systems \<noteq> []
                  then [[], clipboard @ '' Remaining file systems:'']
                       @ map (\<lambda>fs. ''   '' @ bullet @ '' ''
                          @ py_str (dict_get fs ''fileSystemPath'' (JStr ''N/A''))
                          @ '' (Max Files: ''
                          @ py_str (dict_get fs ''maxFiles'' (JStr ''N/A'')) @ '')'')
                          file_systems
                  else [[], clipboard @ '' No file systems remaining (all removed)''])
               @ [[], rule50,
                  check_mark_button @ '' Disk file system removal operation completed''])"
  proof (rule impI)
    assume a: "snd (remove_disk_file_system srv log file_system_path) =
            log @ [list_request, config_request file_systems]
          \<and> srv (log @ [list_request]) (config_request file_systems) = Inr response"
    show "fst (remove_disk_file_system srv log file_system_path) =
             py_join newline
               ([card_index_dividers @ '' DSA Disk File System Removal'',
                rule50,
                file_folder @ '' Removed File System: '' @ file_system_path,
                bar_chart @ '' Remaining File Systems: '' @ dec_nat (length file_systems),
                [],
                check_mark_button @ '' Disk file system removed successfully'',
                bar_chart @ '' Status: CONFIG_DISK_FILE_SYSTEM_SUCCESSFUL'',
                heavy_check_mark @ '' Valid: ''
                  @ py_str (dict_get response ''valid'' (JBool False))]
               @ (if file_systems \<noteq> []
                  then [[], clipboard @ '' Remaining file systems:'']
                       @ map (\<lambda>fs. ''   '' @ bullet @ '' ''
                          @ py_str (dict_get fs ''fileSystemPath'' (JStr ''N/A''))
                          @ '' (Max Files: ''
                          @ py_str (dict_get fs ''maxFiles'' (JStr ''N/A'')) @ '')'')
                          file_systems
                  else [[], clipboard @ '' No file systems remaining (all removed)''])
               @ [[], rule50,
                  check_mark_button @ '' Disk file system removal operation completed''])"
      by (rule remove_success_text [OF a [THEN conjunct1] a [THEN conjunct2] s])
  qed
qed

text \<open>
  C7, as the code has it. The status of the answer to the write decides. When it is other
  than \<open>CONFIG_DISK_FILE_SYSTEM_SUCCESSFUL\<close> and the \<open>validationlist\<close> of the answer holds
  lists of error objects, the text that \<open>config_disk_file_system\<close> and
  \<open>remove_disk_file_system\<close> return contains the message of every error of the server
  list and of the client list (\<open>Unknown error\<close> for an error without one). When it is
  \<open>CONFIG_DISK_FILE_SYSTEM_SUCCESSFUL\<close>, the text returned is the success report, which
  prints \<open>valid\<close> and nothing of the validation lists, whatever the answer holds. The
  write is the \<open>POST\<close> of the collection \<open>file_systems\<close>.
\<close>

theorem validation_surfaced:
  "(py_get response ''status'' JNull = Inr status
      \<and> status \<noteq> JStr ''CONFIG_DISK_FILE_SYSTEM_SUCCESSFUL''
      \<and> py_get response ''validationlist'' JNull = Inr validation
      \<and> truthy validation
      \<and> py_get validation ''serverValidationList'' (JList []) = Inr (JList server_errors)
      \<and> py_get validation ''clientValidationList'' (JList []) = Inr (JList client_errors)
      \<and> list_all is_dict server_errors
      \<and> list_all is_dict client_errors
      \<and> e \<in> set server_errors \<union> set client_errors \<longrightarrow>
     (snd (config_disk_file_system srv log file_system_path max_files) =
            log @ [list_request,
             \<lparr>method = ''POST'',
               endpoint = ''dsa/components/backup-applications/disk-file-system'',
               data = Some (JObj [(''fileSystems'', JList file_systems)]),
               params = None, headers = None\<rparr>]
          \<and> srv (log @ [list_request])
             (\<lparr>method = ''POST'',
               endpoint = ''dsa/components/backup-applications/disk-file-system'',
               data = Some (JObj [(''fileSystems'', JList file_systems)]),
               params = None, headers = None\<rparr>) = Inr response
          \<longrightarrow> sublist (py_str (dict_get e ''message'' (JStr ''Unknown error'')))
                (fst (config_disk_file_system srv log file_system_path max_files)))
       \<and> (snd (remove_disk_file_system srv log file_system_path) =
            log @ [list_request,
             \<lparr>method = ''POST'',
               endpoint = ''dsa/components/backup-applications/disk-file-system'',
               data = Some (JObj [(''fileSystems'', JList file_systems)]),
               params = None, headers = None\<rparr>]
          \<and> srv (log @ [list_request])
             (\<lparr>method = ''POST'',
               endpoint = ''dsa/components/backup-applications/disk-file-system'',
               data = Some (JObj [(''fileSystems'', JList file_systems)]),
               params = None, headers = None\<rparr>) = Inr response
          \<longrightarrow> sublist (py_str (dict_get e ''message'' (JStr ''Unknown error'')))
                (fst (remove_disk_file_system srv log file_system_path))))
   \<and> (py_get response ''status'' JNull = Inr (JStr ''CONFIG_DISK_FILE_SYSTEM_SUCCESSFUL'')
      \<longrightarrow>
     (snd (config_disk_file_system srv log file_system_path max_files) =
            log @ [list_request,
             \<lparr>method = ''POST'',
               endpoint = ''dsa/components/backup-applications/disk-file-system'',
               data = Some (JObj [(''fileSystems'', JList file_systems)]),
               params = None, headers = None\<rparr>]
          \<and> srv (log @ [list_request])
             (\<lparr>method = ''POST'',
               endpoint = ''dsa/components/backup-applications/disk-file-system'',
               data = Some (JObj [(''fileSystems'', JList file_systems)]),
               params = None, headers = None\<rparr>) = Inr response
          \<longrightarrow> (\<exists>path_exists. fst (config_disk_file_system srv log file_system_path max_files) =
            py_join newline
              [card_index_dividers @ '' DSA Disk File System Configuration'',
               rule50,
               file_folder @ '' File System Path: '' @ file_system_path,
               page_facing_up @ '' Max Files: '' @ dec_int max_files,
               bar_chart @ '' Total File Systems: '' @ dec_nat (length file_systems),
               arrows_button @ '' Operation: '' @ (if path_exists then ''Update'' else ''Add''),
               [],
               check_mark_button @ '' Disk file system configured successfully'',
               bar_chart @ '' Status: CONFIG_DISK_FILE_SYSTEM_SUCCESSFUL'',
               heavy_check_mark @ '' Valid: ''
                 @ py_str (dict_get response ''valid'' (JBool False)),
               [], rule50,
               check_mark_button @ '' Disk file system configuration operation completed'']))
       \<and> (snd (remove_disk_file_system srv log file_system_path) =
            log @ [list_request,
             \<lparr>method = ''POST'',
               endpoint = ''dsa/components/backup-applications/disk-file-system'',
               data = Some (JObj [(''fileSystems'', JList file_systems)]),
               params = None, headers = None\<rparr>]
          \<and> srv (log @ [list_request])
             (\<lparr>method = ''POST'',
               endpoint = ''dsa/components/backup-applications/disk-file-system'',
               data = Some (JObj [(''fileSystems'', JList file_systems)]),
               params = None, headers = None\<rparr>) = Inr response
          \<longrightarrow> fst (remove_disk_file_system srv log file_system_path) =
             py_join newline
               ([card_index_dividers @ '' DSA Disk File System Removal'',
                rule50,
                file_folder @ '' Removed File System: '' @ file_system_path,
                bar_chart @ '' Remaining File Systems: '' @ dec_nat (length file_systems),
                [],
                check_mark_button @ '' Disk file system removed successfully'',
                bar_chart @ '' Status: CONFIG_DISK_FILE_SYSTEM_SUCCESSFUL'',
                heavy_check_mark @ '' Valid: ''
                  @ py_str (dict_get response ''valid'' (JBool False))]
               @ (if file_systems \<noteq> []
                  then [[], clipboard @ '' Remaining file systems:'']
                       @ map (\<lambda>fs. ''   '' @ bullet @ '' ''
                          @ py_str (dict_get fs ''fileSystemPath'' (JStr ''N/A''))
                          @ '' (Max Files: ''
                          @ py_str (dict_get fs ''maxFiles'' (JStr ''N/A'')) @ '')'')
                          file_systems
                  else [[], clipboard @ '' No file systems remaining (all removed)''])
               @ [[], rule50,
                  check_mark_button @ '' Disk file system removal operation completed''])))"
  (is "(?H1 \<longrightarrow> ?first) \<and> (?H2 \<longrightarrow> ?second)")
proof -
  have cr: "\<lparr>method = ''POST'',
               endpoint = ''dsa/components/backup-applications/disk-file-system'',
               data = Some (JObj [(''fileSystems'', JList file_systems)]),
               params = None, headers = None\<rparr> = config_request file_systems"
    by (simp add: config_request_def disk_file_system_endpoint_def)
  have 1: "?H1 \<longrightarrow> ?first"
  proof (rule impI)
    assume h: ?H1
    from h have a: "py_get response ''status'' JNull = Inr status"
      "status \<noteq> JStr ''CONFIG_DISK_FILE_SYSTEM_SUCCESSFUL''"
      "py_get response ''validationlist'' JNull = Inr validation"
      "truthy validation"
      "py_get validation ''serverValidationList'' (JList []) = Inr (JList server_errors)"
      "py_get validation ''clientValidationList'' (JList []) = Inr (JList client_errors)"
      "list_all is_dict server_errors"
      "list_all is_dict client_errors"
      "e \<in> set server_errors \<union> set client_errors"
      by simp_all
    show ?first unfolding cr by (rule validation_messages [OF a])
  qed
  have 2: "?H2 \<longrightarrow> ?second"
    unfolding cr by (rule impI) (rule success_hides_validation)
  from 1 2 show ?thesis by (rule conjI)
qed

theorem validation_surfaced_witness:
  "sublist ''path is not mounted''
     (fst (config_disk_file_system (service [] rejected) [] ''/backup'' 100))
   \<and> sublist ''maxFiles out of range''
     (fst (remove_disk_file_system (service [file_system ''/backup'' 100] rejected) []
             ''/backup''))
   \<and> (\<exists>path_exists.
        fst (config_disk_file_system (service [] accepted_invalid) [] ''/backup'' 100) =
        py_join newline
        [card_index_dividers @ '' DSA Disk File System Configuration'',
         rule50,
         file_folder @ '' File System Path: '' @ ''/backup'',
         page_facing_up @ '' Max Files: '' @ dec_int 100,
         bar_chart @ '' Total File Systems: '' @ dec_nat (length [file_system ''/backup'' 100]),
         arrows_button @ '' Operation: '' @ (if path_exists then ''Update'' else ''Add''),
         [],
         check_mark_button @ '' Disk file system configured successfully'',
         bar_chart @ '' Status: CONFIG_DISK_FILE_SYSTEM_SUCCESSFUL'',
         heavy_check_mark @ '' Valid: ''
           @ py_str (dict_get accepted_invalid ''valid'' (JBool False)),
         [], rule50,
         check_mark_button @ '' Disk file system configuration operation completed''])
   \<and> fst (remove_disk_file_system (service [file_system ''/backup'' 100] accepted_invalid) []
             ''/backup'') =
        py_join newline
        [card_index_dividers @ '' DSA Disk File System Removal'',
         rule50,
         file_folder @ '' Removed File System: /backup'',
         bar_chart @ '' Remaining File Systems: 0'',
         [],
         check_mark_button @ '' Disk file system removed successfully'',
         bar_chart @ '' Status: CONFIG_DISK_FILE_SYSTEM_SUCCESSFUL'',
         heavy_check_mark @ '' Valid: False'',
         [],
         clipboard @ '' No file systems remaining (all removed)'',
         [], rule50,
         check_mark_button @ '' Disk file system removal operation completed'']"
proof -
  let ?validation = "JObj [(''serverValidationList'', JList [quota_error, mount_error]),
                           (''clientValidationList'', JList [client_error])]"
  have hm: "py_get rejected ''status'' JNull = Inr (JStr ''CONFIG_DISK_FILE_SYSTEM_FAILED'')
      \<and> JStr ''CONFIG_DISK_FILE_SYSTEM_FAILED'' \<noteq> JStr ''CONFIG_DISK_FILE_SYSTEM_SUCCESSFUL''
      \<and> py_get rejected ''validationlist'' JNull = Inr ?validation
      \<and> truthy ?validation
      \<and> py_get ?validation ''serverValidationList'' (JList []) =
          Inr (JList [quota_error, mount_error])
      \<and> py_get ?validation ''clientValidationList'' (JList []) = Inr (JList [client_error])
      \<and> list_all is_dict [quota_error, mount_error]
      \<and> list_all is_dict [client_error]
      \<and> mount_error \<in> set [quota_error, mount_error] \<union> set [client_error]"
    by code_simp
  have hc: "py_get rejected ''status'' JNull = Inr (JStr ''CONFIG_DISK_FILE_SYSTEM_FAILED'')
      \<and> JStr ''CONFIG_DISK_FILE_SYSTEM_FAILED'' \<noteq> JStr ''CONFIG_DISK_FILE_SYSTEM_SUCCESSFUL''
      \<and> py_get rejected ''validationlist'' JNull = Inr ?validation
      \<and> truthy ?validation
      \<and> py_get ?validation ''serverValidationList'' (JList []) =
          Inr (JList [quota_error, mount_error])
      \<and> py_get ?validation ''clientValidationList'' (JList []) = Inr (JList [client_error])
      \<and> list_all is_dict [quota_error, mount_error]
      \<and> list_all is_dict [client_error]
      \<and> client_error \<in> set [quota_error, mount_error] \<union> set [client_error]"
    by code_simp
  have ok: "py_get accepted_invalid ''status'' JNull
      = Inr (JStr ''CONFIG_DISK_FILE_SYSTEM_SUCCESSFUL'')"
    by code_simp
  have wc: "snd (config_disk_file_system (service [] rejected) [] ''/backup'' 100) =
        [] @ [list_request,
              \<lparr>method = ''POST'',
                endpoint = ''dsa/components/backup-applications/disk-file-system'',
                data = Some (JObj [(''fileSystems'', JList [file_system ''/backup'' 100])]),
                params = None, headers = None\<rparr>]
      \<and> (service [] rejected) ([] @ [list_request])
          (\<lparr>method = ''POST'',
             endpoint = ''dsa/components/backup-applications/disk-file-system'',
             data = Some (JObj [(''fileSystems'', JList [file_system ''/backup'' 100])]),
             params = None, headers = None\<rparr>) = Inr rejected"
    by code_simp
  have wr: "snd (remove_disk_file_system (service [file_system ''/backup'' 100] rejected) [] ''/backup'') =
        [] @ [list_request,
              \<lparr>method = ''POST'',
                endpoint = ''dsa/components/backup-applications/disk-file-system'',
                data = Some (JObj [(''fileSystems'', JList ([] :: json list))]),
                params = None, headers = None\<rparr>]
      \<and> (service [file_system ''/backup'' 100] rejected) ([] @ [list_request])
          (\<lparr>method = ''POST'',
             endpoint = ''dsa/components/backup-applications/disk-file-system'',
             data = Some (JObj [(''fileSystems'', JList ([] :: json list))]),
             params = None, headers = None\<rparr>) = Inr rejected"
    by code_simp
  have vc: "snd (config_disk_file_system (service [] accepted_invalid) [] ''/backup'' 100) =
        [] @ [list_request,
              \<lparr>method = ''POST'',
                endpoint = ''dsa/components/backup-applications/disk-file-system'',
                data = Some (JObj [(''fileSystems'', JList [file_system ''/backup'' 100])]),
                params = None, headers = None\<rparr>]
      \<and> (service [] accepted_invalid) ([] @ [list_request])
          (\<lparr>method = ''POST'',
             endpoint = ''dsa/components/backup-applications/disk-file-system'',
             data = Some (JObj [(''fileSystems'', JList [file_system ''/backup'' 100])]),
             params = None, headers = None\<rparr>) = Inr accepted_invalid"
    by code_simp
  have vr: "snd (remove_disk_file_system (service [file_system ''/backup'' 100] accepted_invalid) [] ''/backup'') =
        [] @ [list_request,
              \<lparr>method = ''POST'',
                endpoint = ''dsa/components/backup-applications/disk-file-system'',
                data = Some (JObj [(''fileSystems'', JList ([] :: json list))]),
                params = None, headers = None\<rparr>]
      \<and> (service [file_system ''/backup'' 100] accepted_invalid) ([] @ [list_request])
          (\<lparr>method = ''POST'',
             endpoint = ''dsa/components/backup-applications/disk-file-system'',
             data = Some (JObj [(''fileSystems'', JList ([] :: json list))]),
             params = None, headers = None\<rparr>) = Inr accepted_invalid"
    by code_simp
  have dm: "py_str (dict_get mount_error ''message'' (JStr ''Unknown error''))
      = ''path is not mounted''"
    by code_simp
  have dc: "py_str (dict_get client_error ''message'' (JStr ''Unknown error''))
      = ''maxFiles out of range''"
    by code_simp
  have dv: "py_str (dict_get accepted_invalid ''valid'' (JBool False)) = ''False''"
    "dec_nat 0 = ''0''"
    by code_simp+
  from validation_surfaced [where srv = "service [] rejected" and log = "[]"
      and file_system_path = "''/backup''" and max_files = 100
      and file_systems = "[file_system ''/backup'' 100]",
      THEN conjunct1, THEN mp, OF hm, THEN conjunct1, THEN mp, OF wc]
  have a: "sublist ''path is not mounted''
     (fst (config_disk_file_system (service [] rejected) [] ''/backup'' 100))"
    unfolding dm .
  from validation_surfaced [where srv = "service [file_system ''/backup'' 100] rejected"
      and log = "[]" and file_system_path = "''/backup''" and file_systems = "[]",
      THEN conjunct1, THEN mp, OF hc, THEN conjunct2, THEN mp, OF wr]
  have b: "sublist ''maxFiles out of range''
     (fst (remove_disk_file_system (service [file_system ''/backup'' 100] rejected) []
             ''/backup''))"
    unfolding dc .
  note c = validation_surfaced [where srv = "service [] accepted_invalid" and log = "[]"
      and file_system_path = "''/backup''" and max_files = 100
      and file_systems = "[file_system ''/backup'' 100]" and response = accepted_invalid,
      THEN conjunct2, THEN mp, OF ok, THEN conjunct1, THEN mp, OF vc]
  from validation_surfaced
      [where srv = "service [file_system ''/backup'' 100] accepted_invalid"
      and log = "[]" and file_system_path = "''/backup''" and file_systems = "[]"
      and response = accepted_invalid,
      THEN conjunct2, THEN mp, OF ok, THEN conjunct2, THEN mp, OF vr]
  have d: "fst (remove_disk_file_system (service [file_system ''/backup'' 100] accepted_invalid)
             [] ''/backup'') =
        py_join newline
        [card_index_dividers @ '' DSA Disk File System Removal'',
         rule50,
         file_folder @ '' Removed File System: /backup'',
         bar_chart @ '' Remaining File Systems: 0'',
         [],
         check_mark_button @ '' Disk file system removed successfully'',
         bar_chart @ '' Status: CONFIG_DISK_FILE_SYSTEM_SUCCESSFUL'',
         heavy_check_mark @ '' Valid: False'',
         [],
         clipboard @ '' No file systems remaining (all removed)'',
         [], rule50,
         check_mark_button @ '' Disk file system removal operation completed'']"
    by (simp add: dv del: py_join.simps replicate_eq_replicate)
  show ?thesis
    by (rule conjI [OF a conjI [OF b conjI [OF c d]]])
qed

text \<open>
  C7 as it is stated fails when the answer has the success status together with
  \<open>valid: false\<close> and a server error: the message is not in the text returned.
\<close>

theorem accepted_response_hides_errors:
  "py_get accepted_invalid ''valid'' JNull = Inr (JBool False)
   \<and> py_get accepted_invalid ''validationlist'' JNull =
       Inr (JObj [(''serverValidationList'', JList [quota_error])])
   \<and> py_get quota_error ''message'' JNull = Inr (JStr ''quota exceeded'')
   \<and> snd (config_disk_file_system (service [] accepted_invalid) [] ''/backup'' 100) =
       [list_request, config_request [file_system ''/backup'' 100]]
   \<and> \<not> sublist ''quota exceeded''
        (fst (config_disk_file_system (service [] accepted_invalid) [] ''/backup'' 100))"
  by code_simp

subsection \<open>The entry points for S3 and for the media servers\<close>

lemma manage_media_delete:
  "manage_dsa_media_servers loads dumps srv log ''delete'' server_name port ip_addresses
       pool_shared_pipes virtual =
     (if \<not> given server_name
      then (cross_mark @ '' server_name is required for '' @ apostrophe @ ''delete''
              @ apostrophe @ '' operation'', log)
      else delete_media_server dumps srv log (the server_name)
             (case virtual of None \<Rightarrow> False | Some v \<Rightarrow> v))"
  by (simp add: manage_dsa_media_servers_def valid_operations_def)

lemma media_call_log [simp]: "snd (media_call dumps srv log req what doing) = log @ [req]"
  by (simp add: media_call_def make_request_def split: sum.splits)




lemma manage_s3_log:
  "snd (manage_AWS_S3_backup_configurations srv log ''config'' accessId accessKey
          bucketsByRegion (Some ''tdedsabucket01'') acctName) =
     (if given accessId \<and> given accessKey \<and> truthy bucketsByRegion \<and> given acctName
      then log @ [aws_config_request (the accessId) (the accessKey) bucketsByRegion
                    ''tdedsabucket01'' (the acctName)]
      else log)"
  by (simp add: manage_AWS_S3_backup_configurations_def make_request_def split: sum.splits)

text \<open>
  C9. For the operation \<open>config\<close>, the requests and the result text of the S3 handler do
  not depend on the \<open>bucketName\<close> argument, which appears in the metadata only; when the
  other arguments are given, the one request is the \<open>POST\<close> whose \<open>configAwsRest\<close>
  carries the bucket name \<open>tdedsabucket01\<close>.
\<close>

theorem bucket_name_is_fixed:
  "snd (handle_bar_manageAWSS3Operations create_response srv log ''config'' accessId accessKey
          bucketsByRegion bucketName acctName) =
     snd (handle_bar_manageAWSS3Operations create_response srv log ''config'' accessId
            accessKey bucketsByRegion bucketName' acctName)
   \<and> fst (handle_bar_manageAWSS3Operations (\<lambda>result metadata. result) srv log ''config''
            accessId accessKey bucketsByRegion bucketName acctName) =
     fst (handle_bar_manageAWSS3Operations (\<lambda>result metadata. result) srv log ''config''
            accessId accessKey bucketsByRegion bucketName' acctName)
   \<and> fst (handle_bar_manageAWSS3Operations (\<lambda>result metadata. metadata) srv log ''config''
            accessId accessKey bucketsByRegion bucketName acctName) =
     JObj [(''tool_name'', JStr ''bar_manageAWSS3Operations''),
           (''operation'', JStr ''config''),
           (''accessId'', opt_str accessId),
           (''accessKey'', opt_str accessKey),
           (''bucketsByRegion'', bucketsByRegion),
           (''bucketName'', opt_str bucketName),
           (''acctName'', opt_str acctName),
           (''success'', JBool True)]
   \<and> (given accessId \<and> given accessKey \<and> truthy bucketsByRegion \<and> given acctName \<longrightarrow>
        snd (handle_bar_manageAWSS3Operations create_response srv log ''config'' accessId
               accessKey bucketsByRegion bucketName acctName) =
          log @ [\<lparr>method = ''POST'',
                   endpoint = ''dsa/components/backup-applications/aws-s3'',
                   data = Some (JObj [(''configAwsRest'',
                     JObj [(''accessId'', JStr (the accessId)),
                           (''accessKey'', JStr (the accessKey)),
                           (''bucketsByRegion'', bucketsByRegion),
                           (''bucketName'', JStr ''tdedsabucket01''),
                           (''acctName'', JStr (the acctName)),
                           (''viewpoint'', JBool True),
                           (''viewpointBucketRegion'', JBool True)])]),
                   params = None, headers = None\<rparr>])"
proof -
  have s: "snd (handle_bar_manageAWSS3Operations cr srv log ''config'' accessId accessKey
          bucketsByRegion n acctName) =
     snd (manage_AWS_S3_backup_configurations srv log ''config'' accessId accessKey
          bucketsByRegion (Some ''tdedsabucket01'') acctName)" for cr :: "string \<Rightarrow> json \<Rightarrow> 'c" and n
    by (simp add: handle_bar_manageAWSS3Operations_def split: prod.splits)
  have f: "fst (handle_bar_manageAWSS3Operations (\<lambda>result metadata. result) srv log ''config''
          accessId accessKey bucketsByRegion n acctName) =
     fst (manage_AWS_S3_backup_configurations srv log ''config'' accessId accessKey
          bucketsByRegion (Some ''tdedsabucket01'') acctName)" for n
    by (simp add: handle_bar_manageAWSS3Operations_def split: prod.splits)
  have m: "fst (handle_bar_manageAWSS3Operations (\<lambda>result metadata. metadata) srv log ''config''
            accessId accessKey bucketsByRegion bucketName acctName) =
     JObj [(''tool_name'', JStr ''bar_manageAWSS3Operations''),
           (''operation'', JStr ''config''),
           (''accessId'', opt_str accessId),
           (''accessKey'', opt_str accessKey),
           (''bucketsByRegion'', bucketsByRegion),
           (''bucketName'', opt_str bucketName),
           (''acctName'', opt_str acctName),
           (''success'', JBool True)]"
    by (simp add: handle_bar_manageAWSS3Operations_def split: prod.splits)
  show ?thesis
    unfolding s f m manage_s3_log by (simp add: aws_config_request_def aws_s3_endpoint_def)
qed

theorem bucket_name_is_fixed_witness:
  "snd (handle_bar_manageAWSS3Operations (\<lambda>result metadata. result)
          (service [] aws_rejected) [] ''config'' (Some ''AKIAEXAMPLE'') (Some ''secret'')
          regions_example (Some ''backups'') (Some ''dsa'')) =
     [\<lparr>method = ''POST'',
        endpoint = ''dsa/components/backup-applications/aws-s3'',
        data = Some (JObj [(''configAwsRest'',
          JObj [(''accessId'', JStr ''AKIAEXAMPLE''),
                (''accessKey'', JStr ''secret''),
                (''bucketsByRegion'', regions_example),
                (''bucketName'', JStr ''tdedsabucket01''),
                (''acctName'', JStr ''dsa''),
                (''viewpoint'', JBool True),
                (''viewpointBucketRegion'', JBool True)])]),
        params = None, headers = None\<rparr>]
   \<and> snd (handle_bar_manageAWSS3Operations (\<lambda>result metadata. result)
          (service [] aws_rejected) [] ''config'' (Some ''AKIAEXAMPLE'') (Some ''secret'')
          regions_example None (Some ''dsa'')) =
     [\<lparr>method = ''POST'',
        endpoint = ''dsa/components/backup-applications/aws-s3'',
        data = Some (JObj [(''configAwsRest'',
          JObj [(''accessId'', JStr ''AKIAEXAMPLE''),
                (''accessKey'', JStr ''secret''),
                (''bucketsByRegion'', regions_example),
                (''bucketName'', JStr ''tdedsabucket01''),
                (''acctName'', JStr ''dsa''),
                (''viewpoint'', JBool True),
                (''viewpointBucketRegion'', JBool True)])]),
        params = None, headers = None\<rparr>]"
proof -
  have g: "given (Some ''AKIAEXAMPLE'') \<and> given (Some ''secret'') \<and> truthy regions_example
      \<and> given (Some ''dsa'')"
    by code_simp
  from bucket_name_is_fixed [where create_response = "\<lambda>result metadata. result"
      and srv = "service [] aws_rejected" and log = "[]" and accessId = "Some ''AKIAEXAMPLE''"
      and accessKey = "Some ''secret''" and bucketsByRegion = regions_example
      and bucketName = "Some ''backups''" and acctName = "Some ''dsa''",
      THEN conjunct2, THEN conjunct2, THEN conjunct2, THEN mp, OF g]
    bucket_name_is_fixed [where create_response = "\<lambda>result metadata. result"
      and srv = "service [] aws_rejected" and log = "[]" and accessId = "Some ''AKIAEXAMPLE''"
      and accessKey = "Some ''secret''" and bucketsByRegion = regions_example
      and bucketName = None and acctName = "Some ''dsa''",
      THEN conjunct2, THEN conjunct2, THEN conjunct2, THEN mp, OF g]
  show ?thesis by simp
qed

lemma manage_media_add:
  "manage_dsa_media_servers loads dumps srv log ''add'' server_name port ip_addresses
       pool_shared_pipes virtual =
     (if \<not> given server_name
        then (cross_mark @ '' server_name is required for '' @ apostrophe @ ''add''
                @ apostrophe @ '' operation'', log)
      else if port = None \<or> port = Some 0
        then (cross_mark @ '' port is required for '' @ apostrophe @ ''add''
                @ apostrophe @ '' operation'', log)
      else if \<not> given ip_addresses
        then (cross_mark @ '' ip_addresses is required for '' @ apostrophe @ ''add''
                @ apostrophe @ '' operation'', log)
      else (case loads (the ip_addresses) of
          Inr ip_list \<Rightarrow>
            add_media_server dumps srv log (the server_name) (the port) ip_list
              (if pool_shared_pipes = None \<or> pool_shared_pipes = Some 0 then 50
               else the pool_shared_pipes)
        | Inl (JSONDecodeError msg) \<Rightarrow>
            (cross_mark @ '' Invalid IP addresses format: '' @ msg @ newline
               @ expected_ip_format, log)
        | Inl e \<Rightarrow>
            (cross_mark @ '' Error executing media server operation '' @ apostrophe
               @ ''add'' @ apostrophe @ '': '' @ str_of_error e, log)))"
  by (simp add: manage_dsa_media_servers_def valid_operations_def)

lemma add_ignores_pool:
  "add_media_server dumps srv log server_name port ip_list pool =
   add_media_server dumps srv log server_name port ip_list pool'"
  by (simp add: add_media_server_def)

text \<open>
  C10. For the operation \<open>add\<close>, text and requests are the same for every value of
  \<open>pool_shared_pipes\<close>; when the arguments pass the checks, the one request is a
  \<open>POST\<close> whose payload has the fields \<open>serverName\<close>, \<open>port\<close> and \<open>ipInfo\<close> and no
  other.
\<close>

theorem pool_shared_pipes_unused:
  "manage_dsa_media_servers loads dumps srv log ''add'' server_name port ip_addresses
     pool_shared_pipes virtual =
   manage_dsa_media_servers loads dumps srv log ''add'' server_name port ip_addresses
     pool_shared_pipes' virtual
   \<and> (given server_name \<and> py_strip (the server_name) \<noteq> [] \<and> port = Some p \<and> 1 \<le> p
        \<and> p \<le> 65535 \<and> given ip_addresses
        \<and> loads (the ip_addresses) = Inr (JList (ip # ips))
        \<and> list_all has_ip_keys (ip # ips) \<longrightarrow>
        snd (manage_dsa_media_servers loads dumps srv log ''add'' server_name port
               ip_addresses pool_shared_pipes virtual) =
          log @ [add_request (the server_name) p (JList (ip # ips))]
        \<and> data (add_request (the server_name) p (JList (ip # ips))) =
            Some (JObj [(''serverName'', JStr (py_strip (the server_name))),
                        (''port'', JInt p),
                        (''ipInfo'', JList (ip # ips))]))"
proof (intro conjI impI)
  show "manage_dsa_media_servers loads dumps srv log ''add'' server_name port ip_addresses
     pool_shared_pipes virtual =
   manage_dsa_media_servers loads dumps srv log ''add'' server_name port ip_addresses
     pool_shared_pipes' virtual"
    unfolding manage_media_add
    using add_ignores_pool [of dumps srv log "the server_name" "the port"]
    by (auto split: sum.splits error.splits)
next
  assume a: "given server_name \<and> py_strip (the server_name) \<noteq> [] \<and> port = Some p \<and> 1 \<le> p
        \<and> p \<le> 65535 \<and> given ip_addresses
        \<and> loads (the ip_addresses) = Inr (JList (ip # ips))
        \<and> list_all has_ip_keys (ip # ips)"
  then have n: "the server_name \<noteq> []" by (cases server_name) auto
  from a n show "snd (manage_dsa_media_servers loads dumps srv log ''add'' server_name port
               ip_addresses pool_shared_pipes virtual) =
          log @ [add_request (the server_name) p (JList (ip # ips))]"
    unfolding manage_media_add by (auto simp: add_media_server_def)
next
  show "data (add_request (the server_name) p (JList (ip # ips))) =
            Some (JObj [(''serverName'', JStr (py_strip (the server_name))),
                        (''port'', JInt p),
                        (''ipInfo'', JList (ip # ips))])"
    by (simp add: add_request_def)
qed

theorem pool_shared_pipes_unused_witness:
  "snd (manage_dsa_media_servers example_loads example_dumps (service [] media_ok) []
          ''add'' (Some '' media1 '') (Some 15401) (Some ip_text) (Some 7) None) =
     [add_request '' media1 '' 15401 ip_list_example]
   \<and> data (add_request '' media1 '' 15401 ip_list_example) =
       Some (JObj [(''serverName'', JStr ''media1''),
                   (''port'', JInt 15401),
                   (''ipInfo'', ip_list_example)])"
proof -
  have l: "ip_list_example =
      JList (JObj [(''ipAddress'', JStr ''10.0.0.5''), (''netmask'', JStr ''255.255.255.0'')]
             # [])"
    by (simp add: ip_list_example_def)
  have s: "py_strip '' media1 '' = ''media1''" by code_simp
  have h: "given (Some '' media1 '') \<and> py_strip (the (Some '' media1 '')) \<noteq> []
      \<and> Some 15401 = Some (15401 :: int) \<and> 1 \<le> (15401 :: int) \<and> (15401 :: int) \<le> 65535
      \<and> given (Some ip_text)
      \<and> example_loads (the (Some ip_text)) =
          Inr (JList (JObj [(''ipAddress'', JStr ''10.0.0.5''),
                            (''netmask'', JStr ''255.255.255.0'')] # []))
      \<and> list_all has_ip_keys
          (JObj [(''ipAddress'', JStr ''10.0.0.5''), (''netmask'', JStr ''255.255.255.0'')]
           # [])"
    by code_simp
  from pool_shared_pipes_unused [where loads = example_loads and dumps = example_dumps
      and srv = "service [] media_ok" and log = "[]" and server_name = "Some '' media1 ''"
      and port = "Some 15401" and p = 15401 and ip_addresses = "Some ip_text"
      and pool_shared_pipes = "Some 7" and virtual = None,
      THEN conjunct2, THEN mp, OF h]
  show ?thesis by (simp add: l s)
qed

subsection \<open>What decides the reported outcome\<close>

lemma config_result_raises:
  assumes "py_get response ''status'' JNull = Inr status"
    and "status \<noteq> JStr ''CONFIG_DISK_FILE_SYSTEM_SUCCESSFUL''"
    and "validation_details response = Inl e"
  shows "config_result_lines p m fss ex response = Inl e"
proof -
  from assms(1) have d: "is_dict response" by (cases response) simp_all
  from assms(1) have s: "dict_get response ''status'' JNull = status"
    by (simp add: py_get_dict_get [OF d])
  show ?thesis
    unfolding config_result_lines_def
    by (simp add: assms(2-) s py_get_dict_get [OF d])
qed

lemma manage_s3_config:
  assumes "given accessId" and "given accessKey" and "truthy bucketsByRegion"
    and "given acctName" and "given bucketName"
  shows "manage_AWS_S3_backup_configurations srv log ''config'' accessId accessKey
           bucketsByRegion bucketName acctName =
     (case srv log (aws_config_request (the accessId) (the accessKey) bucketsByRegion
                      (the bucketName) (the acctName)) of
        Inr response \<Rightarrow>
          check_mark_button @ '' AWS backup solution configuration operation completed''
            @ newline @ ''Response: '' @ py_str response
      | Inl msg \<Rightarrow> cross_mark @ '' Error configuring AWS backup solution: '' @ msg,
      log @ [aws_config_request (the accessId) (the accessKey) bucketsByRegion
               (the bucketName) (the acctName)])"
  using assms
  by (simp add: manage_AWS_S3_backup_configurations_def make_request_def split: sum.splits)

lemma remove_result_raises:
  assumes "py_get response ''status'' JNull = Inr status"
    and "status \<noteq> JStr ''CONFIG_DISK_FILE_SYSTEM_SUCCESSFUL''"
    and "validation_details response = Inl e"
  shows "remove_result_lines p keep response = Inl e"
proof -
  from assms(1) have d: "is_dict response" by (cases response) simp_all
  from assms(1) have s: "dict_get response ''status'' JNull = status"
    by (simp add: py_get_dict_get [OF d])
  show ?thesis
    unfolding remove_result_lines_def
    by (simp add: assms(2-) s py_get_dict_get [OF d])
qed

lemma response_text_invalid:
  assumes "py_get response ''valid'' (JBool False) = Inr valid" and "\<not> truthy valid"
  shows "(\<exists>e. response_text dumps what response = Inl e)
    \<or> (\<exists>rest. response_text dumps what response =
          Inr (cross_mark @ '' Failed to '' @ what @ '':'' @ rest))"
proof -
  from assms(1) have d: "is_dict response" by (cases response) simp_all
  define msgs where "msgs =
     bind (py_get response ''validationlist'' (JObj [])) (\<lambda>validation_list.
       if truthy validation_list then
         bind (py_get validation_list ''clientValidationList'' (JList [])) (\<lambda>client_errors.
         bind (py_get validation_list ''serverValidationList'' (JList [])) (\<lambda>server_errors.
         bind (py_add client_errors server_errors) (\<lambda>all_errors.
         bind (py_iter all_errors) (\<lambda>errs.
         map_err error_message_line errs))))
       else Inr [])"
  have r: "response_text dumps what response =
     bind msgs (\<lambda>error_messages.
       if error_messages \<noteq> [] then
         Inr (cross_mark @ '' Failed to '' @ what @ '':'' @ newline
              @ py_join newline error_messages)
       else
         Inr (cross_mark @ '' Failed to '' @ what @ '': ''
              @ py_str (dict_get response ''status'' (JStr ''Unknown error''))))"
    unfolding response_text_def msgs_def
    using assms by (simp add: py_get_dict_get [OF d] bind_def split: sum.splits)
  show ?thesis
  proof (cases msgs)
    case (Inl e)
    with r show ?thesis by simp
  next
    case (Inr ms)
    show ?thesis
    proof (cases "ms = []")
      case True
      with r Inr have "response_text dumps what response =
          Inr (cross_mark @ '' Failed to '' @ what @ '':'' @ ('' ''
              @ py_str (dict_get response ''status'' (JStr ''Unknown error''))))"
        by simp
      then show ?thesis by (intro disjI2) (rule exI)
    next
      case False
      with r Inr have "response_text dumps what response =
          Inr (cross_mark @ '' Failed to '' @ what @ '':'' @ (newline @ py_join newline ms))"
        by simp
      then show ?thesis by (intro disjI2) (rule exI)
    qed
  qed
qed

lemma remove_result_ok_shape:
  assumes "py_get response ''status'' JNull = Inr (JStr ''CONFIG_DISK_FILE_SYSTEM_SUCCESSFUL'')"
    and "list_all is_dict keep"
  shows "\<exists>remaining. remove_result_lines p keep response =
     Inr ([card_index_dividers @ '' DSA Disk File System Removal'',
           rule50,
           file_folder @ '' Removed File System: '' @ p,
           bar_chart @ '' Remaining File Systems: '' @ dec_nat (length keep),
           [],
           check_mark_button @ '' Disk file system removed successfully'',
           bar_chart @ '' Status: CONFIG_DISK_FILE_SYSTEM_SUCCESSFUL'',
           heavy_check_mark @ '' Valid: '' @ py_str (dict_get response ''valid'' (JBool False))]
          @ remaining
          @ [[], rule50,
             check_mark_button @ '' Disk file system removal operation completed''])"
  unfolding remove_result_ok [OF assms] by (intro exI) (rule refl)

lemma remove_outcome:
  assumes w: "snd (remove_disk_file_system srv log p) =
            log @ [list_request, config_request keep]"
    and r: "srv (log @ [list_request]) (config_request keep) = Inr response"
    and s: "py_get response ''status'' JNull = Inr status"
  shows "(status = JStr ''CONFIG_DISK_FILE_SYSTEM_SUCCESSFUL'' \<longrightarrow>
             (\<exists>remaining. fst (remove_disk_file_system srv log p) =
               py_join newline
                 ([card_index_dividers @ '' DSA Disk File System Removal'',
                   rule50,
                   file_folder @ '' Removed File System: '' @ p,
                   bar_chart @ '' Remaining File Systems: '' @ dec_nat (length keep),
                   [],
                   check_mark_button @ '' Disk file system removed successfully'',
                   bar_chart @ '' Status: CONFIG_DISK_FILE_SYSTEM_SUCCESSFUL'',
                   heavy_check_mark @ '' Valid: ''
                     @ py_str (dict_get response ''valid'' (JBool False))]
                  @ remaining
                  @ [[], rule50,
                     check_mark_button @ '' Disk file system removal operation completed''])))
          \<and> (status \<noteq> JStr ''CONFIG_DISK_FILE_SYSTEM_SUCCESSFUL'' \<longrightarrow>
             (\<exists>e. fst (remove_disk_file_system srv log p) = remove_error p e)
             \<or> (\<exists>details. fst (remove_disk_file_system srv log p) =
                   py_join newline
                     ([card_index_dividers @ '' DSA Disk File System Removal'',
                       rule50,
                       file_folder @ '' Removed File System: '' @ p,
                       bar_chart @ '' Remaining File Systems: '' @ dec_nat (length keep),
                       [],
                       cross_mark @ '' Failed to remove disk file system'',
                       bar_chart @ '' Status: ''
                         @ py_str (dict_get response ''status'' (JStr ''Unknown'')),
                       heavy_check_mark @ '' Valid: ''
                         @ py_str (dict_get response ''valid'' (JBool False))]
                      @ details
                      @ [[], rule50,
                         check_mark_button
                           @ '' Disk file system removal operation completed''])))"
    (is "(_ \<longrightarrow> ?ok) \<and> (_ \<longrightarrow> ?failed)")
proof (intro conjI impI)
  note f = remove_written [OF w r]
  note k = remove_written_dicts [OF w]
  {
    assume ok: "status = JStr ''CONFIG_DISK_FILE_SYSTEM_SUCCESSFUL''"
    from remove_result_ok_shape [OF s [unfolded ok] k, of p] obtain remaining where
      e: "remove_result_lines p keep response =
     Inr ([card_index_dividers @ '' DSA Disk File System Removal'',
           rule50,
           file_folder @ '' Removed File System: '' @ p,
           bar_chart @ '' Remaining File Systems: '' @ dec_nat (length keep),
           [],
           check_mark_button @ '' Disk file system removed successfully'',
           bar_chart @ '' Status: CONFIG_DISK_FILE_SYSTEM_SUCCESSFUL'',
           heavy_check_mark @ '' Valid: '' @ py_str (dict_get response ''valid'' (JBool False))]
          @ remaining
          @ [[], rule50,
             check_mark_button @ '' Disk file system removal operation completed''])"
      by (rule exE)
    show ?ok
      using f unfolding e sum.case by (rule exI [where x = remaining])
  }
  assume ne: "status \<noteq> JStr ''CONFIG_DISK_FILE_SYSTEM_SUCCESSFUL''"
  show ?failed
  proof (cases "validation_details response")
    case (Inl e)
    from f show ?thesis
      unfolding remove_result_raises [OF s ne Inl] sum.case
      by (intro disjI1) (rule exI [where x = e])
  next
    case (Inr details)
    from f show ?thesis
      unfolding remove_result_failed [OF s ne Inr] sum.case
      by (intro disjI2) (rule exI [where x = details])
  qed
qed

lemma add_media_server_checked:
  assumes "server_name \<noteq> []" and "py_strip server_name \<noteq> []" and "1 \<le> p" and "p \<le> 65535"
    and "list_all has_ip_keys (ip # ips)"
  shows "add_media_server dumps srv log server_name p (JList (ip # ips)) pool =
     media_call dumps srv log (add_request server_name p (JList (ip # ips)))
       (''add media server '' @ apostrophe @ server_name @ apostrophe)
       (''adding media server '' @ apostrophe @ server_name @ apostrophe)"
  using assms by (simp add: add_media_server_def)

lemma media_call_answer:
  assumes "srv log req = Inr response"
  shows "fst (media_call dumps srv log req what doing) =
     (case response_text dumps what response of
        Inl e \<Rightarrow> cross_mark @ '' Error '' @ doing @ '': '' @ str_of_error e
      | Inr text \<Rightarrow> text)"
  using assms by (simp add: media_call_def split: sum.splits)

lemma add_outcome:
  assumes a: "given server_name \<and> py_strip (the server_name) \<noteq> [] \<and> port = Some p \<and> 1 \<le> p
          \<and> p \<le> 65535 \<and> given ip_addresses
          \<and> loads (the ip_addresses) = Inr (JList (ip # ips))
          \<and> list_all has_ip_keys (ip # ips)
          \<and> srv log (add_request (the server_name) p (JList (ip # ips))) = Inr response
          \<and> py_get response ''valid'' (JBool False) = Inr valid \<and> \<not> truthy valid"
  shows "(\<exists>e. fst (manage_dsa_media_servers loads dumps srv log ''add'' server_name port
                      ip_addresses pool_shared_pipes virtual) =
                 cross_mark @ '' Error adding media server '' @ apostrophe @ the server_name
                   @ apostrophe @ '': '' @ str_of_error e)
          \<or> (\<exists>rest. fst (manage_dsa_media_servers loads dumps srv log ''add'' server_name
                         port ip_addresses pool_shared_pipes virtual) =
                 cross_mark @ '' Failed to add media server '' @ apostrophe @ the server_name
                   @ apostrophe @ '':'' @ rest)"
proof -
  let ?name = "the server_name"
  let ?what = "''add media server '' @ apostrophe @ ?name @ apostrophe"
  let ?doing = "''adding media server '' @ apostrophe @ ?name @ apostrophe"
  let ?pool = "if pool_shared_pipes = None \<or> pool_shared_pipes = Some 0 then 50
               else the pool_shared_pipes"
  from a have n: "?name \<noteq> []" by (cases server_name) auto
  from a have c: "py_strip ?name \<noteq> []" "1 \<le> p" "p \<le> 65535" "list_all has_ip_keys (ip # ips)"
    by simp_all
  from a have g: "given server_name" "port = Some p" "given ip_addresses"
    "loads (the ip_addresses) = Inr (JList (ip # ips))"
    by simp_all
  from a have q: "srv log (add_request ?name p (JList (ip # ips))) = Inr response"
    by simp
  from a have v: "py_get response ''valid'' (JBool False) = Inr valid" "\<not> truthy valid"
    by simp_all
  have p0: "p \<noteq> 0" using c(2) by simp
  have "manage_dsa_media_servers loads dumps srv log ''add'' server_name port ip_addresses
       pool_shared_pipes virtual =
     add_media_server dumps srv log ?name p (JList (ip # ips)) ?pool"
    unfolding manage_media_add using g p0 by simp
  then have m: "fst (manage_dsa_media_servers loads dumps srv log ''add'' server_name port
       ip_addresses pool_shared_pipes virtual) =
     (case response_text dumps ?what response of
        Inl e \<Rightarrow> cross_mark @ '' Error '' @ ?doing @ '': '' @ str_of_error e
      | Inr text \<Rightarrow> text)"
    unfolding add_media_server_checked [OF n c]
    by (simp only: media_call_answer [of srv, OF q])
  from response_text_invalid [OF v, of dumps ?what]
  show ?thesis
  proof
    assume "\<exists>e. response_text dumps ?what response = Inl e"
    then obtain e where "response_text dumps ?what response = Inl e" ..
    with m have "fst (manage_dsa_media_servers loads dumps srv log ''add'' server_name port
                      ip_addresses pool_shared_pipes virtual) =
                 cross_mark @ '' Error adding media server '' @ apostrophe @ ?name
                   @ apostrophe @ '': '' @ str_of_error e"
      by simp
    then show ?thesis by (intro disjI1) (rule exI [where x = e])
  next
    assume "\<exists>rest. response_text dumps ?what response =
        Inr (cross_mark @ '' Failed to '' @ ?what @ '':'' @ rest)"
    then obtain rest where "response_text dumps ?what response =
        Inr (cross_mark @ '' Failed to '' @ ?what @ '':'' @ rest)" ..
    with m have "fst (manage_dsa_media_servers loads dumps srv log ''add'' server_name
                         port ip_addresses pool_shared_pipes virtual) =
                 cross_mark @ '' Failed to add media server '' @ apostrophe @ ?name
                   @ apostrophe @ '':'' @ rest"
      by simp
    then show ?thesis by (intro disjI2) (rule exI [where x = rest])
  qed
qed

lemma delete_result_ok:
  assumes "py_get response ''status'' JNull = Inr (JStr ''DELETE_COMPONENT_SUCCESSFUL'')"
  shows "delete_result_lines response =
     Inr [card_index_dividers @ '' DSA Disk File System Deletion'',
          rule50,
          check_mark_button @ '' All disk file systems deleted successfully'',
          bar_chart @ '' Status: DELETE_COMPONENT_SUCCESSFUL'',
          heavy_check_mark @ '' Valid: '' @ py_str (dict_get response ''valid'' (JBool False)),
          [], rule50,
          check_mark_button @ '' Disk file system deletion operation completed'']"
proof -
  from assms(1) have d: "is_dict response" by (cases response) simp_all
  from assms(1) have s: "dict_get response ''status'' JNull
      = JStr ''DELETE_COMPONENT_SUCCESSFUL''"
    by (simp add: py_get_dict_get [OF d])
  show ?thesis
    unfolding delete_result_lines_def
    by (simp add: s py_get_dict_get [OF d])
qed

lemma delete_result_failed:
  assumes "py_get response ''status'' JNull = Inr status"
    and "status \<noteq> JStr ''DELETE_COMPONENT_SUCCESSFUL''"
    and "delete_validation_details response = Inr details"
  shows "delete_result_lines response =
     Inr ([card_index_dividers @ '' DSA Disk File System Deletion'',
           rule50,
           cross_mark @ '' Failed to delete disk file systems'',
           bar_chart @ '' Status: '' @ py_str (dict_get response ''status'' (JStr ''Unknown'')),
           heavy_check_mark @ '' Valid: '' @ py_str (dict_get response ''valid'' (JBool False))]
          @ details
          @ [[], rule50,
             check_mark_button @ '' Disk file system deletion operation completed''])"
proof -
  from assms(1) have d: "is_dict response" by (cases response) simp_all
  from assms(1) have s: "dict_get response ''status'' JNull = status"
    by (simp add: py_get_dict_get [OF d])
  show ?thesis
    unfolding delete_result_lines_def
    by (simp add: assms(2-) s py_get_dict_get [OF d])
qed

lemma delete_result_raises:
  assumes "py_get response ''status'' JNull = Inr status"
    and "status \<noteq> JStr ''DELETE_COMPONENT_SUCCESSFUL''"
    and "delete_validation_details response = Inl e"
  shows "delete_result_lines response = Inl e"
proof -
  from assms(1) have d: "is_dict response" by (cases response) simp_all
  from assms(1) have s: "dict_get response ''status'' JNull = status"
    by (simp add: py_get_dict_get [OF d])
  show ?thesis
    unfolding delete_result_lines_def
    by (simp add: assms(2-) s py_get_dict_get [OF d])
qed

lemma delete_answer:
  assumes "srv log delete_all_request = Inr response"
  shows "delete_disk_file_systems srv log =
     (case delete_result_lines response of
        Inl e \<Rightarrow> cross_mark @ '' Error deleting disk file systems: '' @ str_of_error e
      | Inr results \<Rightarrow> py_join newline results,
      log @ [delete_all_request])"
  using assms by (simp add: delete_disk_file_systems_def split: sum.splits)

lemma delete_outcome:
  assumes r: "srv log delete_all_request = Inr response"
    and s: "py_get response ''status'' JNull = Inr status"
  shows "(status = JStr ''DELETE_COMPONENT_SUCCESSFUL'' \<longrightarrow>
          fst (delete_disk_file_systems srv log) =
            py_join newline
              [card_index_dividers @ '' DSA Disk File System Deletion'',
               rule50,
               check_mark_button @ '' All disk file systems deleted successfully'',
               bar_chart @ '' Status: DELETE_COMPONENT_SUCCESSFUL'',
               heavy_check_mark @ '' Valid: ''
                 @ py_str (dict_get response ''valid'' (JBool False)),
               [], rule50,
               check_mark_button @ '' Disk file system deletion operation completed''])
      \<and> (status \<noteq> JStr ''DELETE_COMPONENT_SUCCESSFUL'' \<longrightarrow>
          (\<exists>e. fst (delete_disk_file_systems srv log) =
                 cross_mark @ '' Error deleting disk file systems: '' @ str_of_error e)
          \<or> (\<exists>details. fst (delete_disk_file_systems srv log) =
                py_join newline
                  ([card_index_dividers @ '' DSA Disk File System Deletion'',
                    rule50,
                    cross_mark @ '' Failed to delete disk file systems'',
                    bar_chart @ '' Status: ''
                      @ py_str (dict_get response ''status'' (JStr ''Unknown'')),
                    heavy_check_mark @ '' Valid: ''
                      @ py_str (dict_get response ''valid'' (JBool False))]
                   @ details
                   @ [[], rule50,
                      check_mark_button
                        @ '' Disk file system deletion operation completed''])))"
    (is "(_ \<longrightarrow> ?ok) \<and> (_ \<longrightarrow> ?failed)")
proof (intro conjI impI)
  note f = delete_answer [of srv, OF r]
  {
    assume ok: "status = JStr ''DELETE_COMPONENT_SUCCESSFUL''"
    show ?ok
      unfolding f delete_result_ok [OF s [unfolded ok]] sum.case fst_conv by (rule refl)
  }
  assume ne: "status \<noteq> JStr ''DELETE_COMPONENT_SUCCESSFUL''"
  show ?failed
  proof (cases "delete_validation_details response")
    case (Inl e)
    show ?thesis
      unfolding f delete_result_raises [OF s ne Inl] sum.case fst_conv
      by (intro disjI1) (rule exI [where x = e], rule refl)
  next
    case (Inr details)
    show ?thesis
      unfolding f delete_result_failed [OF s ne Inr] sum.case fst_conv
      by (intro disjI2) (rule exI [where x = details], rule refl)
  qed
qed

lemma media_delete_outcome:
  assumes a: "given server_name
          \<and> srv log (delete_request (the server_name) (virtual = Some True)) = Inr response
          \<and> py_get response ''valid'' (JBool False) = Inr valid \<and> \<not> truthy valid"
  shows "(\<exists>e. fst (manage_dsa_media_servers loads dumps srv log ''delete'' server_name port
                      ip_addresses pool_shared_pipes virtual) =
                 cross_mark @ '' Error deleting media server '' @ apostrophe @ the server_name
                   @ apostrophe @ '': '' @ str_of_error e)
          \<or> (\<exists>rest. fst (manage_dsa_media_servers loads dumps srv log ''delete'' server_name
                         port ip_addresses pool_shared_pipes virtual) =
                 cross_mark @ '' Failed to delete media server '' @ apostrophe
                   @ the server_name @ apostrophe @ '':'' @ rest)"
proof -
  let ?name = "the server_name"
  let ?what = "''delete media server '' @ apostrophe @ ?name @ apostrophe"
  let ?doing = "''deleting media server '' @ apostrophe @ ?name @ apostrophe"
  have c: "(case virtual of None \<Rightarrow> False | Some v \<Rightarrow> v) = (virtual = Some True)"
    by (cases virtual) auto
  from a have g: "given server_name" by simp
  from a have q: "srv log (delete_request ?name (virtual = Some True)) = Inr response"
    by simp
  from a have v: "py_get response ''valid'' (JBool False) = Inr valid" "\<not> truthy valid"
    by simp_all
  have "manage_dsa_media_servers loads dumps srv log ''delete'' server_name port ip_addresses
       pool_shared_pipes virtual =
     media_call dumps srv log (delete_request ?name (virtual = Some True)) ?what ?doing"
    unfolding manage_media_delete c delete_media_server_def using g by simp
  then have m: "fst (manage_dsa_media_servers loads dumps srv log ''delete'' server_name port
       ip_addresses pool_shared_pipes virtual) =
     (case response_text dumps ?what response of
        Inl e \<Rightarrow> cross_mark @ '' Error '' @ ?doing @ '': '' @ str_of_error e
      | Inr text \<Rightarrow> text)"
    by (simp only: media_call_answer [of srv, OF q])
  from response_text_invalid [OF v, of dumps ?what]
  show ?thesis
  proof
    assume "\<exists>e. response_text dumps ?what response = Inl e"
    then obtain e where "response_text dumps ?what response = Inl e" ..
    with m have "fst (manage_dsa_media_servers loads dumps srv log ''delete'' server_name port
                      ip_addresses pool_shared_pipes virtual) =
                 cross_mark @ '' Error deleting media server '' @ apostrophe @ ?name
                   @ apostrophe @ '': '' @ str_of_error e"
      by simp
    then show ?thesis by (intro disjI1) (rule exI [where x = e])
  next
    assume "\<exists>rest. response_text dumps ?what response =
        Inr (cross_mark @ '' Failed to '' @ ?what @ '':'' @ rest)"
    then obtain rest where "response_text dumps ?what response =
        Inr (cross_mark @ '' Failed to '' @ ?what @ '':'' @ rest)" ..
    with m have "fst (manage_dsa_media_servers loads dumps srv log ''delete'' server_name
                         port ip_addresses pool_shared_pipes virtual) =
                 cross_mark @ '' Failed to delete media server '' @ apostrophe @ ?name
                   @ apostrophe @ '':'' @ rest"
      by simp
    then show ?thesis by (intro disjI2) (rule exI [where x = rest])
  qed
qed

text \<open>
  C2, as the code has it, for the six operations that write. \<open>config_disk_file_system\<close>
  and \<open>remove_disk_file_system\<close> read the outcome from the status of the answer alone:
  with \<open>CONFIG_DISK_FILE_SYSTEM_SUCCESSFUL\<close> they return the success report whatever
  \<open>valid\<close> says, and only print \<open>valid\<close>; with any other status they return the failure
  report, or the error text when the validation lists are malformed.
  \<open>delete_disk_file_systems\<close> does the same with the status \<open>DELETE_COMPONENT_SUCCESSFUL\<close>.
  The S3 config operation returns its "operation completed" text with the answer printed
  after it, for every answer. The media-server \<open>add\<close> and \<open>delete\<close> do go by \<open>valid\<close>:
  an answer whose \<open>valid\<close> is false or missing gives a "Failed to add" or an "Error
  adding" text, a "Failed to delete" or an "Error deleting" text.
\<close>

theorem outcome_follows_status:
  assumes "snd (config_disk_file_system srv log file_system_path max_files) =
             log @ [list_request, config_request file_systems]"
    and "srv (log @ [list_request]) (config_request file_systems) = Inr response"
    and "py_get response ''status'' JNull = Inr status"
  shows "(status = JStr ''CONFIG_DISK_FILE_SYSTEM_SUCCESSFUL'' \<longrightarrow>
          (\<exists>path_exists. fst (config_disk_file_system srv log file_system_path max_files) =
            py_join newline
              [card_index_dividers @ '' DSA Disk File System Configuration'',
               rule50,
               file_folder @ '' File System Path: '' @ file_system_path,
               page_facing_up @ '' Max Files: '' @ dec_int max_files,
               bar_chart @ '' Total File Systems: '' @ dec_nat (length file_systems),
               arrows_button @ '' Operation: '' @ (if path_exists then ''Update'' else ''Add''),
               [],
               check_mark_button @ '' Disk file system configured successfully'',
               bar_chart @ '' Status: CONFIG_DISK_FILE_SYSTEM_SUCCESSFUL'',
               heavy_check_mark @ '' Valid: ''
                 @ py_str (dict_get response ''valid'' (JBool False)),
               [], rule50,
               check_mark_button @ '' Disk file system configuration operation completed'']))
     \<and> (status \<noteq> JStr ''CONFIG_DISK_FILE_SYSTEM_SUCCESSFUL'' \<longrightarrow>
          (\<exists>e. fst (config_disk_file_system srv log file_system_path max_files) =
                 config_error file_system_path e)
          \<or> (\<exists>path_exists details.
                fst (config_disk_file_system srv log file_system_path max_files) =
                py_join newline
                  ([card_index_dividers @ '' DSA Disk File System Configuration'',
                    rule50,
                    file_folder @ '' File System Path: '' @ file_system_path,
                    page_facing_up @ '' Max Files: '' @ dec_int max_files,
                    bar_chart @ '' Total File Systems: '' @ dec_nat (length file_systems),
                    arrows_button @ '' Operation: ''
                      @ (if path_exists then ''Update'' else ''Add''),
                    [],
                    cross_mark @ '' Failed to configure disk file system'',
                    bar_chart @ '' Status: ''
                      @ py_str (dict_get response ''status'' (JStr ''Unknown'')),
                    heavy_check_mark @ '' Valid: ''
                      @ py_str (dict_get response ''valid'' (JBool False))]
                   @ details
                   @ [[], rule50,
                      check_mark_button
                        @ '' Disk file system configuration operation completed''])))
     \<and> (given accessId \<and> given accessKey \<and> truthy bucketsByRegion \<and> given acctName
          \<and> given bucketName
          \<and> srv' log' (aws_config_request (the accessId) (the accessKey) bucketsByRegion
                         (the bucketName) (the acctName)) = Inr response' \<longrightarrow>
          fst (manage_AWS_S3_backup_configurations srv' log' ''config'' accessId accessKey
                 bucketsByRegion bucketName acctName) =
            check_mark_button @ '' AWS backup solution configuration operation completed''
              @ newline @ ''Response: '' @ py_str response')
     \<and> (snd (remove_disk_file_system srv2 log2 file_system_path) =
            log2 @ [list_request, config_request file_systems_to_keep]
          \<and> srv2 (log2 @ [list_request]) (config_request file_systems_to_keep) = Inr response2
          \<and> py_get response2 ''status'' JNull = Inr status2 \<longrightarrow>
          (status2 = JStr ''CONFIG_DISK_FILE_SYSTEM_SUCCESSFUL'' \<longrightarrow>
             (\<exists>remaining. fst (remove_disk_file_system srv2 log2 file_system_path) =
               py_join newline
                 ([card_index_dividers @ '' DSA Disk File System Removal'',
                   rule50,
                   file_folder @ '' Removed File System: '' @ file_system_path,
                   bar_chart @ '' Remaining File Systems: '' @ dec_nat (length file_systems_to_keep),
                   [],
                   check_mark_button @ '' Disk file system removed successfully'',
                   bar_chart @ '' Status: CONFIG_DISK_FILE_SYSTEM_SUCCESSFUL'',
                   heavy_check_mark @ '' Valid: ''
                     @ py_str (dict_get response2 ''valid'' (JBool False))]
                  @ remaining
                  @ [[], rule50,
                     check_mark_button @ '' Disk file system removal operation completed''])))
          \<and> (status2 \<noteq> JStr ''CONFIG_DISK_FILE_SYSTEM_SUCCESSFUL'' \<longrightarrow>
             (\<exists>e. fst (remove_disk_file_system srv2 log2 file_system_path) = remove_error file_system_path e)
             \<or> (\<exists>details. fst (remove_disk_file_system srv2 log2 file_system_path) =
                   py_join newline
                     ([card_index_dividers @ '' DSA Disk File System Removal'',
                       rule50,
                       file_folder @ '' Removed File System: '' @ file_system_path,
                       bar_chart @ '' Remaining File Systems: '' @ dec_nat (length file_systems_to_keep),
                       [],
                       cross_mark @ '' Failed to remove disk file system'',
                       bar_chart @ '' Status: ''
                         @ py_str (dict_get response2 ''status'' (JStr ''Unknown'')),
                       heavy_check_mark @ '' Valid: ''
                         @ py_str (dict_get response2 ''valid'' (JBool False))]
                      @ details
                      @ [[], rule50,
                         check_mark_button
                           @ '' Disk file system removal operation completed'']))))
     \<and> (given server_name \<and> py_strip (the server_name) \<noteq> [] \<and> port = Some p \<and> 1 \<le> p
          \<and> p \<le> 65535 \<and> given ip_addresses
          \<and> loads (the ip_addresses) = Inr (JList (ip # ips))
          \<and> list_all has_ip_keys (ip # ips)
          \<and> srv3 log3 (add_request (the server_name) p (JList (ip # ips))) = Inr response3
          \<and> py_get response3 ''valid'' (JBool False) = Inr valid \<and> \<not> truthy valid \<longrightarrow>
          (\<exists>e. fst (manage_dsa_media_servers loads dumps srv3 log3 ''add'' server_name port
                      ip_addresses pool_shared_pipes virtual) =
                 cross_mark @ '' Error adding media server '' @ apostrophe @ the server_name
                   @ apostrophe @ '': '' @ str_of_error e)
          \<or> (\<exists>rest. fst (manage_dsa_media_servers loads dumps srv3 log3 ''add'' server_name
                         port ip_addresses pool_shared_pipes virtual) =
                 cross_mark @ '' Failed to add media server '' @ apostrophe @ the server_name
                   @ apostrophe @ '':'' @ rest))
     \<and> (srv4 log4 delete_all_request = Inr response4
          \<and> py_get response4 ''status'' JNull = Inr status4 \<longrightarrow>
          (status4 = JStr ''DELETE_COMPONENT_SUCCESSFUL'' \<longrightarrow>
             fst (delete_disk_file_systems srv4 log4) =
            py_join newline
              [card_index_dividers @ '' DSA Disk File System Deletion'',
               rule50,
               check_mark_button @ '' All disk file systems deleted successfully'',
               bar_chart @ '' Status: DELETE_COMPONENT_SUCCESSFUL'',
               heavy_check_mark @ '' Valid: ''
                 @ py_str (dict_get response4 ''valid'' (JBool False)),
               [], rule50,
               check_mark_button @ '' Disk file system deletion operation completed''])
          \<and> (status4 \<noteq> JStr ''DELETE_COMPONENT_SUCCESSFUL'' \<longrightarrow>
             (\<exists>e. fst (delete_disk_file_systems srv4 log4) =
                 cross_mark @ '' Error deleting disk file systems: '' @ str_of_error e)
             \<or> (\<exists>details. fst (delete_disk_file_systems srv4 log4) =
                py_join newline
                  ([card_index_dividers @ '' DSA Disk File System Deletion'',
                    rule50,
                    cross_mark @ '' Failed to delete disk file systems'',
                    bar_chart @ '' Status: ''
                      @ py_str (dict_get response4 ''status'' (JStr ''Unknown'')),
                    heavy_check_mark @ '' Valid: ''
                      @ py_str (dict_get response4 ''valid'' (JBool False))]
                   @ details
                   @ [[], rule50,
                      check_mark_button
                        @ '' Disk file system deletion operation completed'']))))
     \<and> (given server_name5
          \<and> srv5 log5 (delete_request (the server_name5) (virtual5 = Some True))
               = Inr response5
          \<and> py_get response5 ''valid'' (JBool False) = Inr valid5 \<and> \<not> truthy valid5 \<longrightarrow>
          (\<exists>e. fst (manage_dsa_media_servers loads dumps srv5 log5 ''delete'' server_name5
                      port5 ip_addresses5 pool_shared_pipes5 virtual5) =
                 cross_mark @ '' Error deleting media server '' @ apostrophe
                   @ the server_name5 @ apostrophe @ '': '' @ str_of_error e)
          \<or> (\<exists>rest. fst (manage_dsa_media_servers loads dumps srv5 log5 ''delete''
                         server_name5 port5 ip_addresses5 pool_shared_pipes5 virtual5) =
                 cross_mark @ '' Failed to delete media server '' @ apostrophe
                   @ the server_name5 @ apostrophe @ '':'' @ rest))"
    (is "?D1 \<and> ?D2 \<and> ?D3 \<and> (?RA \<longrightarrow> ?R) \<and> (?AA \<longrightarrow> ?A) \<and> (?DA \<longrightarrow> ?D) \<and> (?MA \<longrightarrow> ?M)")
proof -
  have disk: "?D1 \<and> ?D2 \<and> ?D3"
  proof (intro conjI impI)
    from config_written [OF assms(1,2)] obtain ex where f:
      "fst (config_disk_file_system srv log file_system_path max_files) =
         (case config_result_lines file_system_path max_files file_systems ex response of
            Inl e \<Rightarrow> config_error file_system_path e
          | Inr results \<Rightarrow> py_join newline results)" by blast
    {
      assume ok: "status = JStr ''CONFIG_DISK_FILE_SYSTEM_SUCCESSFUL''"
      show "\<exists>path_exists. fst (config_disk_file_system srv log file_system_path max_files) =
              py_join newline
                [card_index_dividers @ '' DSA Disk File System Configuration'',
                 rule50,
                 file_folder @ '' File System Path: '' @ file_system_path,
                 page_facing_up @ '' Max Files: '' @ dec_int max_files,
                 bar_chart @ '' Total File Systems: '' @ dec_nat (length file_systems),
                 arrows_button @ '' Operation: '' @ (if path_exists then ''Update'' else ''Add''),
                 [],
                 check_mark_button @ '' Disk file system configured successfully'',
                 bar_chart @ '' Status: CONFIG_DISK_FILE_SYSTEM_SUCCESSFUL'',
                 heavy_check_mark @ '' Valid: ''
                   @ py_str (dict_get response ''valid'' (JBool False)),
                 [], rule50,
                 check_mark_button @ '' Disk file system configuration operation completed'']"
        using f unfolding config_result_ok [OF assms(3) [unfolded ok]] sum.case
        by (rule exI [where x = ex])
    }
    {
      assume ne: "status \<noteq> JStr ''CONFIG_DISK_FILE_SYSTEM_SUCCESSFUL''"
      show "(\<exists>e. fst (config_disk_file_system srv log file_system_path max_files) =
                   config_error file_system_path e)
            \<or> (\<exists>path_exists details.
                  fst (config_disk_file_system srv log file_system_path max_files) =
                  py_join newline
                    ([card_index_dividers @ '' DSA Disk File System Configuration'',
                      rule50,
                      file_folder @ '' File System Path: '' @ file_system_path,
                      page_facing_up @ '' Max Files: '' @ dec_int max_files,
                      bar_chart @ '' Total File Systems: '' @ dec_nat (length file_systems),
                      arrows_button @ '' Operation: ''
                        @ (if path_exists then ''Update'' else ''Add''),
                      [],
                      cross_mark @ '' Failed to configure disk file system'',
                      bar_chart @ '' Status: ''
                        @ py_str (dict_get response ''status'' (JStr ''Unknown'')),
                      heavy_check_mark @ '' Valid: ''
                        @ py_str (dict_get response ''valid'' (JBool False))]
                     @ details
                     @ [[], rule50,
                        check_mark_button
                          @ '' Disk file system configuration operation completed'']))"
      proof (cases "validation_details response")
        case (Inl e)
        from f show ?thesis
          unfolding config_result_raises [OF assms(3) ne Inl] sum.case
          by (intro disjI1) (rule exI [where x = e])
      next
        case (Inr details)
        from f show ?thesis
          unfolding config_result_failed [OF assms(3) ne Inr] sum.case
          by (intro disjI2) (rule exI [where x = ex], rule exI [where x = details])
      qed
    }
    assume "given accessId \<and> given accessKey \<and> truthy bucketsByRegion \<and> given acctName
            \<and> given bucketName
            \<and> srv' log' (aws_config_request (the accessId) (the accessKey) bucketsByRegion
                           (the bucketName) (the acctName)) = Inr response'"
    then show "fst (manage_AWS_S3_backup_configurations srv' log' ''config'' accessId accessKey
                   bucketsByRegion bucketName acctName) =
              check_mark_button @ '' AWS backup solution configuration operation completed''
                @ newline @ ''Response: '' @ py_str response'"
      by (simp add: manage_s3_config)
  qed
  have rem: "?RA \<longrightarrow> ?R"
  proof (rule impI)
    assume x: ?RA
    show ?R
      by (rule remove_outcome [OF x [THEN conjunct1] x [THEN conjunct2, THEN conjunct1]
            x [THEN conjunct2, THEN conjunct2]])
  qed
  have add: "?AA \<longrightarrow> ?A"
    by (rule impI) (rule add_outcome)
  have del: "?DA \<longrightarrow> ?D"
  proof (rule impI)
    assume x: ?DA
    show ?D
      by (rule delete_outcome [where srv = srv4 and log = log4,
            OF x [THEN conjunct1] x [THEN conjunct2]])
  qed
  have mdel: "?MA \<longrightarrow> ?M"
    by (rule impI) (rule media_delete_outcome)
  show ?thesis
    by (rule conjI [OF disk [THEN conjunct1]
          conjI [OF disk [THEN conjunct2, THEN conjunct1]
            conjI [OF disk [THEN conjunct2, THEN conjunct2]
              conjI [OF rem conjI [OF add conjI [OF del mdel]]]]]])
qed

theorem outcome_follows_status_witness:
  "(\<exists>path_exists.
      fst (config_disk_file_system (service [] accepted_invalid) [] ''/backup'' 100) =
      py_join newline
        [card_index_dividers @ '' DSA Disk File System Configuration'',
         rule50,
         file_folder @ '' File System Path: '' @ ''/backup'',
         page_facing_up @ '' Max Files: '' @ dec_int 100,
         bar_chart @ '' Total File Systems: ''
           @ dec_nat (length [file_system ''/backup'' 100]),
         arrows_button @ '' Operation: '' @ (if path_exists then ''Update'' else ''Add''),
         [],
         check_mark_button @ '' Disk file system configured successfully'',
         bar_chart @ '' Status: CONFIG_DISK_FILE_SYSTEM_SUCCESSFUL'',
         heavy_check_mark @ '' Valid: ''
           @ py_str (dict_get accepted_invalid ''valid'' (JBool False)),
         [], rule50,
         check_mark_button @ '' Disk file system configuration operation completed''])
   \<and> ((\<exists>e. fst (config_disk_file_system (service [] rejected) [] ''/backup'' 100) =
               config_error ''/backup'' e)
        \<or> (\<exists>path_exists details.
              fst (config_disk_file_system (service [] rejected) [] ''/backup'' 100) =
              py_join newline
                ([card_index_dividers @ '' DSA Disk File System Configuration'',
                  rule50,
                  file_folder @ '' File System Path: '' @ ''/backup'',
                  page_facing_up @ '' Max Files: '' @ dec_int 100,
                  bar_chart @ '' Total File Systems: ''
                    @ dec_nat (length [file_system ''/backup'' 100]),
                  arrows_button @ '' Operation: ''
                    @ (if path_exists then ''Update'' else ''Add''),
                  [],
                  cross_mark @ '' Failed to configure disk file system'',
                  bar_chart @ '' Status: ''
                    @ py_str (dict_get rejected ''status'' (JStr ''Unknown'')),
                  heavy_check_mark @ '' Valid: ''
                    @ py_str (dict_get rejected ''valid'' (JBool False))]
                 @ details
                 @ [[], rule50,
                    check_mark_button
                      @ '' Disk file system configuration operation completed''])))
   \<and> fst (manage_AWS_S3_backup_configurations (service [] aws_rejected) [] ''config''
            (Some ''AKIAEXAMPLE'') (Some ''secret'') regions_example (Some ''backups'')
            (Some ''dsa'')) =
       check_mark_button @ '' AWS backup solution configuration operation completed''
         @ newline @ ''Response: '' @ py_str aws_rejected
   \<and> (\<exists>remaining.
         fst (remove_disk_file_system (service [file_system ''/backup'' 100] accepted_invalid)
                [] ''/backup'') =
         py_join newline
           ([card_index_dividers @ '' DSA Disk File System Removal'',
             rule50,
             file_folder @ '' Removed File System: '' @ ''/backup'',
             bar_chart @ '' Remaining File Systems: '' @ dec_nat (length ([] :: json list)),
             [],
             check_mark_button @ '' Disk file system removed successfully'',
             bar_chart @ '' Status: CONFIG_DISK_FILE_SYSTEM_SUCCESSFUL'',
             heavy_check_mark @ '' Valid: ''
               @ py_str (dict_get accepted_invalid ''valid'' (JBool False))]
            @ remaining
            @ [[], rule50,
               check_mark_button @ '' Disk file system removal operation completed'']))
   \<and> ((\<exists>e. fst (manage_dsa_media_servers example_loads example_dumps
                    (service [] media_rejected) [] ''add'' (Some ''media1'') (Some 15401)
                    (Some ip_text) (Some 50) None) =
               cross_mark @ '' Error adding media server '' @ apostrophe
                 @ the (Some ''media1'') @ apostrophe @ '': '' @ str_of_error e)
        \<or> (\<exists>rest. fst (manage_dsa_media_servers example_loads example_dumps
                    (service [] media_rejected) [] ''add'' (Some ''media1'') (Some 15401)
                    (Some ip_text) (Some 50) None) =
               cross_mark @ '' Failed to add media server '' @ apostrophe
                 @ the (Some ''media1'') @ apostrophe @ '':'' @ rest))
   \<and> fst (delete_disk_file_systems (service [] delete_accepted_invalid) []) =
            py_join newline
              [card_index_dividers @ '' DSA Disk File System Deletion'',
               rule50,
               check_mark_button @ '' All disk file systems deleted successfully'',
               bar_chart @ '' Status: DELETE_COMPONENT_SUCCESSFUL'',
               heavy_check_mark @ '' Valid: ''
                 @ py_str (dict_get delete_accepted_invalid ''valid'' (JBool False)),
               [], rule50,
               check_mark_button @ '' Disk file system deletion operation completed'']
   \<and> ((\<exists>e. fst (manage_dsa_media_servers example_loads example_dumps
                    (service [] media_rejected) [] ''delete'' (Some ''media1'') None None
                    None None) =
               cross_mark @ '' Error deleting media server '' @ apostrophe
                 @ the (Some ''media1'') @ apostrophe @ '': '' @ str_of_error e)
        \<or> (\<exists>rest. fst (manage_dsa_media_servers example_loads example_dumps
                    (service [] media_rejected) [] ''delete'' (Some ''media1'') None None
                    None None) =
               cross_mark @ '' Failed to delete media server '' @ apostrophe
                 @ the (Some ''media1'') @ apostrophe @ '':'' @ rest))"
proof -
  let ?ip = "JObj [(''ipAddress'', JStr ''10.0.0.5''), (''netmask'', JStr ''255.255.255.0'')]"
  have w1: "snd (config_disk_file_system (service [] accepted_invalid) [] ''/backup'' 100) =
        [] @ [list_request, config_request [file_system ''/backup'' 100]]"
    by code_simp
  have r1: "service [] accepted_invalid ([] @ [list_request])
      (config_request [file_system ''/backup'' 100]) = Inr accepted_invalid"
    by code_simp
  have s1: "py_get accepted_invalid ''status'' JNull
      = Inr (JStr ''CONFIG_DISK_FILE_SYSTEM_SUCCESSFUL'')"
    by code_simp
  have w2: "snd (config_disk_file_system (service [] rejected) [] ''/backup'' 100) =
        [] @ [list_request, config_request [file_system ''/backup'' 100]]"
    by code_simp
  have r2: "service [] rejected ([] @ [list_request])
      (config_request [file_system ''/backup'' 100]) = Inr rejected"
    by code_simp
  have s2: "py_get rejected ''status'' JNull = Inr (JStr ''CONFIG_DISK_FILE_SYSTEM_FAILED'')"
    by code_simp
  have ne: "JStr ''CONFIG_DISK_FILE_SYSTEM_FAILED'' \<noteq> JStr ''CONFIG_DISK_FILE_SYSTEM_SUCCESSFUL''"
    by code_simp
  have g: "given (Some ''AKIAEXAMPLE'') \<and> given (Some ''secret'') \<and> truthy regions_example
      \<and> given (Some ''dsa'') \<and> given (Some ''backups'')
      \<and> service [] aws_rejected []
          (aws_config_request (the (Some ''AKIAEXAMPLE'')) (the (Some ''secret''))
             regions_example (the (Some ''backups'')) (the (Some ''dsa''))) = Inr aws_rejected"
    by code_simp
  have k: "snd (remove_disk_file_system (service [file_system ''/backup'' 100] accepted_invalid)
               [] ''/backup'') = [] @ [list_request, config_request []]
      \<and> service [file_system ''/backup'' 100] accepted_invalid ([] @ [list_request])
          (config_request []) = Inr accepted_invalid
      \<and> py_get accepted_invalid ''status'' JNull
          = Inr (JStr ''CONFIG_DISK_FILE_SYSTEM_SUCCESSFUL'')"
    by code_simp
  have a: "given (Some ''media1'') \<and> py_strip (the (Some ''media1'')) \<noteq> []
      \<and> Some 15401 = Some (15401 :: int) \<and> 1 \<le> (15401 :: int) \<and> (15401 :: int) \<le> 65535
      \<and> given (Some ip_text)
      \<and> example_loads (the (Some ip_text)) = Inr (JList (?ip # []))
      \<and> list_all has_ip_keys (?ip # [])
      \<and> service [] media_rejected [] (add_request (the (Some ''media1'')) 15401
            (JList (?ip # []))) = Inr media_rejected
      \<and> py_get media_rejected ''valid'' (JBool False) = Inr (JBool False)
      \<and> \<not> truthy (JBool False)"
    by code_simp
  have d: "service [] delete_accepted_invalid [] delete_all_request = Inr delete_accepted_invalid
      \<and> py_get delete_accepted_invalid ''status'' JNull
          = Inr (JStr ''DELETE_COMPONENT_SUCCESSFUL'')"
    by code_simp
  have m: "given (Some ''media1'')
      \<and> service [] media_rejected []
          (delete_request (the (Some ''media1'')) ((None :: bool option) = Some True))
          = Inr media_rejected
      \<and> py_get media_rejected ''valid'' (JBool False) = Inr (JBool False)
      \<and> \<not> truthy (JBool False)"
    by code_simp
  note t1 = outcome_follows_status [where srv = "service [] accepted_invalid" and log = "[]"
      and srv' = "service [] aws_rejected" and log' = "[]" and accessId = "Some ''AKIAEXAMPLE''"
      and accessKey = "Some ''secret''" and bucketsByRegion = regions_example
      and bucketName = "Some ''backups''" and acctName = "Some ''dsa''"
      and response' = aws_rejected
      and ?srv2.0 = "service [file_system ''/backup'' 100] accepted_invalid" and ?log2.0 = "[]"
      and file_systems_to_keep = "[]" and ?response2.0 = accepted_invalid
      and ?status2.0 = "JStr ''CONFIG_DISK_FILE_SYSTEM_SUCCESSFUL''"
      and loads = example_loads and dumps = example_dumps
      and ?srv3.0 = "service [] media_rejected" and ?log3.0 = "[]"
      and server_name = "Some ''media1''" and port = "Some 15401" and p = 15401
      and ip_addresses = "Some ip_text" and ip = ?ip and ips = "[]"
      and ?response3.0 = media_rejected and valid = "JBool False"
      and pool_shared_pipes = "Some 50" and virtual = None
      and ?srv4.0 = "service [] delete_accepted_invalid" and ?log4.0 = "[]"
      and ?response4.0 = delete_accepted_invalid
      and ?status4.0 = "JStr ''DELETE_COMPONENT_SUCCESSFUL''"
      and ?srv5.0 = "service [] media_rejected" and ?log5.0 = "[]"
      and ?server_name5.0 = "Some ''media1''" and ?virtual5.0 = None
      and ?response5.0 = media_rejected and ?valid5.0 = "JBool False"
      and ?port5.0 = None and ?ip_addresses5.0 = None and ?pool_shared_pipes5.0 = None,
      OF w1 r1 s1]
  note t2 = outcome_follows_status [where srv = "service [] rejected" and log = "[]", OF w2 r2 s2]
  from t1 [THEN conjunct1, THEN mp, OF refl]
    t2 [THEN conjunct2, THEN conjunct1, THEN mp, OF ne]
    t1 [THEN conjunct2, THEN conjunct2, THEN conjunct1, THEN mp, OF g]
    t1 [THEN conjunct2, THEN conjunct2, THEN conjunct2, THEN conjunct1, THEN mp, OF k,
        THEN conjunct1, THEN mp, OF refl]
    t1 [THEN conjunct2, THEN conjunct2, THEN conjunct2, THEN conjunct2, THEN conjunct1,
        THEN mp, OF a]
    t1 [THEN conjunct2, THEN conjunct2, THEN conjunct2, THEN conjunct2, THEN conjunct2,
        THEN conjunct1, THEN mp, OF d, THEN conjunct1, THEN mp, OF refl]
    t1 [THEN conjunct2, THEN conjunct2, THEN conjunct2, THEN conjunct2, THEN conjunct2,
        THEN conjunct2, THEN mp, OF m]
  show ?thesis by (intro conjI)
qed

text \<open>
  C2 as it is stated fails: an answer with \<open>valid: false\<close> and the success status is
  reported as a success by \<open>config_disk_file_system\<close>, and the S3 config operation
  reports "completed" for an answer with \<open>valid: false\<close>.
\<close>

theorem invalid_reported_as_success:
  "py_get accepted_invalid ''valid'' JNull = Inr (JBool False)
   \<and> fst (config_disk_file_system (service [] accepted_invalid) [] ''/backup'' 100) =
     py_join newline
       [card_index_dividers @ '' DSA Disk File System Configuration'',
        rule50,
        file_folder @ '' File System Path: /backup'',
        page_facing_up @ '' Max Files: 100'',
        bar_chart @ '' Total File Systems: 1'',
        arrows_button @ '' Operation: Add'',
        [],
        check_mark_button @ '' Disk file system configured successfully'',
        bar_chart @ '' Status: CONFIG_DISK_FILE_SYSTEM_SUCCESSFUL'',
        heavy_check_mark @ '' Valid: False'',
        [], rule50,
        check_mark_button @ '' Disk file system configuration operation completed'']
   \<and> py_get aws_rejected ''valid'' JNull = Inr (JBool False)
   \<and> fst (manage_AWS_S3_backup_configurations (service [] aws_rejected) [] ''config''
            (Some ''AKIAEXAMPLE'') (Some ''secret'') regions_example (Some ''backups'')
            (Some ''dsa'')) =
     check_mark_button @ '' AWS backup solution configuration operation completed''
       @ newline @ ''Response: {'' @ apostrophe @ ''status'' @ apostrophe @ '': ''
       @ apostrophe @ ''CONFIG_AWS_APP_FAILED'' @ apostrophe @ '', '' @ apostrophe
       @ ''valid'' @ apostrophe @ '': False}''"
  by code_simp

end
